theory Spec2Isabelle
  imports Main "HOL-Library.AList"
begin

section \<open>Data model of the tenants updater (update/update.go)\<close>

text \<open>
  \<^verbatim>\<open>environment.Type\<close> is a Go string type; a Go \<^verbatim>\<open>error\<close> is modelled by the message it
  carries. Times and durations are integers (nanoseconds); sums and negations of durations
  wrap around as they do on \<^verbatim>\<open>int64\<close>.
\<close>

type_synonym envType = string

datatype error = Error string

text \<open>
  Modelled from the spec: the status constants are declared outside update.go; these are the
  five update.go compares with.
\<close>

datatype Status = Finished | Updating | Failed | Killed | Incomplete

text \<open>
  Modelled from the spec: the declaration of the \<^verbatim>\<open>TenantsUpdate\<close> struct (the RunState row) is
  not part of update.go. The fields are the ones update.go reads and writes (\<^verbatim>\<open>Status\<close>,
  \<^verbatim>\<open>LastTimeUpdated\<close>, \<^verbatim>\<open>FailedCount\<close>, \<^verbatim>\<open>CanContinue\<close>) plus the per-environment-type
  current-version markers of the data model.
\<close>

record TenantsUpdate =
  Status :: Status
  LastTimeUpdated :: int
  FailedCount :: int
  CanContinue :: bool
  CurrentVersions :: "(envType \<times> string) list"

text \<open>
  Modelled from the spec: \<^verbatim>\<open>tenant.Tenant\<close>, \<^verbatim>\<open>tenant.Namespace\<close> and the namespace states are
  declared outside update.go. The fields are the ones update.go reads; \<open>tenant_Failed\<close> is the
  state \<^verbatim>\<open>tenant.Failed\<close>.
\<close>

datatype NamespaceState = tenant_Failed | tenant_Ready | tenant_Other string

record Namespace =
  Name :: string
  Type :: envType
  Version :: string
  State :: NamespaceState

record Tenant =
  ID :: string
  OSUsername :: string

text \<open>
  Modelled from the spec: \<^verbatim>\<open>VersionManager\<close> and its two operations live outside update.go.
  A manager owns a group of environment types and the target version; it is up to date when
  the marker of each of its types is at the target version, and committing sets those markers.
\<close>

record VersionManager =
  EnvTypes :: "envType list"
  TargetVersion :: string

definition IsVersionUpToDate :: "VersionManager \<Rightarrow> TenantsUpdate \<Rightarrow> bool" where
  "IsVersionUpToDate vm tu =
     list_all (\<lambda>t. map_of (CurrentVersions tu) t = Some (TargetVersion vm)) (EnvTypes vm)"

definition SetCurrentVersion :: "VersionManager \<Rightarrow> TenantsUpdate \<Rightarrow> TenantsUpdate" where
  "SetCurrentVersion vm tu =
     tu\<lparr>CurrentVersions :=
          fold (\<lambda>t m. AList.update t (TargetVersion vm) m) (EnvTypes vm) (CurrentVersions tu)\<rparr>"

subsection \<open>Filters\<close>

text \<open>
  \<^verbatim>\<open>FilterEnvType\<close> is an interface with the two implementations \<^verbatim>\<open>allTypes\<close> (a string type)
  and \<^verbatim>\<open>OneType\<close>. Comparing two interface values with \<^verbatim>\<open>!=\<close> compares dynamic type and value,
  which is equality of this datatype.
\<close>

datatype FilterEnvType = allTypes string | OneType envType

definition AllTypes :: FilterEnvType where
  "AllTypes = allTypes ''no-limit''"

fun IsOk :: "FilterEnvType \<Rightarrow> envType \<Rightarrow> bool" where
  "IsOk (allTypes f) envType = True"
| "IsOk (OneType f) envType = (envType = f)"

fun GetLimit :: "FilterEnvType \<Rightarrow> string" where
  "GetLimit (allTypes f) = f"
| "GetLimit (OneType f) = f"

text \<open>
  The fields \<^verbatim>\<open>db\<close>, \<^verbatim>\<open>config\<close>, \<^verbatim>\<open>clusterService\<close> and \<^verbatim>\<open>updateExecutor\<close> of \<^verbatim>\<open>TenantsUpdater\<close>
  are handles of collaborators; their behaviour is the record \<open>env\<close> below.
\<close>

record TenantsUpdater =
  filterEnvType :: FilterEnvType
  limitToCluster :: string

subsection \<open>The world: the RunState row, the clock and the log of calls\<close>

datatype repoOp =
    PrepareForUpdatingOp | GetTenantsUpdateOp | SaveTenantsUpdateOp | UpdateStatusOp
  | UpdateLastTimeUpdatedOp | IncrementFailedCountOp | CanContinueOp

text \<open>
  Every call that leaves update.go appends one event. \<open>RepoCall op l\<close> is a repository call
  made through a transaction that holds (\<open>l\<close>) or does not hold the exclusive lock.
\<close>

datatype event =
    TxBegin
  | LockTable
  | RepoCall repoOp bool
  | FetchClusters
  | FetchTenants string
  | FetchNamespaces string
  | ExecutorUpdate string "envType list" bool
  | SetVersion VersionManager
  | Sleep int
  | LogInfo string
  | LogError string

record world =
  runState :: TenantsUpdate
  now :: int
  ops :: nat
  trace :: "event list"

text \<open>
  The collaborators, all outside update.go, are parameters: the two queries of
  \<^verbatim>\<open>tenant.DBService\<close>, \<^verbatim>\<open>GetNamespaces\<close> of the tenant repository, \<^verbatim>\<open>Update\<close> of the \<^verbatim>\<open>Executor\<close>,
  \<^verbatim>\<open>ConstructCompleteVersion\<close> of the mapped templates, the list \<^verbatim>\<open>RetrieveVersionManagers()\<close>,
  \<^verbatim>\<open>environment.DefaultEnvTypes\<close>, \<^verbatim>\<open>configuration.Commit\<close>, the two configured durations, and
  \<^verbatim>\<open>fmt.Errorf\<close> of the standard library, which reads its argument as a format string (a
  \<^verbatim>\<open>%\<close> in it is rewritten), so the error it returns is left open.
  Their answers are oracles indexed by the number of calls made so far (\<open>ops\<close>), so that any
  behaviour of the database (\<open>dbFails\<close>), of the executor and of other actors writing the
  RunState row between two transactions (\<open>interfere\<close>) can be given. The clock \<open>now\<close> advances
  with \<^verbatim>\<open>time.Sleep\<close>.
\<close>

record env =
  dbFails :: "nat \<Rightarrow> bool"
  interfere :: "nat \<Rightarrow> TenantsUpdate \<Rightarrow> TenantsUpdate"
  GetClustersToUpdate :: "nat \<Rightarrow> (envType \<times> string) list \<Rightarrow> string \<Rightarrow> error + string list"
  GetTenantsToUpdate ::
    "nat \<Rightarrow> (envType \<times> string) list \<Rightarrow> nat \<Rightarrow> string \<Rightarrow> string \<Rightarrow> error + Tenant list"
  GetNamespaces :: "nat \<Rightarrow> string \<Rightarrow> error + Namespace list"
  Update :: "nat \<Rightarrow> Tenant \<Rightarrow> envType list \<Rightarrow> bool \<Rightarrow> error option"
  ConstructCompleteVersion :: "envType \<Rightarrow> string"
  RetrieveVersionManagers :: "VersionManager list"
  DefaultEnvTypes :: "envType list"
  Commit :: string
  GetAutomatedUpdateRetrySleep :: int
  GetAutomatedUpdateTimeGap :: int
  fmt_Errorf :: "string \<Rightarrow> error"

definition emit :: "event \<Rightarrow> world \<Rightarrow> world" where
  "emit ev w = w\<lparr>trace := trace w @ [ev]\<rparr>"

definition tick :: "world \<Rightarrow> world" where
  "tick w = w\<lparr>ops := Suc (ops w)\<rparr>"

text \<open>\<^verbatim>\<open>time.Sleep(d)\<close> returns at once when \<open>d \<le> 0\<close>.\<close>

definition time_Sleep :: "int \<Rightarrow> world \<Rightarrow> world" where
  "time_Sleep d w = emit (Sleep d) (w\<lparr>now := now w + max 0 d\<rparr>)"

text \<open>Go's integer division truncates towards zero.\<close>

definition go_quot :: "int \<Rightarrow> int \<Rightarrow> int" where
  "go_quot a b = sgn a * sgn b * (\<bar>a\<bar> div \<bar>b\<bar>)"

text \<open>
  A \<^verbatim>\<open>time.Duration\<close> is an \<^verbatim>\<open>int64\<close> count of nanoseconds, and sums and negations of durations
  wrap around: \<open>int64 x\<close> is the value of the 64-bit two's complement number that holds \<open>x\<close>.
\<close>

definition int64 :: "int \<Rightarrow> int" where
  "int64 x = (x + 9223372036854775808) mod 18446744073709551616 - 9223372036854775808"

subsection \<open>Transactions, the lock and the repository\<close>

datatype txHandle = Tx (exclusiveLock: bool)

datatype Repository = NewRepository (tx: txHandle)

text \<open>
  Modelled from the spec: \<^verbatim>\<open>dbsupport.Transaction\<close> is not part of update.go. It begins a
  transaction (which may fail), runs the closure and rolls the row back when the closure
  returns an error. \<open>c\<close> holds the variables the closure captures and assigns. Writes that
  other actors committed since the last transaction become visible at the begin.
\<close>

definition Transaction ::
  "env \<Rightarrow> (txHandle \<Rightarrow> 'c \<Rightarrow> world \<Rightarrow> (error option \<times> 'c) \<times> world) \<Rightarrow> 'c \<Rightarrow> world
     \<Rightarrow> (error option \<times> 'c) \<times> world" where
  "Transaction e todo c w =
     (let w1 = emit TxBegin (tick (w\<lparr>runState := interfere e (ops w) (runState w)\<rparr>))
      in if dbFails e (ops w) then ((Some (Error ''begin failed''), c), w1)
         else (case todo (Tx False) c w1 of
                 ((Some err, c'), w2) \<Rightarrow> ((Some err, c'), w2\<lparr>runState := runState w1\<rparr>)
               | ((None, c'), w2) \<Rightarrow> ((None, c'), w2)))"

text \<open>
  Modelled from the spec: \<^verbatim>\<open>lock\<close> is not part of update.go. It takes the exclusive lock on the
  RunState row in the given transaction (which may fail) and hands a repository on that
  transaction to the closure.
\<close>

definition lock ::
  "env \<Rightarrow> (Repository \<Rightarrow> 'c \<Rightarrow> world \<Rightarrow> (error option \<times> 'c) \<times> world)
     \<Rightarrow> txHandle \<Rightarrow> 'c \<Rightarrow> world \<Rightarrow> (error option \<times> 'c) \<times> world" where
  "lock e do t c w =
     (let w1 = emit LockTable (tick w)
      in if dbFails e (ops w) then ((Some (Error ''lock failed''), c), w1)
         else do (NewRepository (Tx True)) c w1)"

text \<open>
  Modelled from the spec: the seven operations of the \<^verbatim>\<open>Repository\<close> interface are declared
  outside update.go. Each is one database call that may fail; a failed call changes nothing.
\<close>

definition repoCall :: "env \<Rightarrow> Repository \<Rightarrow> repoOp \<Rightarrow> world \<Rightarrow> bool \<times> world" where
  "repoCall e repo op w =
     (dbFails e (ops w), emit (RepoCall op (exclusiveLock (tx repo))) (tick w))"

definition repo_PrepareForUpdating :: "env \<Rightarrow> Repository \<Rightarrow> world \<Rightarrow> error option \<times> world" where
  "repo_PrepareForUpdating e repo w =
     (case repoCall e repo PrepareForUpdatingOp w of
        (True, w1) \<Rightarrow> (Some (Error ''PrepareForUpdating failed''), w1)
      | (False, w1) \<Rightarrow>
          (None, w1\<lparr>runState := (runState w1)\<lparr>Status := Updating, FailedCount := 0,
                                               CanContinue := True\<rparr>\<rparr>))"

definition repo_GetTenantsUpdate ::
  "env \<Rightarrow> Repository \<Rightarrow> world \<Rightarrow> (error + TenantsUpdate) \<times> world" where
  "repo_GetTenantsUpdate e repo w =
     (case repoCall e repo GetTenantsUpdateOp w of
        (True, w1) \<Rightarrow> (Inl (Error ''GetTenantsUpdate failed''), w1)
      | (False, w1) \<Rightarrow> (Inr (runState w1), w1))"

definition repo_SaveTenantsUpdate ::
  "env \<Rightarrow> Repository \<Rightarrow> TenantsUpdate \<Rightarrow> world \<Rightarrow> error option \<times> world" where
  "repo_SaveTenantsUpdate e repo tu w =
     (case repoCall e repo SaveTenantsUpdateOp w of
        (True, w1) \<Rightarrow> (Some (Error ''SaveTenantsUpdate failed''), w1)
      | (False, w1) \<Rightarrow> (None, w1\<lparr>runState := tu\<rparr>))"

definition repo_UpdateStatus ::
  "env \<Rightarrow> Repository \<Rightarrow> Status \<Rightarrow> world \<Rightarrow> error option \<times> world" where
  "repo_UpdateStatus e repo s w =
     (case repoCall e repo UpdateStatusOp w of
        (True, w1) \<Rightarrow> (Some (Error ''UpdateStatus failed''), w1)
      | (False, w1) \<Rightarrow> (None, w1\<lparr>runState := (runState w1)\<lparr>Status := s\<rparr>\<rparr>))"

definition repo_UpdateLastTimeUpdated ::
  "env \<Rightarrow> Repository \<Rightarrow> world \<Rightarrow> error option \<times> world" where
  "repo_UpdateLastTimeUpdated e repo w =
     (case repoCall e repo UpdateLastTimeUpdatedOp w of
        (True, w1) \<Rightarrow> (Some (Error ''UpdateLastTimeUpdated failed''), w1)
      | (False, w1) \<Rightarrow> (None, w1\<lparr>runState := (runState w1)\<lparr>LastTimeUpdated := now w1\<rparr>\<rparr>))"

definition repo_IncrementFailedCount ::
  "env \<Rightarrow> Repository \<Rightarrow> world \<Rightarrow> error option \<times> world" where
  "repo_IncrementFailedCount e repo w =
     (case repoCall e repo IncrementFailedCountOp w of
        (True, w1) \<Rightarrow> (Some (Error ''IncrementFailedCount failed''), w1)
      | (False, w1) \<Rightarrow>
          (None, w1\<lparr>runState := (runState w1)\<lparr>FailedCount := FailedCount (runState w1) + 1\<rparr>\<rparr>))"

text \<open>A failed \<^verbatim>\<open>CanContinue\<close> returns the zero value \<^verbatim>\<open>false\<close> with its error.\<close>

definition repo_CanContinue ::
  "env \<Rightarrow> Repository \<Rightarrow> world \<Rightarrow> (bool \<times> error option) \<times> world" where
  "repo_CanContinue e repo w =
     (case repoCall e repo CanContinueOp w of
        (True, w1) \<Rightarrow> ((False, Some (Error ''CanContinue failed'')), w1)
      | (False, w1) \<Rightarrow> ((CanContinue (runState w1), None), w1))"

section \<open>The updater\<close>

subsection \<open>Version check (\<^verbatim>\<open>checkVersions\<close>, \<^verbatim>\<open>addIfNotPresent\<close>)\<close>

fun found_in :: "envType list \<Rightarrow> envType \<Rightarrow> bool" where
  "found_in [] toAddType = False"
| "found_in (envType # types) toAddType =
     (if envType = toAddType then True else found_in types toAddType)"

fun addIfNotPresent :: "envType list \<Rightarrow> envType list \<Rightarrow> envType list" where
  "addIfNotPresent types [] = types"
| "addIfNotPresent types (toAddType # toAdd) =
     addIfNotPresent (if \<not> found_in types toAddType then types @ [toAddType] else types) toAdd"

fun checkVersions_loop ::
  "VersionManager list \<Rightarrow> TenantsUpdate \<Rightarrow> envType list \<Rightarrow> envType list" where
  "checkVersions_loop [] tu types = types"
| "checkVersions_loop (versionManager # vms) tu types =
     checkVersions_loop vms tu
       (if \<not> IsVersionUpToDate versionManager tu
        then addIfNotPresent types (EnvTypes versionManager) else types)"

definition checkVersions :: "env \<Rightarrow> TenantsUpdate \<Rightarrow> error + envType list" where
  "checkVersions e tu = Inr (checkVersions_loop (RetrieveVersionManagers e) tu [])"

definition IsOlderThanTimeout :: "env \<Rightarrow> int \<Rightarrow> world \<Rightarrow> bool" where
  "IsOlderThanTimeout e when w = (when < now w + int64 (- GetAutomatedUpdateRetrySleep e))"

subsection \<open>One tenant (\<^verbatim>\<open>updateTenant\<close>)\<close>

fun firstToUpdate :: "envType \<Rightarrow> string \<Rightarrow> Namespace list \<Rightarrow> Namespace option" where
  "firstToUpdate envType version [] = None"
| "firstToUpdate envType version (ns # namespaces) =
     (if Type ns = envType \<and> (Version ns \<noteq> version \<or> State ns = tenant_Failed)
      then Some ns else firstToUpdate envType version namespaces)"

text \<open>
  The loop over \<^verbatim>\<open>typesWithVersion\<close>. A Go map is iterated in no fixed order; the association
  list fixes one. The result is (\<^verbatim>\<open>envTypesToUpdate\<close>, \<^verbatim>\<open>nsNamesToUpdate\<close>).
\<close>

fun toUpdate_loop ::
  "(envType \<times> string) list \<Rightarrow> Namespace list \<Rightarrow> envType list \<times> string list
     \<Rightarrow> envType list \<times> string list" where
  "toUpdate_loop [] namespaces acc = acc"
| "toUpdate_loop ((envType, version) # rest) namespaces (envTypesToUpdate, nsNamesToUpdate) =
     toUpdate_loop rest namespaces
       (case firstToUpdate envType version namespaces of
          None \<Rightarrow> (envTypesToUpdate, nsNamesToUpdate)
        | Some ns \<Rightarrow> (envTypesToUpdate @ [envType], nsNamesToUpdate @ [Name ns]))"

text \<open>A closure that captures no variable of its caller.\<close>

definition closure0 ::
  "(Repository \<Rightarrow> world \<Rightarrow> error option \<times> world)
     \<Rightarrow> Repository \<Rightarrow> unit \<Rightarrow> world \<Rightarrow> (error option \<times> unit) \<times> world" where
  "closure0 f repo c w = (case f repo w of (err, w') \<Rightarrow> ((err, c), w'))"

definition updateTenant ::
  "env \<Rightarrow> Tenant \<Rightarrow> (envType \<times> string) list \<Rightarrow> world \<Rightarrow> world" where
  "updateTenant e tnnt typesWithVersion w =
     (let w1 = emit (FetchNamespaces (ID tnnt)) (tick w)
      in case GetNamespaces e (ops w) (ID tnnt) of
           Inl err \<Rightarrow>
             emit (LogError ''unable to get current tenant namespaces during cluster-wide update'') w1
         | Inr namespaces \<Rightarrow>
             (let envTypesToUpdate = fst (toUpdate_loop typesWithVersion namespaces ([], []));
                  w2 = emit (LogInfo ''starting update of tenant for outdated namespaces'') w1;
                  err = Update e (ops w2) tnnt envTypesToUpdate False;
                  w3 = emit (ExecutorUpdate (ID tnnt) envTypesToUpdate (err \<noteq> None)) (tick w2)
              in if err \<noteq> None then
                   (case Transaction e (lock e (closure0 (repo_IncrementFailedCount e))) () w3 of
                      ((errIncr, _), w4) \<Rightarrow>
                        emit (LogError ''unable to automatically update tenant'')
                          (if errIncr \<noteq> None
                           then emit (LogError ''unable to increment failed_count'') w4 else w4))
                 else emit (LogInfo ''update of tenant for outdated namespace finished'') w3))"

subsection \<open>One batch (\<^verbatim>\<open>updateTenants\<close>)\<close>

text \<open>
  The closure of the per-tenant check: it assigns the captured \<^verbatim>\<open>canContinue\<close>. It builds its
  repository with \<^verbatim>\<open>NewRepository(tx)\<close> and is passed to \<^verbatim>\<open>Transaction\<close> as it is.
\<close>

definition updateTenants_tx ::
  "env \<Rightarrow> txHandle \<Rightarrow> bool \<Rightarrow> world \<Rightarrow> (error option \<times> bool) \<times> world" where
  "updateTenants_tx e t canContinue w =
     (case repo_CanContinue e (NewRepository t) w of
        ((canContinue', err), w') \<Rightarrow> ((err, canContinue'), w'))"

fun updateTenants_loop ::
  "env \<Rightarrow> Tenant list \<Rightarrow> (envType \<times> string) list \<Rightarrow> bool \<Rightarrow> world \<Rightarrow> bool \<times> world" where
  "updateTenants_loop e [] typesWithVersion canContinue w = (canContinue, w)"
| "updateTenants_loop e (tnnt # tenants) typesWithVersion canContinue w =
     (case Transaction e (updateTenants_tx e) canContinue w of
        ((err, canContinue'), w1) \<Rightarrow>
          if \<not> canContinue' \<or> err \<noteq> None
          then (canContinue', emit (LogInfo ''stopping tenants update process'') w1)
          else updateTenants_loop e tenants typesWithVersion canContinue'
                 (time_Sleep (GetAutomatedUpdateTimeGap e)
                    (updateTenant e tnnt typesWithVersion w1)))"

text \<open>
  The \<^verbatim>\<open>err\<close> that is returned is the one declared before the loop; the loop declares its
  own \<^verbatim>\<open>err\<close> with \<^verbatim>\<open>:=\<close>, so the returned one is always \<^verbatim>\<open>nil\<close>.
\<close>

definition updateTenants ::
  "env \<Rightarrow> Tenant list \<Rightarrow> (envType \<times> string) list \<Rightarrow> world
     \<Rightarrow> (bool \<times> error option) \<times> world" where
  "updateTenants e tenants typesWithVersion w =
     (case updateTenants_loop e tenants typesWithVersion True w of
        (canContinue, w') \<Rightarrow> ((canContinue, None), w'))"

subsection \<open>One cluster (\<^verbatim>\<open>updateForCluster\<close>)\<close>

text \<open>
  The \<^verbatim>\<open>for\<close> loop has no bound: the first argument is the number of batches the model may
  fetch, and \<open>None\<close> means that the loop has not ended within it.
\<close>

fun updateForCluster ::
  "nat \<Rightarrow> env \<Rightarrow> string \<Rightarrow> (envType \<times> string) list \<Rightarrow> world
     \<Rightarrow> (error option \<times> world) option" where
  "updateForCluster 0 e clusterURL typesWithVersion w = None"
| "updateForCluster (Suc fuel) e clusterURL typesWithVersion w =
     (let w1 = emit (FetchTenants clusterURL) (tick w)
      in case GetTenantsToUpdate e (ops w) typesWithVersion 100 (Commit e) clusterURL of
           Inl err \<Rightarrow> Some (Some err, w1)
         | Inr toUpdate \<Rightarrow>
             if length toUpdate = 0 then Some (None, w1)
             else
               (case updateTenants e toUpdate typesWithVersion
                       (emit (LogInfo ''starting update for next batch of outdated/failed tenants'') w1) of
                  ((canContinue, err), w2) \<Rightarrow>
                    if err \<noteq> None then Some (err, w2)
                    else if \<not> canContinue then Some (None, w2)
                    else
                      (case Transaction e (lock e (closure0 (repo_UpdateLastTimeUpdated e))) () w2 of
                         ((err', _), w3) \<Rightarrow>
                           if err' \<noteq> None then Some (err', w3)
                           else updateForCluster fuel e clusterURL typesWithVersion w3)))"

subsection \<open>Finalization (\<^verbatim>\<open>setStatusAndVersionsAfterUpdate\<close>)\<close>

definition statusAfterUpdate :: "TenantsUpdater \<Rightarrow> TenantsUpdate \<Rightarrow> Status" where
  "statusAfterUpdate u tenantUpdate =
     (if \<not> CanContinue tenantUpdate then Killed
      else if FailedCount tenantUpdate > 0 then Failed
      else if filterEnvType u \<noteq> AllTypes \<or> limitToCluster u \<noteq> '''' then Incomplete
      else Finished)"

fun isOk_loop :: "FilterEnvType \<Rightarrow> envType list \<Rightarrow> bool \<Rightarrow> bool" where
  "isOk_loop f [] isOk = isOk"
| "isOk_loop f (envType # envTypes) isOk = isOk_loop f envTypes (isOk \<and> IsOk f envType)"

fun versionManagers_loop ::
  "TenantsUpdater \<Rightarrow> VersionManager list \<Rightarrow> TenantsUpdate \<Rightarrow> world \<Rightarrow> TenantsUpdate \<times> world" where
  "versionManagers_loop u [] tenantUpdate w = (tenantUpdate, w)"
| "versionManagers_loop u (versionManager # vms) tenantUpdate w =
     (if isOk_loop (filterEnvType u) (EnvTypes versionManager) True
      then versionManagers_loop u vms (SetCurrentVersion versionManager tenantUpdate)
             (emit (SetVersion versionManager) w)
      else versionManagers_loop u vms tenantUpdate w)"

definition setStatusAndVersionsAfterUpdate ::
  "TenantsUpdater \<Rightarrow> env \<Rightarrow> Repository \<Rightarrow> world \<Rightarrow> error option \<times> world" where
  "setStatusAndVersionsAfterUpdate u e repo w =
     (case repo_GetTenantsUpdate e repo w of
        (Inl err, w1) \<Rightarrow> (Some err, w1)
      | (Inr tenantUpdate, w1) \<Rightarrow>
          (case versionManagers_loop u (RetrieveVersionManagers e)
                  (tenantUpdate\<lparr>Status := statusAfterUpdate u tenantUpdate\<rparr>) w1 of
             (tenantUpdate', w2) \<Rightarrow>
               repo_SaveTenantsUpdate e repo tenantUpdate'
                 (emit (LogInfo ''the whole tenants update process has been finished'') w2)))"

subsection \<open>One pass over the clusters (\<^verbatim>\<open>updateTenantsForTypes\<close>)\<close>

fun typesWithVersion_loop ::
  "TenantsUpdater \<Rightarrow> env \<Rightarrow> envType list \<Rightarrow> (envType \<times> string) list
     \<Rightarrow> (envType \<times> string) list" where
  "typesWithVersion_loop u e [] typesWithVersion = typesWithVersion"
| "typesWithVersion_loop u e (envType # envTypes) typesWithVersion =
     typesWithVersion_loop u e envTypes
       (if IsOk (filterEnvType u) envType
        then AList.update envType (ConstructCompleteVersion e envType) typesWithVersion
        else typesWithVersion)"

text \<open>
  Modelled from the spec: \<^verbatim>\<open>utils.ListErrorsInMessage\<close> is not part of update.go. It joins the
  errors taken from the channel into one message, which is empty when there is no error.
\<close>

fun errorText :: "error \<Rightarrow> string" where
  "errorText (Error m) = m"

definition ListErrorsInMessage :: "error list \<Rightarrow> nat \<Rightarrow> string" where
  "ListErrorsInMessage errs numOfItems =
     (if errs = [] then ''''
      else ''there were found following errors:''
           @ concat (map (\<lambda>er. CHR 0x0A # errorText er) errs))"

text \<open>
  The goroutines, one per cluster. Each runs \<^verbatim>\<open>updateForCluster\<close> and sends its error, if
  any, to the channel; \<^verbatim>\<open>wg.Wait()\<close> joins them all. The model runs them one after the other in
  the order of the list, which is one of the schedules of the program.
\<close>

fun runClusters ::
  "nat \<Rightarrow> env \<Rightarrow> string list \<Rightarrow> (envType \<times> string) list \<Rightarrow> world
     \<Rightarrow> (error list \<times> world) option" where
  "runClusters fuel e [] typesAndVersion w = Some ([], w)"
| "runClusters fuel e (clusterURL # clusters) typesAndVersion w =
     (case updateForCluster fuel e clusterURL typesAndVersion w of
        None \<Rightarrow> None
      | Some (None, w1) \<Rightarrow> runClusters fuel e clusters typesAndVersion w1
      | Some (Some err, w1) \<Rightarrow>
          (case runClusters fuel e clusters typesAndVersion
                  (emit (LogError ''the tenants updated failed for the cluster'') w1) of
             None \<Rightarrow> None
           | Some (errs, w2) \<Rightarrow> Some (err # errs, w2)))"

definition updateTenantsForTypes ::
  "nat \<Rightarrow> TenantsUpdater \<Rightarrow> env \<Rightarrow> envType list \<Rightarrow> world \<Rightarrow> (error option \<times> world) option" where
  "updateTenantsForTypes fuel u e envTypes w =
     (let typesWithVersion = typesWithVersion_loop u e envTypes []
      in case (if limitToCluster u \<noteq> '''' then (Inr [limitToCluster u], w)
               else (GetClustersToUpdate e (ops w) typesWithVersion (Commit e),
                     emit FetchClusters (tick w))) of
           (Inl err, w1) \<Rightarrow> Some (Some err, w1)
         | (Inr clustersToUpdate, w1) \<Rightarrow>
             (case runClusters fuel e clustersToUpdate typesWithVersion w1 of
                None \<Rightarrow> None
              | Some (errs, w2) \<Rightarrow>
                  (let errorMsg = ListErrorsInMessage errs (length clustersToUpdate)
                   in if errorMsg \<noteq> '''' then Some (Some (fmt_Errorf e errorMsg), w2)
                      else (case Transaction e
                                   (lock e (closure0 (setStatusAndVersionsAfterUpdate u e))) () w2 of
                              ((err, _), w3) \<Rightarrow> Some (err, w3)))))"

subsection \<open>The trigger (\<^verbatim>\<open>UpdateAllTenants\<close>, \<^verbatim>\<open>waitAndRecheck\<close>, \<^verbatim>\<open>HandleTenantUpdateError\<close>)\<close>

text \<open>
  The values the variable \<^verbatim>\<open>followUp\<close> takes: the initial \<^verbatim>\<open>func() error { return nil }\<close>, the
  closure \<^verbatim>\<open>u.updateTenantsForTypes(envTypes)\<close>, and the method value \<^verbatim>\<open>u.waitAndRecheck\<close>.
\<close>

datatype followUpFunc =
    returnNil
  | updateTenantsForTypes_f "envType list"
  | waitAndRecheck_f

definition HandleTenantUpdateError :: "env \<Rightarrow> error \<Rightarrow> world \<Rightarrow> world" where
  "HandleTenantUpdateError e err w =
     (case Transaction e (lock e (closure0 (\<lambda>repo. repo_UpdateStatus e repo Failed))) ()
             (emit (LogError ''automatic tenant update failed'') w) of
        ((err', _), w1) \<Rightarrow>
          if err' \<noteq> None
          then emit (LogError ''unable to set state to failed in tenants_update table'') w1
          else w1)"

definition prepareAndAssignStart ::
  "env \<Rightarrow> Repository \<Rightarrow> envType list \<Rightarrow> followUpFunc \<Rightarrow> world
     \<Rightarrow> (error option \<times> followUpFunc) \<times> world" where
  "prepareAndAssignStart e repo envTypes followUp w =
     (case repo_PrepareForUpdating e repo (emit (LogInfo ''starting update for outdated types'') w) of
        (Some err, w1) \<Rightarrow> ((Some err, followUp), w1)
      | (None, w1) \<Rightarrow> ((None, updateTenantsForTypes_f envTypes), w1))"

definition UpdateAllTenants_tx ::
  "env \<Rightarrow> Repository \<Rightarrow> followUpFunc \<Rightarrow> world \<Rightarrow> (error option \<times> followUpFunc) \<times> world" where
  "UpdateAllTenants_tx e repo followUp w =
     (case repo_GetTenantsUpdate e repo w of
        (Inl err, w1) \<Rightarrow> ((Some err, followUp), w1)
      | (Inr tenantUpdate, w1) \<Rightarrow>
          if Status tenantUpdate = Finished then
            (let w2 = emit (LogInfo ''last update was successfully finished'') w1
             in case checkVersions e tenantUpdate of
                  Inl err \<Rightarrow> ((Some err, followUp), w2)
                | Inr envTypesToUpdate \<Rightarrow>
                    if length envTypesToUpdate > 0
                    then prepareAndAssignStart e repo envTypesToUpdate followUp w2
                    else ((None, followUp), emit (LogInfo ''there is nothing to be updated'') w2))
          else if Status tenantUpdate = Failed \<or> Status tenantUpdate = Killed
                  \<or> Status tenantUpdate = Incomplete then
            prepareAndAssignStart e repo (DefaultEnvTypes e) followUp
              (emit (LogInfo ''last update has status - going to check failed or incomplete updates'') w1)
          else if Status tenantUpdate = Updating then
            (if IsOlderThanTimeout e (LastTimeUpdated tenantUpdate) w1
             then prepareAndAssignStart e repo (DefaultEnvTypes e) followUp w1
             else ((None, waitAndRecheck_f),
                   emit (LogInfo ''there seems to be an ongoing update - going to wait for if the update still continues'') w1))
          else ((None, followUp), w1))"

definition waitAndRecheck_tx ::
  "env \<Rightarrow> Repository \<Rightarrow> followUpFunc \<Rightarrow> world \<Rightarrow> (error option \<times> followUpFunc) \<times> world" where
  "waitAndRecheck_tx e repo followUp w =
     (case repo_GetTenantsUpdate e repo w of
        (Inl err, w1) \<Rightarrow> ((Some err, followUp), w1)
      | (Inr tenantUpdate, w1) \<Rightarrow>
          if IsOlderThanTimeout e (LastTimeUpdated tenantUpdate) w1 then
            (case repo_PrepareForUpdating e repo
                    (emit (LogInfo ''last update was interrupted - restarting a new one'') w1) of
               (Some err, w2) \<Rightarrow> ((Some err, followUp), w2)
             | (None, w2) \<Rightarrow> ((None, updateTenantsForTypes_f (DefaultEnvTypes e)), w2))
          else ((None, followUp),
                emit (LogInfo ''there is still an ongoing update in process'') w1))"

definition waitAndRecheck ::
  "nat \<Rightarrow> TenantsUpdater \<Rightarrow> env \<Rightarrow> world \<Rightarrow> (error option \<times> world) option" where
  "waitAndRecheck fuel u e w =
     (case Transaction e (lock e (waitAndRecheck_tx e)) returnNil
             (time_Sleep (int64 (GetAutomatedUpdateRetrySleep e
                                 + go_quot (GetAutomatedUpdateRetrySleep e) 10)) w) of
        ((Some err, followUp), w1) \<Rightarrow> Some (Some err, w1)
      | ((None, followUp), w1) \<Rightarrow>
          (case followUp of
             updateTenantsForTypes_f envTypes \<Rightarrow> updateTenantsForTypes fuel u e envTypes w1
           | _ \<Rightarrow> Some (None, w1)))"

definition call_followUp ::
  "nat \<Rightarrow> TenantsUpdater \<Rightarrow> env \<Rightarrow> followUpFunc \<Rightarrow> world \<Rightarrow> (error option \<times> world) option" where
  "call_followUp fuel u e followUp w =
     (case followUp of
        returnNil \<Rightarrow> Some (None, w)
      | updateTenantsForTypes_f envTypes \<Rightarrow> updateTenantsForTypes fuel u e envTypes w
      | waitAndRecheck_f \<Rightarrow> waitAndRecheck fuel u e w)"

text \<open>The result is the world the trigger leaves, or \<open>None\<close> when a cluster loop has not ended.\<close>

definition UpdateAllTenants :: "nat \<Rightarrow> TenantsUpdater \<Rightarrow> env \<Rightarrow> world \<Rightarrow> world option" where
  "UpdateAllTenants fuel u e w =
     (case Transaction e (lock e (UpdateAllTenants_tx e)) returnNil
             (emit (LogInfo ''triggering tenants update process'') w) of
        ((Some err, followUp), w1) \<Rightarrow> Some (HandleTenantUpdateError e err w1)
      | ((None, followUp), w1) \<Rightarrow>
          (case call_followUp fuel u e followUp w1 of
             None \<Rightarrow> None
           | Some (Some err, w2) \<Rightarrow> Some (HandleTenantUpdateError e err w2)
           | Some (None, w2) \<Rightarrow> Some w2))"

section \<open>Observations on the log of calls\<close>

text \<open>
  Functions and relations that read the log a run leaves. They are used to state and prove
  the properties below and model no code of the repository.
\<close>

fun isExecutorFailure :: "event \<Rightarrow> bool" where
  "isExecutorFailure (ExecutorUpdate tenantID envTypes failed) = failed"
| "isExecutorFailure ev = False"

fun fetchedTenant :: "event \<Rightarrow> string list" where
  "fetchedTenant (FetchNamespaces tenantID) = [tenantID]"
| "fetchedTenant ev = []"

text \<open>
  \<open>lockDiscipline\<close>: a repository call is logged as made under the exclusive lock exactly when it
  is not \<^verbatim>\<open>CanContinue\<close>.
\<close>

fun lockDiscipline :: "event \<Rightarrow> bool" where
  "lockDiscipline (RepoCall op l) = (l \<longleftrightarrow> op \<noteq> CanContinueOp)"
| "lockDiscipline ev = True"

text \<open>
  \<open>batchEffect w w' ids\<close>: from \<open>w\<close> to \<open>w'\<close> the namespaces of exactly the tenants \<open>ids\<close> were
  fetched, the failure counter grew by the number of failed executor calls, each of which was
  reported, and the kill switch was left alone.
\<close>

definition batchEffect :: "world \<Rightarrow> world \<Rightarrow> string list \<Rightarrow> bool" where
  "batchEffect w w' ids \<longleftrightarrow>
     (\<exists>evs. trace w' = trace w @ evs \<and>
            concat (map fetchedTenant evs) = ids \<and>
            FailedCount (runState w') =
              FailedCount (runState w) + int (length (filter isExecutorFailure evs)) \<and>
            length (filter (\<lambda>ev. ev = LogError ''unable to automatically update tenant'') evs)
              = length (filter isExecutorFailure evs) \<and>
            RepoCall IncrementFailedCountOp False \<notin> set evs \<and>
            CanContinue (runState w') = CanContinue (runState w))"

text \<open>\<open>obeys w w'\<close>: the calls logged from \<open>w\<close> to \<open>w'\<close> satisfy \<open>lockDiscipline\<close>.\<close>

definition obeys :: "world \<Rightarrow> world \<Rightarrow> bool" where
  "obeys w w' \<longleftrightarrow> (\<exists>evs. trace w' = trace w @ evs \<and> list_all lockDiscipline evs)"

text \<open>
  \<open>keepsStop w w'\<close>: from \<open>w\<close> to \<open>w'\<close> a kill switch that is off stays off, and it is off
  in \<open>w'\<close> when the stop of a batch was logged in between.
\<close>

definition keepsStop :: "world \<Rightarrow> world \<Rightarrow> bool" where
  "keepsStop w w' \<longleftrightarrow>
     (\<exists>evs. trace w' = trace w @ evs \<and>
            (\<not> CanContinue (runState w) \<longrightarrow> \<not> CanContinue (runState w')) \<and>
            (LogInfo ''stopping tenants update process'' \<in> set evs
               \<longrightarrow> \<not> CanContinue (runState w')))"

section \<open>Concrete collaborators for the examples\<close>

text \<open>
  A database that never fails, no other actor, one cluster with nothing to update, an executor
  that always succeeds, and two version managers. No message of the examples holds a \<^verbatim>\<open>%\<close>, and
  of such a message \<^verbatim>\<open>fmt.Errorf\<close> makes the error with that very message.
\<close>

definition quiet_env :: env where
  "quiet_env =
     \<lparr>dbFails = (\<lambda>k. False),
      interfere = (\<lambda>k tu. tu),
      GetClustersToUpdate = (\<lambda>k typesWithVersion commit. Inr [''c1'']),
      GetTenantsToUpdate = (\<lambda>k typesWithVersion limit commit clusterURL. Inr []),
      GetNamespaces = (\<lambda>k tenantID. Inr []),
      Update = (\<lambda>k tnnt envTypes allowSelfHealing. None),
      ConstructCompleteVersion = (\<lambda>envType. ''v2''),
      RetrieveVersionManagers =
        [\<lparr>EnvTypes = [''user''], TargetVersion = ''v2''\<rparr>,
         \<lparr>EnvTypes = [''stage'', ''run''], TargetVersion = ''v2''\<rparr>],
      DefaultEnvTypes = [''user'', ''stage'', ''run''],
      Commit = ''abc'',
      GetAutomatedUpdateRetrySleep = 100,
      GetAutomatedUpdateTimeGap = 1,
      fmt_Errorf = (\<lambda>format. Error format)\<rparr>"

definition row0 :: TenantsUpdate where
  "row0 = \<lparr>Status = Updating, LastTimeUpdated = 0, FailedCount = 0, CanContinue = True,
           CurrentVersions = [(''user'', ''v1''), (''stage'', ''v1''), (''run'', ''v1'')]\<rparr>"

definition world0 :: world where
  "world0 = \<lparr>runState = row0, now = 1000, ops = 0, trace = []\<rparr>"

definition unrestricted :: TenantsUpdater where
  "unrestricted = \<lparr>filterEnvType = AllTypes, limitToCluster = ''''\<rparr>"

definition only_user :: TenantsUpdater where
  "only_user = \<lparr>filterEnvType = OneType ''user'', limitToCluster = ''''\<rparr>"

text \<open>Rows and collaborators of the trigger examples.\<close>

definition world_failed :: world where
  "world_failed = world0\<lparr>runState := row0\<lparr>Status := Failed, FailedCount := 3\<rparr>\<rparr>"

definition world_busy :: world where
  "world_busy = world0\<lparr>runState := row0\<lparr>LastTimeUpdated := 950\<rparr>\<rparr>"

definition busy_env :: env where
  "busy_env = quiet_env\<lparr>interfere := (\<lambda>k tu. if k = 3 then tu\<lparr>LastTimeUpdated := 1100\<rparr> else tu)\<rparr>"

definition world_finished_stale :: world where
  "world_finished_stale =
     world0\<lparr>runState := row0\<lparr>Status := Finished,
                   CurrentVersions := [(''user'', ''v1''), (''stage'', ''v2''), (''run'', ''v2'')]\<rparr>\<rparr>"

definition world_finished_fresh :: world where
  "world_finished_fresh =
     world0\<lparr>runState := row0\<lparr>Status := Finished,
                   CurrentVersions := [(''user'', ''v2''), (''stage'', ''v2''), (''run'', ''v2'')]\<rparr>\<rparr>"

definition world_finished_stale_stage :: world where
  "world_finished_stale_stage =
     world0\<lparr>runState := row0\<lparr>Status := Finished,
                   CurrentVersions := [(''user'', ''v2''), (''stage'', ''v1''), (''run'', ''v1'')]\<rparr>\<rparr>"

text \<open>A retry timeout of the longest duration there is, about 292 years.\<close>

definition longest_timeout_env :: env where
  "longest_timeout_env = quiet_env\<lparr>GetAutomatedUpdateRetrySleep := 9223372036854775807\<rparr>"

text \<open>
  A cluster query that answers with one cluster for each environment type it is asked about,
  named after the type: the log of the tenant queries then shows the types a pass covers.
\<close>

definition scope_env :: env where
  "scope_env = quiet_env
     \<lparr>GetClustersToUpdate := (\<lambda>k typesWithVersion commit. Inr (map fst typesWithVersion))\<rparr>"

text \<open>
  Tenants, namespaces and collaborators of the batch examples: a tenant whose namespaces
  cannot be fetched, a batch of five whose third update fails, a tenant query that fails,
  and an operator who switches \<open>CanContinue\<close> off just before the call number 10.
\<close>

definition tenant :: "string \<Rightarrow> Tenant" where
  "tenant i = \<lparr>ID = i, OSUsername = i\<rparr>"

definition namespace :: "envType \<Rightarrow> string \<Rightarrow> Namespace" where
  "namespace t v = \<lparr>Name = t, Type = t, Version = v, State = tenant_Ready\<rparr>"

definition skip_env :: env where
  "skip_env = quiet_env
     \<lparr>GetTenantsToUpdate :=
        (\<lambda>k typesWithVersion limit commit clusterURL. if k < 6 then Inr [tenant ''t1''] else Inr []),
      GetNamespaces := (\<lambda>k tenantID. Inl (Error ''connection lost''))\<rparr>"

definition fail3_env :: env where
  "fail3_env = quiet_env
     \<lparr>GetTenantsToUpdate :=
        (\<lambda>k typesWithVersion limit commit clusterURL.
           if k < 6 then Inr [tenant ''t1'', tenant ''t2'', tenant ''t3'', tenant ''t4'', tenant ''t5'']
           else Inr []),
      GetNamespaces := (\<lambda>k tenantID. Inr [namespace ''user'' ''v1'', namespace ''stage'' ''v2'']),
      Update := (\<lambda>k tnnt envTypes allowSelfHealing.
                   if ID tnnt = ''t3'' then Some (Error ''quota exceeded'') else None)\<rparr>"


definition kill_env :: env where
  "kill_env = quiet_env
     \<lparr>interfere := (\<lambda>k tu. if k = 10 then tu\<lparr>CanContinue := False\<rparr> else tu),
      GetTenantsToUpdate :=
        (\<lambda>k typesWithVersion limit commit clusterURL.
           if k < 6 then Inr [tenant ''t1'', tenant ''t2'', tenant ''t3'', tenant ''t4'', tenant ''t5'']
           else Inr []),
      GetNamespaces := (\<lambda>k tenantID. Inr [namespace ''user'' ''v1''])\<rparr>"

text \<open>
  Two more operators, for a run that starts from a failed one: the first switches
  \<open>CanContinue\<close> off just before the call number 14 and on again just before the call number 16;
  the second only switches it off, while the tenant query of a second cluster fails.
\<close>

definition switch_back_env :: env where
  "switch_back_env = quiet_env
     \<lparr>interfere := (\<lambda>k tu. if k = 14 then tu\<lparr>CanContinue := False\<rparr>
                           else if k = 16 then tu\<lparr>CanContinue := True\<rparr> else tu),
      GetTenantsToUpdate :=
        (\<lambda>k typesWithVersion limit commit clusterURL.
           if k < 6 then Inr [tenant ''t1'', tenant ''t2'', tenant ''t3'', tenant ''t4'', tenant ''t5'']
           else Inr []),
      GetNamespaces := (\<lambda>k tenantID. Inr [namespace ''user'' ''v1''])\<rparr>"

definition sibling_error_env :: env where
  "sibling_error_env = quiet_env
     \<lparr>interfere := (\<lambda>k tu. if k = 14 then tu\<lparr>CanContinue := False\<rparr> else tu),
      GetClustersToUpdate := (\<lambda>k typesWithVersion commit. Inr [''c1'', ''c2'']),
      GetTenantsToUpdate :=
        (\<lambda>k typesWithVersion limit commit clusterURL.
           if clusterURL = ''c2'' then Inl (Error ''connection refused'')
           else if k < 6
           then Inr [tenant ''t1'', tenant ''t2'', tenant ''t3'', tenant ''t4'', tenant ''t5'']
           else Inr []),
      GetNamespaces := (\<lambda>k tenantID. Inr [namespace ''user'' ''v1''])\<rparr>"

section \<open>Properties\<close>

subsection \<open>Transactions and record normal forms\<close>

lemma Transaction_lock_ok:
  assumes "\<not> dbFails e (ops w)" and "\<not> dbFails e (Suc (ops w))"
  shows "Transaction e (lock e body) c w =
    (case body (NewRepository (Tx True)) c
            (w\<lparr>runState := interfere e (ops w) (runState w), ops := Suc (Suc (ops w)),
               trace := trace w @ [TxBegin, LockTable]\<rparr>) of
       ((Some err, c'), w2) \<Rightarrow> ((Some err, c'), w2\<lparr>runState := interfere e (ops w) (runState w)\<rparr>)
     | ((None, c'), w2) \<Rightarrow> ((None, c'), w2))"
  using assms by (simp add: Transaction_def lock_def emit_def tick_def split: prod.splits option.splits)

lemma world_order:
  "w\<lparr>now := n, runState := r\<rparr> = w\<lparr>runState := r, now := n\<rparr>"
  "w\<lparr>ops := k, runState := r\<rparr> = w\<lparr>runState := r, ops := k\<rparr>"
  "w\<lparr>trace := t, runState := r\<rparr> = w\<lparr>runState := r, trace := t\<rparr>"
  "w\<lparr>ops := k, now := n\<rparr> = w\<lparr>now := n, ops := k\<rparr>"
  "w\<lparr>trace := t, now := n\<rparr> = w\<lparr>now := n, trace := t\<rparr>"
  "w\<lparr>trace := t, ops := k\<rparr> = w\<lparr>ops := k, trace := t\<rparr>"
  by simp_all

lemmas model_defs =
  UpdateAllTenants_def Transaction_def lock_def emit_def tick_def UpdateAllTenants_tx_def
  repo_GetTenantsUpdate_def repoCall_def prepareAndAssignStart_def repo_PrepareForUpdating_def
  call_followUp_def updateTenantsForTypes_def closure0_def setStatusAndVersionsAfterUpdate_def
  repo_SaveTenantsUpdate_def statusAfterUpdate_def SetCurrentVersion_def ListErrorsInMessage_def
  HandleTenantUpdateError_def repo_UpdateStatus_def updateTenants_def updateTenants_tx_def
  repo_CanContinue_def updateTenant_def repo_IncrementFailedCount_def repo_UpdateLastTimeUpdated_def
  time_Sleep_def waitAndRecheck_def waitAndRecheck_tx_def IsOlderThanTimeout_def checkVersions_def
  IsVersionUpToDate_def go_quot_def AllTypes_def int64_def

subsection \<open>Finalization\<close>

lemma isOk_loop_eq: "isOk_loop f ts b = (b \<and> list_all (IsOk f) ts)"
  by (induction ts arbitrary: b) auto

lemma versionManagers_loop_eq:
  "versionManagers_loop u vms tu w =
     (fold SetCurrentVersion (filter (\<lambda>vm. list_all (IsOk (filterEnvType u)) (EnvTypes vm)) vms) tu,
      w\<lparr>trace := trace w
           @ map SetVersion (filter (\<lambda>vm. list_all (IsOk (filterEnvType u)) (EnvTypes vm)) vms)\<rparr>)"
  by (induction vms arbitrary: tu w) (simp_all add: isOk_loop_eq emit_def)

lemma fold_SetCurrentVersion_frame:
  "Status (fold SetCurrentVersion vms tu) = Status tu"
  "FailedCount (fold SetCurrentVersion vms tu) = FailedCount tu"
  "CanContinue (fold SetCurrentVersion vms tu) = CanContinue tu"
  "LastTimeUpdated (fold SetCurrentVersion vms tu) = LastTimeUpdated tu"
  by (induction vms arbitrary: tu) (simp_all add: SetCurrentVersion_def)

lemma setStatusAndVersionsAfterUpdate_ok:
  assumes "\<not> dbFails e (ops w)" and "\<not> dbFails e (Suc (ops w))"
  shows "setStatusAndVersionsAfterUpdate u e repo w =
     (None,
      w\<lparr>runState :=
          fold SetCurrentVersion
            (filter (\<lambda>vm. list_all (IsOk (filterEnvType u)) (EnvTypes vm)) (RetrieveVersionManagers e))
            ((runState w)\<lparr>Status := statusAfterUpdate u (runState w)\<rparr>),
        ops := Suc (Suc (ops w)),
        trace := trace w @ [RepoCall GetTenantsUpdateOp (exclusiveLock (tx repo))]
                  @ map SetVersion
                      (filter (\<lambda>vm. list_all (IsOk (filterEnvType u)) (EnvTypes vm))
                         (RetrieveVersionManagers e))
                  @ [LogInfo ''the whole tenants update process has been finished'',
                     RepoCall SaveTenantsUpdateOp (exclusiveLock (tx repo))]\<rparr>)"
  using assms
  by (simp add: setStatusAndVersionsAfterUpdate_def repo_GetTenantsUpdate_def repoCall_def
      versionManagers_loop_eq repo_SaveTenantsUpdate_def emit_def tick_def)

text \<open>
  C2. When the two repository calls of the finalization succeed, it saves the row with exactly
  one status, chosen in this order: \<open>Killed\<close> when \<open>CanContinue\<close> is false, whatever the other
  fields are; else \<open>Failed\<close> when \<open>FailedCount > 0\<close>; else \<open>Incomplete\<close> when the filter is not
  \<open>AllTypes\<close> or a cluster limit is set; else \<open>Finished\<close>. The status is never \<open>Updating\<close>.
\<close>

theorem finalization_status_priority:
  assumes "\<not> dbFails e (ops w)" and "\<not> dbFails e (Suc (ops w))"
  shows "\<exists>w'. setStatusAndVersionsAfterUpdate u e repo w = (None, w') \<and>
           Status (runState w') =
             (if \<not> CanContinue (runState w) then Killed
              else if FailedCount (runState w) > 0 then Failed
              else if filterEnvType u \<noteq> AllTypes \<or> limitToCluster u \<noteq> '''' then Incomplete
              else Finished) \<and>
           Status (runState w') \<noteq> Updating"
  using assms
  by (simp add: setStatusAndVersionsAfterUpdate_ok fold_SetCurrentVersion_frame
      statusAfterUpdate_def)

theorem finalization_status_priority_witness:
  "\<not> dbFails quiet_env (ops world0) \<and> \<not> dbFails quiet_env (Suc (ops world0)) \<and>
   (\<exists>w'. setStatusAndVersionsAfterUpdate only_user quiet_env (NewRepository (Tx True)) world0
            = (None, w') \<and> Status (runState w') = Incomplete)"
proof -
  have nf: "\<not> dbFails quiet_env (ops world0)" "\<not> dbFails quiet_env (Suc (ops world0))"
    by (simp_all add: quiet_env_def)
  have "(if \<not> CanContinue (runState world0) then Killed
         else if FailedCount (runState world0) > 0 then Failed
         else if filterEnvType only_user \<noteq> AllTypes \<or> limitToCluster only_user \<noteq> []
              then Incomplete
         else Finished) = Incomplete"
    by (simp add: world0_def row0_def only_user_def AllTypes_def)
  with finalization_status_priority [OF nf, of only_user "NewRepository (Tx True)"] nf
  show ?thesis by auto
qed

text \<open>
  C6. When the two repository calls of the finalization succeed, \<open>SetCurrentVersion\<close> is called
  for a version manager if and only if it is one of the registry whose every environment type
  the filter accepts, and the saved row carries exactly those commits. No condition is put on
  the status: the statement is the same for \<open>Killed\<close>, \<open>Failed\<close>, \<open>Incomplete\<close> and \<open>Finished\<close>.
\<close>

theorem version_committed_iff_all_types_pass:
  assumes "\<not> dbFails e (ops w)" and "\<not> dbFails e (Suc (ops w))"
  shows "\<exists>w'. setStatusAndVersionsAfterUpdate u e repo w = (None, w') \<and>
           (\<forall>vm. SetVersion vm \<in> set (drop (length (trace w)) (trace w')) \<longleftrightarrow>
                  vm \<in> set (RetrieveVersionManagers e) \<and>
                  list_all (IsOk (filterEnvType u)) (EnvTypes vm)) \<and>
           runState w' =
             fold SetCurrentVersion
               (filter (\<lambda>vm. list_all (IsOk (filterEnvType u)) (EnvTypes vm))
                  (RetrieveVersionManagers e))
               ((runState w)\<lparr>Status := Status (runState w')\<rparr>)"
  using assms
  by (auto simp add: setStatusAndVersionsAfterUpdate_ok fold_SetCurrentVersion_frame)

theorem version_committed_iff_all_types_pass_witness:
  "\<not> dbFails quiet_env (ops world0) \<and> \<not> dbFails quiet_env (Suc (ops world0)) \<and>
   (\<exists>w'. setStatusAndVersionsAfterUpdate only_user quiet_env (NewRepository (Tx True)) world0
            = (None, w') \<and>
          SetVersion \<lparr>EnvTypes = [''user''], TargetVersion = ''v2''\<rparr>
            \<in> set (drop (length (trace world0)) (trace w')) \<and>
          SetVersion \<lparr>EnvTypes = [''stage'', ''run''], TargetVersion = ''v2''\<rparr>
            \<notin> set (drop (length (trace world0)) (trace w')) \<and>
          Status (runState w') = Incomplete \<and>
          CurrentVersions (runState w')
            = [(''user'', ''v2''), (''stage'', ''v1''), (''run'', ''v1'')])"
proof -
  have nf: "\<not> dbFails quiet_env (ops world0)" "\<not> dbFails quiet_env (Suc (ops world0))"
    by (simp_all add: quiet_env_def)
  from version_committed_iff_all_types_pass [OF nf, of only_user "NewRepository (Tx True)"]
  obtain w' where
    r: "setStatusAndVersionsAfterUpdate only_user quiet_env (NewRepository (Tx True)) world0
          = (None, w')"
    and c: "\<forall>vm. SetVersion vm \<in> set (drop (length (trace world0)) (trace w')) \<longleftrightarrow>
                 vm \<in> set (RetrieveVersionManagers quiet_env) \<and>
                 list_all (IsOk (filterEnvType only_user)) (EnvTypes vm)"
    by blast
  from r have w': "w' = snd (setStatusAndVersionsAfterUpdate only_user quiet_env
                               (NewRepository (Tx True)) world0)"
    by simp
  have s: "Status (runState w') = Incomplete"
          "CurrentVersions (runState w') = [(''user'', ''v2''), (''stage'', ''v1''), (''run'', ''v1'')]"
    unfolding w' setStatusAndVersionsAfterUpdate_ok [OF nf]
    by (simp_all add: statusAfterUpdate_def SetCurrentVersion_def quiet_env_def world0_def
        row0_def only_user_def AllTypes_def)
  from c have "SetVersion \<lparr>EnvTypes = [''user''], TargetVersion = ''v2''\<rparr>
                 \<in> set (drop (length (trace world0)) (trace w'))"
    by (simp add: quiet_env_def only_user_def)
  moreover from c have "SetVersion \<lparr>EnvTypes = [''stage'', ''run''], TargetVersion = ''v2''\<rparr>
                 \<notin> set (drop (length (trace world0)) (trace w'))"
    by (simp add: quiet_env_def only_user_def)
  ultimately show ?thesis using nf r s by blast
qed

subsection \<open>The version check\<close>

lemma found_in_eq: "found_in types t = (t \<in> set types)"
  by (induction types) auto

lemma set_addIfNotPresent: "set (addIfNotPresent types toAdd) = set types \<union> set toAdd"
  by (induction toAdd arbitrary: types) (auto simp: found_in_eq)

lemma distinct_addIfNotPresent: "distinct types \<Longrightarrow> distinct (addIfNotPresent types toAdd)"
  by (induction toAdd arbitrary: types) (auto simp: found_in_eq)

lemma set_checkVersions_loop:
  "set (checkVersions_loop vms tu types) =
     set types \<union> (\<Union>vm \<in> {vm \<in> set vms. \<not> IsVersionUpToDate vm tu}. set (EnvTypes vm))"
  by (induction vms arbitrary: types) (auto simp: set_addIfNotPresent)

lemma distinct_checkVersions_loop:
  "distinct types \<Longrightarrow> distinct (checkVersions_loop vms tu types)"
  by (induction vms arbitrary: types) (auto simp: distinct_addIfNotPresent)

lemma stale_has_types: "\<not> IsVersionUpToDate vm tu \<Longrightarrow> EnvTypes vm \<noteq> []"
  by (auto simp: IsVersionUpToDate_def)

lemma checkVersions_loop_empty_iff:
  "checkVersions_loop vms tu [] = [] \<longleftrightarrow> (\<forall>vm\<in>set vms. IsVersionUpToDate vm tu)"
proof -
  have "checkVersions_loop vms tu [] = [] \<longleftrightarrow> set (checkVersions_loop vms tu []) = {}"
    by simp
  also have "\<dots> \<longleftrightarrow> (\<forall>vm\<in>set vms. IsVersionUpToDate vm tu)"
    unfolding set_checkVersions_loop using stale_has_types by auto
  finally show ?thesis .
qed

subsection \<open>The types a pass covers\<close>

lemma map_of_typesWithVersion_loop:
  "map_of (typesWithVersion_loop u e envTypes typesWithVersion) t =
     (if t \<in> set envTypes \<and> IsOk (filterEnvType u) t then Some (ConstructCompleteVersion e t)
      else map_of typesWithVersion t)"
  by (induction envTypes arbitrary: typesWithVersion) (auto simp: update_conv')

lemma keys_typesWithVersion_loop:
  "fst ` set (typesWithVersion_loop u e envTypes []) =
     {t \<in> set envTypes. IsOk (filterEnvType u) t}"
proof -
  have "fst ` set (typesWithVersion_loop u e envTypes [])
          = dom (map_of (typesWithVersion_loop u e envTypes []))"
    by (simp add: dom_map_of_conv_image_fst)
  also have "\<dots> = {t \<in> set envTypes. IsOk (filterEnvType u) t}"
    by (auto simp add: dom_def map_of_typesWithVersion_loop)
  finally show ?thesis .
qed

lemma distinct_typesWithVersion_loop:
  "distinct (map fst typesWithVersion)
     \<Longrightarrow> distinct (map fst (typesWithVersion_loop u e envTypes typesWithVersion))"
  by (induction envTypes arbitrary: typesWithVersion) (auto simp: distinct_update)

lemma ListErrorsInMessage_empty_iff: "ListErrorsInMessage errs n = '''' \<longleftrightarrow> errs = []"
  by (simp add: ListErrorsInMessage_def)

lemma updateTenantsForTypes_eq:
  "updateTenantsForTypes fuel u e envTypes v =
     (case (if limitToCluster u \<noteq> '''' then (Inr [limitToCluster u], v)
            else (GetClustersToUpdate e (ops v) (typesWithVersion_loop u e envTypes []) (Commit e),
                  emit FetchClusters (tick v))) of
        (Inl err, w1) \<Rightarrow> Some (Some err, w1)
      | (Inr clustersToUpdate, w1) \<Rightarrow>
          (case runClusters fuel e clustersToUpdate (typesWithVersion_loop u e envTypes []) w1 of
             None \<Rightarrow> None
           | Some (errs, w2) \<Rightarrow>
               if errs \<noteq> []
               then Some (Some (fmt_Errorf e (ListErrorsInMessage errs (length clustersToUpdate))), w2)
               else (case Transaction e
                            (lock e (closure0 (setStatusAndVersionsAfterUpdate u e))) () w2 of
                       ((err, _), w3) \<Rightarrow> Some (err, w3))))"
  by (simp add: updateTenantsForTypes_def Let_def ListErrorsInMessage_empty_iff
      split: prod.splits sum.splits option.splits)

lemma int64_id:
  "- 9223372036854775808 \<le> x \<Longrightarrow> x \<le> 9223372036854775807 \<Longrightarrow> int64 x = x"
  by (simp add: int64_def)

subsection \<open>The trigger\<close>

lemma decide_Finished_nothing:
  assumes "\<not> dbFails e (ops w)"
    and "Status (runState w) = Finished"
    and "checkVersions_loop (RetrieveVersionManagers e) (runState w) [] = []"
  shows "UpdateAllTenants_tx e repo followUp w =
     ((None, followUp),
      w\<lparr>ops := Suc (ops w),
        trace := trace w @ [RepoCall GetTenantsUpdateOp (exclusiveLock (tx repo)),
                            LogInfo ''last update was successfully finished'',
                            LogInfo ''there is nothing to be updated'']\<rparr>)"
  using assms
  by (simp add: UpdateAllTenants_tx_def repo_GetTenantsUpdate_def repoCall_def checkVersions_def
      emit_def tick_def)

lemma prepareAndAssignStart_eq:
  "prepareAndAssignStart e repo envTypes followUp w =
     (if dbFails e (ops w)
      then ((Some (Error ''PrepareForUpdating failed''), followUp),
            w\<lparr>ops := Suc (ops w),
              trace := trace w @ [LogInfo ''starting update for outdated types'',
                                  RepoCall PrepareForUpdatingOp (exclusiveLock (tx repo))]\<rparr>)
      else ((None, updateTenantsForTypes_f envTypes),
            w\<lparr>runState := (runState w)\<lparr>Status := Updating, FailedCount := 0, CanContinue := True\<rparr>,
              ops := Suc (ops w),
              trace := trace w @ [LogInfo ''starting update for outdated types'',
                                  RepoCall PrepareForUpdatingOp (exclusiveLock (tx repo))]\<rparr>))"
  by (simp add: prepareAndAssignStart_def repo_PrepareForUpdating_def repoCall_def emit_def tick_def)


lemma UpdateAllTenants_Finished_nothing:
  assumes "\<not> dbFails e (ops w)" and "\<not> dbFails e (Suc (ops w))"
    and "\<not> dbFails e (Suc (Suc (ops w)))"
    and "Status (interfere e (ops w) (runState w)) = Finished"
    and "checkVersions_loop (RetrieveVersionManagers e) (interfere e (ops w) (runState w)) [] = []"
  shows "UpdateAllTenants fuel u e w =
     Some (w\<lparr>runState := interfere e (ops w) (runState w),
             ops := ops w + 3,
             trace := trace w @
               [LogInfo ''triggering tenants update process'', TxBegin, LockTable,
                RepoCall GetTenantsUpdateOp True,
                LogInfo ''last update was successfully finished'',
                LogInfo ''there is nothing to be updated'']\<rparr>)"
  using assms
  by (simp add: UpdateAllTenants_def Transaction_lock_ok emit_def decide_Finished_nothing
      call_followUp_def eval_nat_numeral)

lemma UpdateAllTenants_Finished_stale:
  assumes "\<not> dbFails e (ops w)" and "\<not> dbFails e (Suc (ops w))"
    and "\<not> dbFails e (Suc (Suc (ops w)))"
    and "Status (interfere e (ops w) (runState w)) = Finished"
    and "checkVersions_loop (RetrieveVersionManagers e) (interfere e (ops w) (runState w)) [] \<noteq> []"
  shows "UpdateAllTenants fuel u e w =
     (if dbFails e (ops w + 3)
      then Some (HandleTenantUpdateError e (Error ''PrepareForUpdating failed'')
             (w\<lparr>ops := ops w + 4,
                trace := trace w @
                  [LogInfo ''triggering tenants update process'', TxBegin, LockTable,
                   RepoCall GetTenantsUpdateOp True,
                   LogInfo ''last update was successfully finished'',
                   LogInfo ''starting update for outdated types'',
                   RepoCall PrepareForUpdatingOp True],
                runState := interfere e (ops w) (runState w)\<rparr>))
      else (case updateTenantsForTypes fuel u e
                   (checkVersions_loop (RetrieveVersionManagers e)
                      (interfere e (ops w) (runState w)) [])
                   (w\<lparr>runState := (interfere e (ops w) (runState w))
                                    \<lparr>Status := Updating, FailedCount := 0, CanContinue := True\<rparr>,
                      ops := ops w + 4,
                      trace := trace w @
                        [LogInfo ''triggering tenants update process'', TxBegin, LockTable,
                         RepoCall GetTenantsUpdateOp True,
                         LogInfo ''last update was successfully finished'',
                         LogInfo ''starting update for outdated types'',
                         RepoCall PrepareForUpdatingOp True]\<rparr>) of
              None \<Rightarrow> None
            | Some (Some err, w2) \<Rightarrow> Some (HandleTenantUpdateError e err w2)
            | Some (None, w2) \<Rightarrow> Some w2))"
  using assms
  by (simp add: UpdateAllTenants_def Transaction_lock_ok emit_def UpdateAllTenants_tx_def
      repo_GetTenantsUpdate_def repoCall_def tick_def prepareAndAssignStart_eq call_followUp_def
      checkVersions_def eval_nat_numeral)

text \<open>
  C3 (as amended). When the trigger reads a row \<open>tu\<close> whose status is
  \<open>Finished\<close> (the begin, the lock and the read succeed), the list
  \<open>types\<close> that \<open>checkVersions\<close> returns is non-empty if and only if
  some version manager that has an environment type is not up to date on \<open>tu\<close> (in
  the data model every manager that is not up to date has one), and it holds exactly the
  environment types of the stale managers, each once. With no stale manager the trigger ends at
  once: the row is the one it read, and the only calls are the begin, the lock and the read;
  triggering again right after gives the same row again. With a stale manager it calls
  \<open>PrepareForUpdating\<close> and runs one pass over \<open>types\<close>. A pass over a
  list of types covers those types of the list that the filter of the updater accepts (all of
  them when the filter is \<open>AllTypes\<close>), each with the version its template gives:
  with this map it asks for the clusters, runs the cluster runners, and then either returns the
  error made of the runners' errors or finalizes.
\<close>

theorem finished_trigger_runs_iff_stale:
  assumes "\<not> dbFails e (ops w)" and "\<not> dbFails e (Suc (ops w))"
    and "\<not> dbFails e (Suc (Suc (ops w)))"
    and "tu = interfere e (ops w) (runState w)"
    and "Status tu = Finished"
    and "types = checkVersions_loop (RetrieveVersionManagers e) tu []"
  shows "(types \<noteq> [] \<longleftrightarrow>
            (\<exists>vm\<in>set (RetrieveVersionManagers e). \<not> IsVersionUpToDate vm tu \<and> EnvTypes vm \<noteq> [])) \<and>
         (types \<noteq> [] \<longleftrightarrow> (\<exists>vm\<in>set (RetrieveVersionManagers e). \<not> IsVersionUpToDate vm tu)) \<and>
         set types = (\<Union>vm \<in> {vm \<in> set (RetrieveVersionManagers e). \<not> IsVersionUpToDate vm tu}.
                        set (EnvTypes vm)) \<and>
         distinct types \<and>
         UpdateAllTenants fuel u e w =
           (if types = [] then
              Some (w\<lparr>runState := tu, ops := ops w + 3,
                      trace := trace w @
                        [LogInfo ''triggering tenants update process'', TxBegin, LockTable,
                         RepoCall GetTenantsUpdateOp True,
                         LogInfo ''last update was successfully finished'',
                         LogInfo ''there is nothing to be updated'']\<rparr>)
            else if dbFails e (ops w + 3) then
              Some (HandleTenantUpdateError e (Error ''PrepareForUpdating failed'')
                     (w\<lparr>ops := ops w + 4,
                        trace := trace w @
                          [LogInfo ''triggering tenants update process'', TxBegin, LockTable,
                           RepoCall GetTenantsUpdateOp True,
                           LogInfo ''last update was successfully finished'',
                           LogInfo ''starting update for outdated types'',
                           RepoCall PrepareForUpdatingOp True],
                        runState := tu\<rparr>))
            else
              (case updateTenantsForTypes fuel u e types
                      (w\<lparr>runState := tu\<lparr>Status := Updating, FailedCount := 0, CanContinue := True\<rparr>,
                         ops := ops w + 4,
                         trace := trace w @
                           [LogInfo ''triggering tenants update process'', TxBegin, LockTable,
                            RepoCall GetTenantsUpdateOp True,
                            LogInfo ''last update was successfully finished'',
                            LogInfo ''starting update for outdated types'',
                            RepoCall PrepareForUpdatingOp True]\<rparr>) of
                 None \<Rightarrow> None
               | Some (Some err, w2) \<Rightarrow> Some (HandleTenantUpdateError e err w2)
               | Some (None, w2) \<Rightarrow> Some w2)) \<and>
         (types = [] \<and> interfere e (ops w + 3) tu = tu \<and> \<not> dbFails e (ops w + 3)
            \<and> \<not> dbFails e (ops w + 4) \<and> \<not> dbFails e (ops w + 5) \<longrightarrow>
          (\<exists>w' w''. UpdateAllTenants fuel u e w = Some w' \<and>
                   UpdateAllTenants fuel u e w' = Some w'' \<and> runState w'' = runState w' \<and>
                   trace w'' = trace w' @
                     [LogInfo ''triggering tenants update process'', TxBegin, LockTable,
                      RepoCall GetTenantsUpdateOp True,
                      LogInfo ''last update was successfully finished'',
                      LogInfo ''there is nothing to be updated''])) \<and>
         (\<forall>envTypes t.
            map_of (typesWithVersion_loop u e envTypes []) t =
              (if t \<in> set envTypes \<and> IsOk (filterEnvType u) t
               then Some (ConstructCompleteVersion e t) else None)) \<and>
         (\<forall>envTypes.
            fst ` set (typesWithVersion_loop u e envTypes []) =
              {t \<in> set envTypes. IsOk (filterEnvType u) t}) \<and>
         (filterEnvType u = AllTypes \<longrightarrow>
            (\<forall>envTypes. fst ` set (typesWithVersion_loop u e envTypes []) = set envTypes)) \<and>
         (\<forall>envTypes. distinct (map fst (typesWithVersion_loop u e envTypes []))) \<and>
         (\<forall>envTypes v.
            updateTenantsForTypes fuel u e envTypes v =
              (case (if limitToCluster u \<noteq> '''' then (Inr [limitToCluster u], v)
                     else (GetClustersToUpdate e (ops v) (typesWithVersion_loop u e envTypes [])
                             (Commit e),
                           emit FetchClusters (tick v))) of
                 (Inl err, w1) \<Rightarrow> Some (Some err, w1)
               | (Inr clustersToUpdate, w1) \<Rightarrow>
                   (case runClusters fuel e clustersToUpdate (typesWithVersion_loop u e envTypes []) w1 of
                      None \<Rightarrow> None
                    | Some (errs, w2) \<Rightarrow>
                        if errs \<noteq> []
                        then Some (Some (fmt_Errorf e
                                           (ListErrorsInMessage errs (length clustersToUpdate))),
                                   w2)
                        else (case Transaction e
                                     (lock e (closure0 (setStatusAndVersionsAfterUpdate u e))) () w2 of
                                ((err, _), w3) \<Rightarrow> Some (err, w3)))))"
  (is "?A1 \<and> ?A2 \<and> ?A3 \<and> ?A4 \<and> ?A5 \<and> ?A6 \<and> ?S1 \<and> ?S2 \<and> ?S3 \<and> ?S4 \<and> ?S5")
proof -
  have a3: ?A3
    using assms(6) by (simp add: set_checkVersions_loop)
  have "types = [] \<longleftrightarrow> set types = {}" by simp
  then have a1: ?A1
    unfolding a3 by auto
  have a2: ?A2
    using assms(6) checkVersions_loop_empty_iff [of "RetrieveVersionManagers e" tu] by auto
  have a4: ?A4
    using assms(6) by (simp add: distinct_checkVersions_loop)
  have a5: ?A5
  proof (cases "types = []")
    case True
    then show ?thesis
      using assms UpdateAllTenants_Finished_nothing [of e w fuel u] by simp
  next
    case False
    then show ?thesis
      using assms UpdateAllTenants_Finished_stale [of e w fuel u] by simp
  qed
  have a6: ?A6
  proof
    assume a: "types = [] \<and> interfere e (ops w + 3) tu = tu \<and> \<not> dbFails e (ops w + 3)
            \<and> \<not> dbFails e (ops w + 4) \<and> \<not> dbFails e (ops w + 5)"
    define w' where "w' = w\<lparr>runState := tu, ops := ops w + 3,
                      trace := trace w @
                        [LogInfo ''triggering tenants update process'', TxBegin, LockTable,
                         RepoCall GetTenantsUpdateOp True,
                         LogInfo ''last update was successfully finished'',
                         LogInfo ''there is nothing to be updated'']\<rparr>"
    have 1: "UpdateAllTenants fuel u e w = Some w'"
      using assms a UpdateAllTenants_Finished_nothing [of e w fuel u] by (simp add: w'_def)
    have f: "ops w' = ops w + 3" "runState w' = tu" by (simp_all add: w'_def)
    have 2: "UpdateAllTenants fuel u e w' =
       Some (w'\<lparr>runState := interfere e (ops w') (runState w'), ops := ops w' + 3,
              trace := trace w' @
                [LogInfo ''triggering tenants update process'', TxBegin, LockTable,
                 RepoCall GetTenantsUpdateOp True,
                 LogInfo ''last update was successfully finished'',
                 LogInfo ''there is nothing to be updated'']\<rparr>)"
      apply (rule UpdateAllTenants_Finished_nothing)
      using a assms by (simp_all add: f eval_nat_numeral)
    show "\<exists>w' w''. UpdateAllTenants fuel u e w = Some w' \<and>
                   UpdateAllTenants fuel u e w' = Some w'' \<and> runState w'' = runState w' \<and>
                   trace w'' = trace w' @
                     [LogInfo ''triggering tenants update process'', TxBegin, LockTable,
                      RepoCall GetTenantsUpdateOp True,
                      LogInfo ''last update was successfully finished'',
                      LogInfo ''there is nothing to be updated'']"
      using 1 2 a by (simp add: f)
  qed
  have s1: ?S1 by (simp add: map_of_typesWithVersion_loop)
  have s2: ?S2 by (intro allI keys_typesWithVersion_loop)
  have s3: ?S3 by (simp add: keys_typesWithVersion_loop AllTypes_def)
  have s4: ?S4 by (simp add: distinct_typesWithVersion_loop)
  have s5: ?S5 by (intro allI updateTenantsForTypes_eq)
  from a1 a2 a3 a4 a5 a6 s1 s2 s3 s4 s5 show ?thesis by (intro conjI)
qed

theorem finished_trigger_runs_iff_stale_witness:
  "\<not> dbFails quiet_env (ops world_finished_stale) \<and>
   \<not> dbFails quiet_env (Suc (ops world_finished_stale)) \<and>
   \<not> dbFails quiet_env (Suc (Suc (ops world_finished_stale))) \<and>
   Status (interfere quiet_env (ops world_finished_stale) (runState world_finished_stale)) = Finished \<and>
   checkVersions_loop (RetrieveVersionManagers quiet_env)
     (interfere quiet_env (ops world_finished_stale) (runState world_finished_stale)) [] = [''user''] \<and>
   (\<exists>vm\<in>set (RetrieveVersionManagers quiet_env).
      \<not> IsVersionUpToDate vm (interfere quiet_env (ops world_finished_stale) (runState world_finished_stale))) \<and>
   UpdateAllTenants 1 unrestricted quiet_env world_finished_stale =
     Some \<lparr>runState = \<lparr>Status = Finished, LastTimeUpdated = 0, FailedCount = 0, CanContinue = True,
              CurrentVersions = [(''user'', ''v2''), (''stage'', ''v2''), (''run'', ''v2'')]\<rparr>,
           now = 1000, ops = 10,
           trace =
             [LogInfo ''triggering tenants update process'', TxBegin, LockTable,
              RepoCall GetTenantsUpdateOp True,
              LogInfo ''last update was successfully finished'',
              LogInfo ''starting update for outdated types'',
              RepoCall PrepareForUpdatingOp True, FetchClusters, FetchTenants ''c1'', TxBegin,
              LockTable, RepoCall GetTenantsUpdateOp True,
              SetVersion \<lparr>EnvTypes = [''user''], TargetVersion = ''v2''\<rparr>,
              SetVersion \<lparr>EnvTypes = [''stage'', ''run''], TargetVersion = ''v2''\<rparr>,
              LogInfo ''the whole tenants update process has been finished'',
              RepoCall SaveTenantsUpdateOp True]\<rparr> \<and>
   filterEnvType unrestricted = AllTypes \<and>
   fst ` set (typesWithVersion_loop unrestricted quiet_env [''user''] []) = set [''user''] \<and>
   \<not> dbFails quiet_env (ops world_finished_fresh) \<and>
   \<not> dbFails quiet_env (Suc (ops world_finished_fresh)) \<and>
   \<not> dbFails quiet_env (Suc (Suc (ops world_finished_fresh))) \<and>
   Status (interfere quiet_env (ops world_finished_fresh) (runState world_finished_fresh)) = Finished \<and>
   checkVersions_loop (RetrieveVersionManagers quiet_env)
     (interfere quiet_env (ops world_finished_fresh) (runState world_finished_fresh)) [] = [] \<and>
   interfere quiet_env (ops world_finished_fresh + 3)
     (interfere quiet_env (ops world_finished_fresh) (runState world_finished_fresh))
     = interfere quiet_env (ops world_finished_fresh) (runState world_finished_fresh) \<and>
   \<not> dbFails quiet_env (ops world_finished_fresh + 3) \<and>
   \<not> dbFails quiet_env (ops world_finished_fresh + 4) \<and>
   \<not> dbFails quiet_env (ops world_finished_fresh + 5) \<and>
   UpdateAllTenants 1 unrestricted quiet_env world_finished_fresh =
     Some \<lparr>runState = \<lparr>Status = Finished, LastTimeUpdated = 0, FailedCount = 0, CanContinue = True,
              CurrentVersions = [(''user'', ''v2''), (''stage'', ''v2''), (''run'', ''v2'')]\<rparr>,
           now = 1000, ops = 3,
           trace =
             [LogInfo ''triggering tenants update process'', TxBegin, LockTable,
              RepoCall GetTenantsUpdateOp True,
              LogInfo ''last update was successfully finished'',
              LogInfo ''there is nothing to be updated'']\<rparr> \<and>
   (\<exists>w' w''. UpdateAllTenants 1 unrestricted quiet_env world_finished_fresh = Some w' \<and>
            UpdateAllTenants 1 unrestricted quiet_env w' = Some w'' \<and> runState w'' = runState w' \<and>
            trace w'' = trace w' @
              [LogInfo ''triggering tenants update process'', TxBegin, LockTable,
              RepoCall GetTenantsUpdateOp True,
              LogInfo ''last update was successfully finished'',
              LogInfo ''there is nothing to be updated''])"
proof -
  have h: "\<not> dbFails quiet_env (ops world_finished_stale)"
    "\<not> dbFails quiet_env (Suc (ops world_finished_stale))"
    "\<not> dbFails quiet_env (Suc (Suc (ops world_finished_stale)))"
    "interfere quiet_env (ops world_finished_stale) (runState world_finished_stale)
       = interfere quiet_env (ops world_finished_stale) (runState world_finished_stale)"
    "Status (interfere quiet_env (ops world_finished_stale) (runState world_finished_stale)) = Finished"
    "checkVersions_loop (RetrieveVersionManagers quiet_env)
       (interfere quiet_env (ops world_finished_stale) (runState world_finished_stale)) []
     = checkVersions_loop (RetrieveVersionManagers quiet_env)
       (interfere quiet_env (ops world_finished_stale) (runState world_finished_stale)) []"
    by (simp_all add: quiet_env_def world_finished_stale_def world0_def row0_def)
  note t = finished_trigger_runs_iff_stale [OF h, of 1 unrestricted]
  have c: "checkVersions_loop (RetrieveVersionManagers quiet_env)
     (interfere quiet_env (ops world_finished_stale) (runState world_finished_stale)) [] = [''user'']"
    by (simp add: quiet_env_def world_finished_stale_def world0_def row0_def IsVersionUpToDate_def)
  have s: "\<exists>vm\<in>set (RetrieveVersionManagers quiet_env).
      \<not> IsVersionUpToDate vm (interfere quiet_env (ops world_finished_stale) (runState world_finished_stale))"
    using conjunct1 [OF conjunct2 [OF t]] c by simp
  have r: "UpdateAllTenants 1 unrestricted quiet_env world_finished_stale =
     Some \<lparr>runState = \<lparr>Status = Finished, LastTimeUpdated = 0, FailedCount = 0, CanContinue = True,
              CurrentVersions = [(''user'', ''v2''), (''stage'', ''v2''), (''run'', ''v2'')]\<rparr>,
           now = 1000, ops = 10,
           trace =
             [LogInfo ''triggering tenants update process'', TxBegin, LockTable,
              RepoCall GetTenantsUpdateOp True,
              LogInfo ''last update was successfully finished'',
              LogInfo ''starting update for outdated types'',
              RepoCall PrepareForUpdatingOp True, FetchClusters, FetchTenants ''c1'', TxBegin,
              LockTable, RepoCall GetTenantsUpdateOp True,
              SetVersion \<lparr>EnvTypes = [''user''], TargetVersion = ''v2''\<rparr>,
              SetVersion \<lparr>EnvTypes = [''stage'', ''run''], TargetVersion = ''v2''\<rparr>,
              LogInfo ''the whole tenants update process has been finished'',
              RepoCall SaveTenantsUpdateOp True]\<rparr>"
    by (rule trans [OF conjunct1 [OF conjunct2 [OF conjunct2 [OF conjunct2 [OF conjunct2 [OF t]]]]]])
       (simp add: model_defs quiet_env_def world_finished_stale_def world0_def row0_def
          unrestricted_def)
  have f: "filterEnvType unrestricted = AllTypes" by (simp add: unrestricted_def)
  note S3 = conjunct1 [OF conjunct2 [OF conjunct2 [OF conjunct2 [OF conjunct2 [OF conjunct2
              [OF conjunct2 [OF conjunct2 [OF conjunct2 [OF t]]]]]]]]]
  have k: "fst ` set (typesWithVersion_loop unrestricted quiet_env [''user''] []) = set [''user'']"
    by (rule spec [OF mp [OF S3 f]])
  have h2: "\<not> dbFails quiet_env (ops world_finished_fresh)"
    "\<not> dbFails quiet_env (Suc (ops world_finished_fresh))"
    "\<not> dbFails quiet_env (Suc (Suc (ops world_finished_fresh)))"
    "interfere quiet_env (ops world_finished_fresh) (runState world_finished_fresh)
       = interfere quiet_env (ops world_finished_fresh) (runState world_finished_fresh)"
    "Status (interfere quiet_env (ops world_finished_fresh) (runState world_finished_fresh)) = Finished"
    "checkVersions_loop (RetrieveVersionManagers quiet_env)
       (interfere quiet_env (ops world_finished_fresh) (runState world_finished_fresh)) []
     = checkVersions_loop (RetrieveVersionManagers quiet_env)
       (interfere quiet_env (ops world_finished_fresh) (runState world_finished_fresh)) []"
    by (simp_all add: quiet_env_def world_finished_fresh_def world0_def row0_def)
  note t2 = finished_trigger_runs_iff_stale [OF h2, of 1 unrestricted]
  have c2: "checkVersions_loop (RetrieveVersionManagers quiet_env)
     (interfere quiet_env (ops world_finished_fresh) (runState world_finished_fresh)) [] = []"
    by (simp add: quiet_env_def world_finished_fresh_def world0_def row0_def IsVersionUpToDate_def)
  have r2: "UpdateAllTenants 1 unrestricted quiet_env world_finished_fresh =
     Some \<lparr>runState = \<lparr>Status = Finished, LastTimeUpdated = 0, FailedCount = 0, CanContinue = True,
              CurrentVersions = [(''user'', ''v2''), (''stage'', ''v2''), (''run'', ''v2'')]\<rparr>,
           now = 1000, ops = 3,
           trace =
             [LogInfo ''triggering tenants update process'', TxBegin, LockTable,
              RepoCall GetTenantsUpdateOp True,
              LogInfo ''last update was successfully finished'',
              LogInfo ''there is nothing to be updated'']\<rparr>"
    by (rule trans [OF conjunct1 [OF conjunct2 [OF conjunct2 [OF conjunct2 [OF conjunct2 [OF t2]]]]]])
       (simp add: model_defs quiet_env_def world_finished_fresh_def world0_def row0_def
          unrestricted_def)
  have h3: "interfere quiet_env (ops world_finished_fresh + 3)
     (interfere quiet_env (ops world_finished_fresh) (runState world_finished_fresh))
     = interfere quiet_env (ops world_finished_fresh) (runState world_finished_fresh)"
    "\<not> dbFails quiet_env (ops world_finished_fresh + 3)"
    "\<not> dbFails quiet_env (ops world_finished_fresh + 4)"
    "\<not> dbFails quiet_env (ops world_finished_fresh + 5)"
    by (simp_all add: quiet_env_def)
  have i2: "(\<exists>w' w''. UpdateAllTenants 1 unrestricted quiet_env world_finished_fresh = Some w' \<and>
            UpdateAllTenants 1 unrestricted quiet_env w' = Some w'' \<and> runState w'' = runState w' \<and>
            trace w'' = trace w' @
              [LogInfo ''triggering tenants update process'', TxBegin, LockTable,
              RepoCall GetTenantsUpdateOp True,
              LogInfo ''last update was successfully finished'',
              LogInfo ''there is nothing to be updated''])"
    by (rule mp [OF conjunct1 [OF conjunct2 [OF conjunct2 [OF conjunct2 [OF conjunct2
                   [OF conjunct2 [OF t2]]]]]]])
       (intro conjI c2 h3)
  show ?thesis using h(1,2,3,5) c s r f k h2(1,2,3,5) c2 h3 r2 i2 by (intro conjI)
qed

text \<open>
  The claim C3 as it is written fails under a restricted filter: the pass that follows a
  finished run need not cover the types of the stale managers. The markers of
  \<open>stage\<close> and \<open>run\<close> are stale and the updater is restricted to
  \<open>user\<close>: the pass is given \<open>stage\<close> and \<open>run\<close>, covers no
  type at all, is told of no cluster and asks for no tenant, and the run ends
  \<open>Incomplete\<close> with the two markers as stale as before.
\<close>

theorem finished_trigger_filtered_scope_counterexample:
  "checkVersions_loop (RetrieveVersionManagers scope_env) (runState world_finished_stale_stage) []
     = [''stage'', ''run''] \<and>
   typesWithVersion_loop only_user scope_env [''stage'', ''run''] [] = [] \<and>
   UpdateAllTenants 1 only_user scope_env world_finished_stale_stage =
     Some \<lparr>runState = \<lparr>Status = Incomplete, LastTimeUpdated = 0, FailedCount = 0,
              CanContinue = True,
              CurrentVersions = [(''user'', ''v2''), (''stage'', ''v1''), (''run'', ''v1'')]\<rparr>,
           now = 1000, ops = 9,
           trace =
             [LogInfo ''triggering tenants update process'', TxBegin, LockTable,
              RepoCall GetTenantsUpdateOp True,
              LogInfo ''last update was successfully finished'',
              LogInfo ''starting update for outdated types'',
              RepoCall PrepareForUpdatingOp True, FetchClusters, TxBegin,
              LockTable, RepoCall GetTenantsUpdateOp True,
              SetVersion \<lparr>EnvTypes = [''user''], TargetVersion = ''v2''\<rparr>,
              LogInfo ''the whole tenants update process has been finished'',
              RepoCall SaveTenantsUpdateOp True]\<rparr>"
  by (simp add: model_defs scope_env_def quiet_env_def world_finished_stale_stage_def world0_def
      row0_def only_user_def)

lemma waitAndRecheck_ok:
  assumes "\<not> dbFails e (ops v)" and "\<not> dbFails e (Suc (ops v))"
    and "\<not> dbFails e (Suc (Suc (ops v)))"
    and "T = GetAutomatedUpdateRetrySleep e"
    and "d = int64 (T + go_quot T 10)"
  shows "waitAndRecheck fuel u e v =
     (if LastTimeUpdated (interfere e (ops v) (runState v)) < now v + max 0 d + int64 (- T)
      then (if dbFails e (ops v + 3)
            then Some (Some (Error ''PrepareForUpdating failed''),
                   v\<lparr>runState := interfere e (ops v) (runState v),
                     now := now v + max 0 d,
                     ops := ops v + 4,
                     trace := trace v @
                       [Sleep d, TxBegin, LockTable, RepoCall GetTenantsUpdateOp True,
                        LogInfo ''last update was interrupted - restarting a new one'',
                        RepoCall PrepareForUpdatingOp True]\<rparr>)
            else updateTenantsForTypes fuel u e (DefaultEnvTypes e)
                   (v\<lparr>runState := (interfere e (ops v) (runState v))
                                    \<lparr>Status := Updating, FailedCount := 0, CanContinue := True\<rparr>,
                      now := now v + max 0 d,
                      ops := ops v + 4,
                      trace := trace v @
                        [Sleep d, TxBegin, LockTable, RepoCall GetTenantsUpdateOp True,
                         LogInfo ''last update was interrupted - restarting a new one'',
                         RepoCall PrepareForUpdatingOp True]\<rparr>))
      else Some (None,
             v\<lparr>runState := interfere e (ops v) (runState v),
               now := now v + max 0 d,
               ops := ops v + 3,
               trace := trace v @
                 [Sleep d, TxBegin, LockTable, RepoCall GetTenantsUpdateOp True,
                  LogInfo ''there is still an ongoing update in process'']\<rparr>))"
  using assms
  by (simp add: waitAndRecheck_def time_Sleep_def Transaction_lock_ok emit_def waitAndRecheck_tx_def
      repo_GetTenantsUpdate_def repoCall_def tick_def repo_PrepareForUpdating_def
      IsOlderThanTimeout_def eval_nat_numeral world_order)

text \<open>
  C4 (as amended). When the trigger reads a row \<open>tu\<close> whose status is
  \<open>Updating\<close> (the begin, the lock and the read succeed): if
  \<open>LastTimeUpdated\<close> is older than the retry timeout \<open>T\<close> it calls
  \<open>PrepareForUpdating\<close> and runs one pass over the full default list; otherwise it
  changes nothing and goes on with \<open>waitAndRecheck\<close>. That one sleeps for
  \<open>d\<close>, the \<^verbatim>\<open>int64\<close> value of the timeout plus a tenth of
  it (that very sum when it fits), takes the lock once, reads the row, and either restarts in
  the same way when the row is now older than the timeout, or logs that an update is still
  going on and returns without any further call. A pass over a list of types covers those types
  of the list that the filter of the updater accepts (all of them when the filter is
  \<open>AllTypes\<close>), each with the version its template gives: with this map it asks for
  the clusters, runs the cluster runners, and then either returns the error made of the
  runners' errors or finalizes.
\<close>

theorem updating_trigger_restarts_iff_timed_out:
  assumes "\<not> dbFails e (ops w)" and "\<not> dbFails e (Suc (ops w))"
    and "\<not> dbFails e (Suc (Suc (ops w)))"
    and "tu = interfere e (ops w) (runState w)"
    and "Status tu = Updating"
    and "T = GetAutomatedUpdateRetrySleep e"
    and "d = int64 (T + go_quot T 10)"
  shows "UpdateAllTenants fuel u e w =
     (if LastTimeUpdated tu < now w + int64 (- T) then
        (if dbFails e (ops w + 3) then
           Some (HandleTenantUpdateError e (Error ''PrepareForUpdating failed'')
                  (w\<lparr>runState := tu, ops := ops w + 4,
                     trace := trace w @
                       [LogInfo ''triggering tenants update process'', TxBegin, LockTable,
                        RepoCall GetTenantsUpdateOp True,
                        LogInfo ''starting update for outdated types'',
                        RepoCall PrepareForUpdatingOp True]\<rparr>))
         else
           (case updateTenantsForTypes fuel u e (DefaultEnvTypes e)
                   (w\<lparr>runState := tu\<lparr>Status := Updating, FailedCount := 0, CanContinue := True\<rparr>,
                      ops := ops w + 4,
                      trace := trace w @
                        [LogInfo ''triggering tenants update process'', TxBegin, LockTable,
                         RepoCall GetTenantsUpdateOp True,
                         LogInfo ''starting update for outdated types'',
                         RepoCall PrepareForUpdatingOp True]\<rparr>) of
              None \<Rightarrow> None
            | Some (Some err, w2) \<Rightarrow> Some (HandleTenantUpdateError e err w2)
            | Some (None, w2) \<Rightarrow> Some w2))
      else
        (case waitAndRecheck fuel u e
                (w\<lparr>runState := tu, ops := ops w + 3,
                   trace := trace w @
                     [LogInfo ''triggering tenants update process'', TxBegin, LockTable,
                      RepoCall GetTenantsUpdateOp True,
                      LogInfo ''there seems to be an ongoing update - going to wait for if the update still continues'']\<rparr>) of
           None \<Rightarrow> None
         | Some (Some err, w2) \<Rightarrow> Some (HandleTenantUpdateError e err w2)
         | Some (None, w2) \<Rightarrow> Some w2)) \<and>
     (\<forall>v. \<not> dbFails e (ops v) \<and> \<not> dbFails e (Suc (ops v)) \<and> \<not> dbFails e (Suc (Suc (ops v))) \<longrightarrow>
        waitAndRecheck fuel u e v =
          (if LastTimeUpdated (interfere e (ops v) (runState v)) < now v + max 0 d + int64 (- T)
           then (if dbFails e (ops v + 3)
                 then Some (Some (Error ''PrepareForUpdating failed''),
                        v\<lparr>runState := interfere e (ops v) (runState v),
                          now := now v + max 0 d,
                          ops := ops v + 4,
                          trace := trace v @
                            [Sleep d, TxBegin, LockTable, RepoCall GetTenantsUpdateOp True,
                             LogInfo ''last update was interrupted - restarting a new one'',
                             RepoCall PrepareForUpdatingOp True]\<rparr>)
                 else updateTenantsForTypes fuel u e (DefaultEnvTypes e)
                        (v\<lparr>runState := (interfere e (ops v) (runState v))
                                         \<lparr>Status := Updating, FailedCount := 0, CanContinue := True\<rparr>,
                           now := now v + max 0 d,
                           ops := ops v + 4,
                           trace := trace v @
                             [Sleep d, TxBegin, LockTable, RepoCall GetTenantsUpdateOp True,
                              LogInfo ''last update was interrupted - restarting a new one'',
                              RepoCall PrepareForUpdatingOp True]\<rparr>))
           else Some (None,
                  v\<lparr>runState := interfere e (ops v) (runState v),
                    now := now v + max 0 d,
                    ops := ops v + 3,
                    trace := trace v @
                      [Sleep d, TxBegin, LockTable, RepoCall GetTenantsUpdateOp True,
                       LogInfo ''there is still an ongoing update in process'']\<rparr>))) \<and>
     (- 9223372036854775808 < T \<and> T \<le> 9223372036854775807 \<and>
      - 9223372036854775808 \<le> T + go_quot T 10 \<and> T + go_quot T 10 \<le> 9223372036854775807
        \<longrightarrow> int64 (- T) = - T \<and> d = T + go_quot T 10) \<and>
     (\<forall>envTypes t.
        map_of (typesWithVersion_loop u e envTypes []) t =
          (if t \<in> set envTypes \<and> IsOk (filterEnvType u) t
           then Some (ConstructCompleteVersion e t) else None)) \<and>
     (\<forall>envTypes.
        fst ` set (typesWithVersion_loop u e envTypes []) =
          {t \<in> set envTypes. IsOk (filterEnvType u) t}) \<and>
     (filterEnvType u = AllTypes \<longrightarrow>
        (\<forall>envTypes. fst ` set (typesWithVersion_loop u e envTypes []) = set envTypes)) \<and>
     (\<forall>envTypes. distinct (map fst (typesWithVersion_loop u e envTypes []))) \<and>
     (\<forall>envTypes v.
        updateTenantsForTypes fuel u e envTypes v =
          (case (if limitToCluster u \<noteq> '''' then (Inr [limitToCluster u], v)
                 else (GetClustersToUpdate e (ops v) (typesWithVersion_loop u e envTypes [])
                         (Commit e),
                       emit FetchClusters (tick v))) of
             (Inl err, w1) \<Rightarrow> Some (Some err, w1)
           | (Inr clustersToUpdate, w1) \<Rightarrow>
               (case runClusters fuel e clustersToUpdate (typesWithVersion_loop u e envTypes []) w1 of
                  None \<Rightarrow> None
                | Some (errs, w2) \<Rightarrow>
                    if errs \<noteq> []
                    then Some (Some (fmt_Errorf e
                                       (ListErrorsInMessage errs (length clustersToUpdate))),
                               w2)
                    else (case Transaction e
                                 (lock e (closure0 (setStatusAndVersionsAfterUpdate u e))) () w2 of
                            ((err, _), w3) \<Rightarrow> Some (err, w3)))))"
  (is "?A1 \<and> ?A2 \<and> ?A3 \<and> ?S1 \<and> ?S2 \<and> ?S3 \<and> ?S4 \<and> ?S5")
proof -
  have a1: ?A1
    using assms
    by (simp add: UpdateAllTenants_def Transaction_lock_ok emit_def UpdateAllTenants_tx_def
        repo_GetTenantsUpdate_def repoCall_def tick_def prepareAndAssignStart_eq call_followUp_def
        IsOlderThanTimeout_def eval_nat_numeral world_order)
  have a2: ?A2
    using assms(6,7) by (intro allI impI waitAndRecheck_ok) simp_all
  have a3: ?A3
    using assms(7) by (simp add: int64_id)
  have s1: ?S1 by (simp add: map_of_typesWithVersion_loop)
  have s2: ?S2 by (intro allI keys_typesWithVersion_loop)
  have s3: ?S3 by (simp add: keys_typesWithVersion_loop AllTypes_def)
  have s4: ?S4 by (simp add: distinct_typesWithVersion_loop)
  have s5: ?S5 by (intro allI updateTenantsForTypes_eq)
  from a1 a2 a3 s1 s2 s3 s4 s5 show ?thesis by (intro conjI)
qed

theorem updating_trigger_restarts_iff_timed_out_witness:
  "\<not> dbFails busy_env (ops world_busy) \<and> \<not> dbFails busy_env (Suc (ops world_busy)) \<and>
   \<not> dbFails busy_env (Suc (Suc (ops world_busy))) \<and>
   Status (interfere busy_env (ops world_busy) (runState world_busy)) = Updating \<and>
   - 9223372036854775808 < GetAutomatedUpdateRetrySleep busy_env \<and>
   GetAutomatedUpdateRetrySleep busy_env \<le> 9223372036854775807 \<and>
   - 9223372036854775808
     \<le> GetAutomatedUpdateRetrySleep busy_env + go_quot (GetAutomatedUpdateRetrySleep busy_env) 10 \<and>
   GetAutomatedUpdateRetrySleep busy_env + go_quot (GetAutomatedUpdateRetrySleep busy_env) 10
     \<le> 9223372036854775807 \<and>
   int64 (- GetAutomatedUpdateRetrySleep busy_env) = - GetAutomatedUpdateRetrySleep busy_env \<and>
   int64 (GetAutomatedUpdateRetrySleep busy_env + go_quot (GetAutomatedUpdateRetrySleep busy_env) 10)
     = GetAutomatedUpdateRetrySleep busy_env + go_quot (GetAutomatedUpdateRetrySleep busy_env) 10 \<and>
   GetAutomatedUpdateRetrySleep busy_env + go_quot (GetAutomatedUpdateRetrySleep busy_env) 10 = 110 \<and>
   UpdateAllTenants 1 unrestricted busy_env world_busy =
     Some \<lparr>runState = \<lparr>Status = Updating, LastTimeUpdated = 1100, FailedCount = 0,
              CanContinue = True,
              CurrentVersions = [(''user'', ''v1''), (''stage'', ''v1''), (''run'', ''v1'')]\<rparr>,
           now = 1110, ops = 6,
           trace =
             [LogInfo ''triggering tenants update process'', TxBegin, LockTable,
              RepoCall GetTenantsUpdateOp True,
              LogInfo ''there seems to be an ongoing update - going to wait for if the update still continues'',
              Sleep 110, TxBegin, LockTable, RepoCall GetTenantsUpdateOp True,
              LogInfo ''there is still an ongoing update in process'']\<rparr> \<and>
   \<not> dbFails busy_env (ops world0) \<and> \<not> dbFails busy_env (Suc (ops world0)) \<and>
   \<not> dbFails busy_env (Suc (Suc (ops world0))) \<and>
   Status (interfere busy_env (ops world0) (runState world0)) = Updating \<and>
   UpdateAllTenants 1 unrestricted busy_env world0 =
     Some \<lparr>runState = \<lparr>Status = Finished, LastTimeUpdated = 0, FailedCount = 0,
              CanContinue = True,
              CurrentVersions = [(''user'', ''v2''), (''stage'', ''v2''), (''run'', ''v2'')]\<rparr>,
           now = 1000, ops = 10,
           trace =
             [LogInfo ''triggering tenants update process'', TxBegin, LockTable,
              RepoCall GetTenantsUpdateOp True,
              LogInfo ''starting update for outdated types'',
              RepoCall PrepareForUpdatingOp True, FetchClusters, FetchTenants ''c1'', TxBegin,
              LockTable, RepoCall GetTenantsUpdateOp True,
              SetVersion \<lparr>EnvTypes = [''user''], TargetVersion = ''v2''\<rparr>,
              SetVersion \<lparr>EnvTypes = [''stage'', ''run''], TargetVersion = ''v2''\<rparr>,
              LogInfo ''the whole tenants update process has been finished'',
              RepoCall SaveTenantsUpdateOp True]\<rparr> \<and>
   waitAndRecheck 1 unrestricted busy_env world_busy =
     Some (None,
       \<lparr>runState = \<lparr>Status = Finished, LastTimeUpdated = 950, FailedCount = 0,
              CanContinue = True,
              CurrentVersions = [(''user'', ''v2''), (''stage'', ''v2''), (''run'', ''v2'')]\<rparr>,
        now = 1110, ops = 10,
        trace =
          [Sleep 110, TxBegin, LockTable, RepoCall GetTenantsUpdateOp True,
           LogInfo ''last update was interrupted - restarting a new one'',
           RepoCall PrepareForUpdatingOp True, FetchClusters, FetchTenants ''c1'', TxBegin,
           LockTable, RepoCall GetTenantsUpdateOp True,
           SetVersion \<lparr>EnvTypes = [''user''], TargetVersion = ''v2''\<rparr>,
           SetVersion \<lparr>EnvTypes = [''stage'', ''run''], TargetVersion = ''v2''\<rparr>,
           LogInfo ''the whole tenants update process has been finished'',
           RepoCall SaveTenantsUpdateOp True]\<rparr>) \<and>
   filterEnvType unrestricted = AllTypes \<and>
   fst ` set (typesWithVersion_loop unrestricted busy_env (DefaultEnvTypes busy_env) [])
     = set (DefaultEnvTypes busy_env)"
proof -
  have h: "\<not> dbFails busy_env (ops world_busy)" "\<not> dbFails busy_env (Suc (ops world_busy))"
    "\<not> dbFails busy_env (Suc (Suc (ops world_busy)))"
    "interfere busy_env (ops world_busy) (runState world_busy)
       = interfere busy_env (ops world_busy) (runState world_busy)"
    "Status (interfere busy_env (ops world_busy) (runState world_busy)) = Updating"
    "GetAutomatedUpdateRetrySleep busy_env = GetAutomatedUpdateRetrySleep busy_env"
    "int64 (GetAutomatedUpdateRetrySleep busy_env + go_quot (GetAutomatedUpdateRetrySleep busy_env) 10)
       = int64 (GetAutomatedUpdateRetrySleep busy_env
                + go_quot (GetAutomatedUpdateRetrySleep busy_env) 10)"
    by (simp_all add: busy_env_def quiet_env_def world_busy_def world0_def row0_def)
  have h0: "\<not> dbFails busy_env (ops world0)" "\<not> dbFails busy_env (Suc (ops world0))"
    "\<not> dbFails busy_env (Suc (Suc (ops world0)))"
    "interfere busy_env (ops world0) (runState world0)
       = interfere busy_env (ops world0) (runState world0)"
    "Status (interfere busy_env (ops world0) (runState world0)) = Updating"
    by (simp_all add: busy_env_def quiet_env_def world0_def row0_def)
  note t = updating_trigger_restarts_iff_timed_out [OF h, of 1 unrestricted]
  note t0 = updating_trigger_restarts_iff_timed_out [OF h0 h(6,7), of 1 unrestricted]
  have g: "- 9223372036854775808 < GetAutomatedUpdateRetrySleep busy_env"
    "GetAutomatedUpdateRetrySleep busy_env \<le> 9223372036854775807"
    "- 9223372036854775808
       \<le> GetAutomatedUpdateRetrySleep busy_env + go_quot (GetAutomatedUpdateRetrySleep busy_env) 10"
    "GetAutomatedUpdateRetrySleep busy_env + go_quot (GetAutomatedUpdateRetrySleep busy_env) 10
       \<le> 9223372036854775807"
    "GetAutomatedUpdateRetrySleep busy_env + go_quot (GetAutomatedUpdateRetrySleep busy_env) 10 = 110"
    by (simp_all add: busy_env_def quiet_env_def go_quot_def)
  have d: "int64 (- GetAutomatedUpdateRetrySleep busy_env) = - GetAutomatedUpdateRetrySleep busy_env \<and>
    int64 (GetAutomatedUpdateRetrySleep busy_env + go_quot (GetAutomatedUpdateRetrySleep busy_env) 10)
     = GetAutomatedUpdateRetrySleep busy_env + go_quot (GetAutomatedUpdateRetrySleep busy_env) 10"
    by (rule mp [OF conjunct1 [OF conjunct2 [OF conjunct2 [OF t]]]]) (intro conjI g(1,2,3,4))
  have r: "UpdateAllTenants 1 unrestricted busy_env world_busy =
     Some \<lparr>runState = \<lparr>Status = Updating, LastTimeUpdated = 1100, FailedCount = 0,
              CanContinue = True,
              CurrentVersions = [(''user'', ''v1''), (''stage'', ''v1''), (''run'', ''v1'')]\<rparr>,
           now = 1110, ops = 6,
           trace =
             [LogInfo ''triggering tenants update process'', TxBegin, LockTable,
              RepoCall GetTenantsUpdateOp True,
              LogInfo ''there seems to be an ongoing update - going to wait for if the update still continues'',
              Sleep 110, TxBegin, LockTable, RepoCall GetTenantsUpdateOp True,
              LogInfo ''there is still an ongoing update in process'']\<rparr>"
    by (rule trans [OF conjunct1 [OF t]])
       (simp add: model_defs busy_env_def quiet_env_def world_busy_def world0_def row0_def
          unrestricted_def)
  have r0: "UpdateAllTenants 1 unrestricted busy_env world0 =
     Some \<lparr>runState = \<lparr>Status = Finished, LastTimeUpdated = 0, FailedCount = 0,
              CanContinue = True,
              CurrentVersions = [(''user'', ''v2''), (''stage'', ''v2''), (''run'', ''v2'')]\<rparr>,
           now = 1000, ops = 10,
           trace =
             [LogInfo ''triggering tenants update process'', TxBegin, LockTable,
              RepoCall GetTenantsUpdateOp True,
              LogInfo ''starting update for outdated types'',
              RepoCall PrepareForUpdatingOp True, FetchClusters, FetchTenants ''c1'', TxBegin,
              LockTable, RepoCall GetTenantsUpdateOp True,
              SetVersion \<lparr>EnvTypes = [''user''], TargetVersion = ''v2''\<rparr>,
              SetVersion \<lparr>EnvTypes = [''stage'', ''run''], TargetVersion = ''v2''\<rparr>,
              LogInfo ''the whole tenants update process has been finished'',
              RepoCall SaveTenantsUpdateOp True]\<rparr>"
    by (rule trans [OF conjunct1 [OF t0]])
       (simp add: model_defs busy_env_def quiet_env_def world0_def row0_def unrestricted_def)
  have rw: "waitAndRecheck 1 unrestricted busy_env world_busy =
     Some (None,
       \<lparr>runState = \<lparr>Status = Finished, LastTimeUpdated = 950, FailedCount = 0,
              CanContinue = True,
              CurrentVersions = [(''user'', ''v2''), (''stage'', ''v2''), (''run'', ''v2'')]\<rparr>,
        now = 1110, ops = 10,
        trace =
          [Sleep 110, TxBegin, LockTable, RepoCall GetTenantsUpdateOp True,
           LogInfo ''last update was interrupted - restarting a new one'',
           RepoCall PrepareForUpdatingOp True, FetchClusters, FetchTenants ''c1'', TxBegin,
           LockTable, RepoCall GetTenantsUpdateOp True,
           SetVersion \<lparr>EnvTypes = [''user''], TargetVersion = ''v2''\<rparr>,
           SetVersion \<lparr>EnvTypes = [''stage'', ''run''], TargetVersion = ''v2''\<rparr>,
           LogInfo ''the whole tenants update process has been finished'',
           RepoCall SaveTenantsUpdateOp True]\<rparr>)"
    by (rule trans [OF mp [OF spec [OF conjunct1 [OF conjunct2 [OF t]]]]])
       (simp_all add: model_defs busy_env_def quiet_env_def world_busy_def world0_def row0_def
          unrestricted_def)
  have f: "filterEnvType unrestricted = AllTypes" by (simp add: unrestricted_def)
  have k: "fst ` set (typesWithVersion_loop unrestricted busy_env (DefaultEnvTypes busy_env) [])
             = set (DefaultEnvTypes busy_env)"
    by (rule spec [OF mp [OF conjunct1 [OF conjunct2 [OF conjunct2 [OF conjunct2 [OF conjunct2
                            [OF conjunct2 [OF t]]]]]] f]])
  show ?thesis
    using h(1,2,3,5) h0(1,2,3,5) g conjunct1 [OF d] conjunct2 [OF d] r r0 rw f k
    by (intro conjI)
qed

text \<open>
  The claim C4 as it is written fails on two runs. The pass that restarts a run whose last
  update is older than the timeout need not cover the full default set. The updater is
  restricted to \<open>user\<close>: the pass is given the three default types and covers
  \<open>user\<close> alone, so the cluster query is asked about \<open>user\<close> alone and
  names one cluster, and the run ends \<open>Incomplete\<close> with the markers of
  \<open>stage\<close> and \<open>run\<close> as they were. Nor is the sleep always the timeout
  plus a tenth of it: with the longest timeout that sum does not fit into an
  \<^verbatim>\<open>int64\<close> and wraps around to a negative duration, for which
  \<^verbatim>\<open>time.Sleep\<close> returns at once, so the clock stands still.
\<close>

theorem updating_trigger_scope_and_sleep_counterexample:
  "Status (runState world0) = Updating \<and>
   IsOlderThanTimeout scope_env (LastTimeUpdated (runState world0)) world0 \<and>
   DefaultEnvTypes scope_env = [''user'', ''stage'', ''run''] \<and>
   typesWithVersion_loop only_user scope_env (DefaultEnvTypes scope_env) [] = [(''user'', ''v2'')] \<and>
   UpdateAllTenants 1 only_user scope_env world0 =
     Some \<lparr>runState = \<lparr>Status = Incomplete, LastTimeUpdated = 0, FailedCount = 0,
              CanContinue = True,
              CurrentVersions = [(''user'', ''v2''), (''stage'', ''v1''), (''run'', ''v1'')]\<rparr>,
           now = 1000, ops = 10,
           trace =
             [LogInfo ''triggering tenants update process'', TxBegin, LockTable,
              RepoCall GetTenantsUpdateOp True,
              LogInfo ''starting update for outdated types'',
              RepoCall PrepareForUpdatingOp True, FetchClusters, FetchTenants ''user'', TxBegin,
              LockTable, RepoCall GetTenantsUpdateOp True,
              SetVersion \<lparr>EnvTypes = [''user''], TargetVersion = ''v2''\<rparr>,
              LogInfo ''the whole tenants update process has been finished'',
              RepoCall SaveTenantsUpdateOp True]\<rparr> \<and>
   GetAutomatedUpdateRetrySleep longest_timeout_env = 9223372036854775807 \<and>
   UpdateAllTenants 1 unrestricted longest_timeout_env world_busy =
     Some \<lparr>runState = \<lparr>Status = Updating, LastTimeUpdated = 950, FailedCount = 0,
              CanContinue = True,
              CurrentVersions = [(''user'', ''v1''), (''stage'', ''v1''), (''run'', ''v1'')]\<rparr>,
           now = 1000, ops = 6,
           trace =
             [LogInfo ''triggering tenants update process'', TxBegin, LockTable,
              RepoCall GetTenantsUpdateOp True,
              LogInfo ''there seems to be an ongoing update - going to wait for if the update still continues'',
              Sleep (- 8301034833169298229), TxBegin, LockTable,
              RepoCall GetTenantsUpdateOp True,
              LogInfo ''there is still an ongoing update in process'']\<rparr>"
  by (simp add: model_defs scope_env_def longest_timeout_env_def quiet_env_def world_busy_def
      world0_def row0_def only_user_def unrestricted_def)

text \<open>
  C5 (as amended). When the trigger reads a row whose status is \<open>Failed\<close>,
  \<open>Killed\<close> or \<open>Incomplete\<close> (the begin, the lock and the read
  succeed), it calls \<open>PrepareForUpdating\<close> and, when that call succeeds, runs one
  pass over the full default list of environment types on the prepared row; a failed call ends
  the trigger in its error handler. Nothing of this depends on the version managers or on the
  stored markers. A pass over a list of types covers those types of the list that the filter of
  the updater accepts (all of them when the filter is \<open>AllTypes\<close>), each with the
  version its template gives: with this map it asks for the clusters, runs the cluster runners,
  and then either returns the error made of the runners' errors or finalizes.
\<close>

theorem recovery_trigger_restarts_with_default_types:
  assumes "\<not> dbFails e (ops w)" and "\<not> dbFails e (Suc (ops w))"
    and "\<not> dbFails e (Suc (Suc (ops w)))"
    and "Status (interfere e (ops w) (runState w)) \<in> {Failed, Killed, Incomplete}"
  shows "UpdateAllTenants fuel u e w =
     (if dbFails e (Suc (Suc (Suc (ops w))))
      then Some (HandleTenantUpdateError e (Error ''PrepareForUpdating failed'')
             (w\<lparr>ops := ops w + 4,
                trace := trace w @
                  [LogInfo ''triggering tenants update process'', TxBegin, LockTable,
                   RepoCall GetTenantsUpdateOp True,
                   LogInfo ''last update has status - going to check failed or incomplete updates'',
                   LogInfo ''starting update for outdated types'',
                   RepoCall PrepareForUpdatingOp True],
                runState := interfere e (ops w) (runState w)\<rparr>))
      else (case updateTenantsForTypes fuel u e (DefaultEnvTypes e)
                   (w\<lparr>runState := (interfere e (ops w) (runState w))
                                    \<lparr>Status := Updating, FailedCount := 0, CanContinue := True\<rparr>,
                      ops := ops w + 4,
                      trace := trace w @
                        [LogInfo ''triggering tenants update process'', TxBegin, LockTable,
                         RepoCall GetTenantsUpdateOp True,
                         LogInfo ''last update has status - going to check failed or incomplete updates'',
                         LogInfo ''starting update for outdated types'',
                         RepoCall PrepareForUpdatingOp True]\<rparr>) of
              None \<Rightarrow> None
            | Some (Some err, w2) \<Rightarrow> Some (HandleTenantUpdateError e err w2)
            | Some (None, w2) \<Rightarrow> Some w2)) \<and>
         (\<forall>envTypes t.
            map_of (typesWithVersion_loop u e envTypes []) t =
              (if t \<in> set envTypes \<and> IsOk (filterEnvType u) t
               then Some (ConstructCompleteVersion e t) else None)) \<and>
         (\<forall>envTypes.
            fst ` set (typesWithVersion_loop u e envTypes []) =
              {t \<in> set envTypes. IsOk (filterEnvType u) t}) \<and>
         (filterEnvType u = AllTypes \<longrightarrow>
            (\<forall>envTypes. fst ` set (typesWithVersion_loop u e envTypes []) = set envTypes)) \<and>
         (\<forall>envTypes. distinct (map fst (typesWithVersion_loop u e envTypes []))) \<and>
         (\<forall>envTypes v.
            updateTenantsForTypes fuel u e envTypes v =
              (case (if limitToCluster u \<noteq> '''' then (Inr [limitToCluster u], v)
                     else (GetClustersToUpdate e (ops v) (typesWithVersion_loop u e envTypes [])
                             (Commit e),
                           emit FetchClusters (tick v))) of
                 (Inl err, w1) \<Rightarrow> Some (Some err, w1)
               | (Inr clustersToUpdate, w1) \<Rightarrow>
                   (case runClusters fuel e clustersToUpdate (typesWithVersion_loop u e envTypes []) w1 of
                      None \<Rightarrow> None
                    | Some (errs, w2) \<Rightarrow>
                        if errs \<noteq> []
                        then Some (Some (fmt_Errorf e
                                           (ListErrorsInMessage errs (length clustersToUpdate))),
                                   w2)
                        else (case Transaction e
                                     (lock e (closure0 (setStatusAndVersionsAfterUpdate u e))) () w2 of
                                ((err, _), w3) \<Rightarrow> Some (err, w3)))))"
  (is "?A1 \<and> ?S1 \<and> ?S2 \<and> ?S3 \<and> ?S4 \<and> ?S5")
proof -
  have a1: ?A1
    using assms
    by (auto simp add: UpdateAllTenants_def Transaction_lock_ok emit_def UpdateAllTenants_tx_def
        repo_GetTenantsUpdate_def repoCall_def tick_def prepareAndAssignStart_eq call_followUp_def
        eval_nat_numeral)
  have s1: ?S1 by (simp add: map_of_typesWithVersion_loop)
  have s2: ?S2 by (intro allI keys_typesWithVersion_loop)
  have s3: ?S3 by (simp add: keys_typesWithVersion_loop AllTypes_def)
  have s4: ?S4 by (simp add: distinct_typesWithVersion_loop)
  have s5: ?S5 by (intro allI updateTenantsForTypes_eq)
  from a1 s1 s2 s3 s4 s5 show ?thesis by (intro conjI)
qed

theorem recovery_trigger_restarts_with_default_types_witness:
  "\<not> dbFails quiet_env (ops world_failed) \<and> \<not> dbFails quiet_env (Suc (ops world_failed)) \<and>
   \<not> dbFails quiet_env (Suc (Suc (ops world_failed))) \<and>
   Status (interfere quiet_env (ops world_failed) (runState world_failed)) \<in> {Failed, Killed, Incomplete} \<and>
   UpdateAllTenants 1 unrestricted quiet_env world_failed =
     Some \<lparr>runState = \<lparr>Status = Finished, LastTimeUpdated = 0, FailedCount = 0, CanContinue = True,
              CurrentVersions = [(''user'', ''v2''), (''stage'', ''v2''), (''run'', ''v2'')]\<rparr>,
           now = 1000, ops = 10,
           trace =
             [LogInfo ''triggering tenants update process'', TxBegin, LockTable,
              RepoCall GetTenantsUpdateOp True,
              LogInfo ''last update has status - going to check failed or incomplete updates'',
              LogInfo ''starting update for outdated types'',
              RepoCall PrepareForUpdatingOp True, FetchClusters, FetchTenants ''c1'', TxBegin,
              LockTable, RepoCall GetTenantsUpdateOp True,
              SetVersion \<lparr>EnvTypes = [''user''], TargetVersion = ''v2''\<rparr>,
              SetVersion \<lparr>EnvTypes = [''stage'', ''run''], TargetVersion = ''v2''\<rparr>,
              LogInfo ''the whole tenants update process has been finished'',
              RepoCall SaveTenantsUpdateOp True]\<rparr> \<and>
   filterEnvType unrestricted = AllTypes \<and>
   fst ` set (typesWithVersion_loop unrestricted quiet_env (DefaultEnvTypes quiet_env) [])
     = set (DefaultEnvTypes quiet_env)"
proof -
  have h: "\<not> dbFails quiet_env (ops world_failed)" "\<not> dbFails quiet_env (Suc (ops world_failed))"
    "\<not> dbFails quiet_env (Suc (Suc (ops world_failed)))"
    "Status (interfere quiet_env (ops world_failed) (runState world_failed)) \<in> {Failed, Killed, Incomplete}"
    by (simp_all add: quiet_env_def world_failed_def world0_def row0_def)
  have r: "UpdateAllTenants 1 unrestricted quiet_env world_failed =
     Some \<lparr>runState = \<lparr>Status = Finished, LastTimeUpdated = 0, FailedCount = 0, CanContinue = True,
              CurrentVersions = [(''user'', ''v2''), (''stage'', ''v2''), (''run'', ''v2'')]\<rparr>,
           now = 1000, ops = 10,
           trace =
             [LogInfo ''triggering tenants update process'', TxBegin, LockTable,
              RepoCall GetTenantsUpdateOp True,
              LogInfo ''last update has status - going to check failed or incomplete updates'',
              LogInfo ''starting update for outdated types'',
              RepoCall PrepareForUpdatingOp True, FetchClusters, FetchTenants ''c1'', TxBegin,
              LockTable, RepoCall GetTenantsUpdateOp True,
              SetVersion \<lparr>EnvTypes = [''user''], TargetVersion = ''v2''\<rparr>,
              SetVersion \<lparr>EnvTypes = [''stage'', ''run''], TargetVersion = ''v2''\<rparr>,
              LogInfo ''the whole tenants update process has been finished'',
              RepoCall SaveTenantsUpdateOp True]\<rparr>"
    by (rule trans [OF conjunct1 [OF recovery_trigger_restarts_with_default_types [OF h, of 1 unrestricted]]])
       (simp add: model_defs quiet_env_def world_failed_def world0_def row0_def unrestricted_def)
  have f: "filterEnvType unrestricted = AllTypes" by (simp add: unrestricted_def)
  have k: "fst ` set (typesWithVersion_loop unrestricted quiet_env (DefaultEnvTypes quiet_env) [])
             = set (DefaultEnvTypes quiet_env)"
    by (rule spec [OF mp [OF conjunct1 [OF conjunct2 [OF conjunct2 [OF conjunct2
             [OF recovery_trigger_restarts_with_default_types [OF h, of 1 unrestricted]]]]] f]])
  show ?thesis using h r f k by (intro conjI)
qed

text \<open>
  The claim C5 as it is written fails under a restricted filter: the pass that follows a failed
  run need not cover the full default set. The updater is restricted to \<open>user\<close>:
  the pass is given the three default types and covers \<open>user\<close> alone, so the
  cluster query is asked about \<open>user\<close> alone and names one cluster, and the run
  ends \<open>Incomplete\<close> with the markers of \<open>stage\<close> and
  \<open>run\<close> as they were.
\<close>

theorem recovery_trigger_filtered_scope_counterexample:
  "Status (runState world_failed) = Failed \<and>
   DefaultEnvTypes scope_env = [''user'', ''stage'', ''run''] \<and>
   typesWithVersion_loop only_user scope_env (DefaultEnvTypes scope_env) [] = [(''user'', ''v2'')] \<and>
   UpdateAllTenants 1 only_user scope_env world_failed =
     Some \<lparr>runState = \<lparr>Status = Incomplete, LastTimeUpdated = 0, FailedCount = 0,
              CanContinue = True,
              CurrentVersions = [(''user'', ''v2''), (''stage'', ''v1''), (''run'', ''v1'')]\<rparr>,
           now = 1000, ops = 10,
           trace =
             [LogInfo ''triggering tenants update process'', TxBegin, LockTable,
              RepoCall GetTenantsUpdateOp True,
              LogInfo ''last update has status - going to check failed or incomplete updates'',
              LogInfo ''starting update for outdated types'',
              RepoCall PrepareForUpdatingOp True, FetchClusters, FetchTenants ''user'', TxBegin,
              LockTable, RepoCall GetTenantsUpdateOp True,
              SetVersion \<lparr>EnvTypes = [''user''], TargetVersion = ''v2''\<rparr>,
              LogInfo ''the whole tenants update process has been finished'',
              RepoCall SaveTenantsUpdateOp True]\<rparr>"
  by (simp add: model_defs scope_env_def quiet_env_def world_failed_def world0_def row0_def
      only_user_def)

subsection \<open>One tenant and one batch\<close>

lemma check_ok:
  assumes "\<not> dbFails e (ops w)" and "\<not> dbFails e (Suc (ops w))"
  shows "Transaction e (updateTenants_tx e) canContinue w =
     ((None, CanContinue (interfere e (ops w) (runState w))),
      w\<lparr>runState := interfere e (ops w) (runState w), ops := ops w + 2,
        trace := trace w @ [TxBegin, RepoCall CanContinueOp False]\<rparr>)"
  using assms
  by (simp add: Transaction_def updateTenants_tx_def repo_CanContinue_def repoCall_def emit_def
      tick_def)

lemma updateTenant_fetch_failed:
  assumes "GetNamespaces e (ops w) (ID tnnt) = Inl err"
  shows "updateTenant e tnnt typesWithVersion w =
     w\<lparr>ops := Suc (ops w),
       trace := trace w @ [FetchNamespaces (ID tnnt),
         LogError ''unable to get current tenant namespaces during cluster-wide update'']\<rparr>"
  using assms by (simp add: updateTenant_def emit_def tick_def)

lemma updateTenant_executor_ok:
  assumes "GetNamespaces e (ops w) (ID tnnt) = Inr namespaces"
    and "Update e (Suc (ops w)) tnnt (fst (toUpdate_loop typesWithVersion namespaces ([], []))) False = None"
  shows "updateTenant e tnnt typesWithVersion w =
     w\<lparr>ops := ops w + 2,
       trace := trace w @ [FetchNamespaces (ID tnnt),
         LogInfo ''starting update of tenant for outdated namespaces'',
         ExecutorUpdate (ID tnnt) (fst (toUpdate_loop typesWithVersion namespaces ([], []))) False,
         LogInfo ''update of tenant for outdated namespace finished'']\<rparr>"
  using assms by (simp add: updateTenant_def emit_def tick_def Let_def)

lemma updateTenant_executor_failed:
  assumes "GetNamespaces e (ops w) (ID tnnt) = Inr namespaces"
    and "Update e (Suc (ops w)) tnnt (fst (toUpdate_loop typesWithVersion namespaces ([], []))) False = Some err"
    and "\<not> dbFails e (ops w + 2)" and "\<not> dbFails e (ops w + 3)" and "\<not> dbFails e (ops w + 4)"
  shows "updateTenant e tnnt typesWithVersion w =
     w\<lparr>runState := (interfere e (ops w + 2) (runState w))
            \<lparr>FailedCount := FailedCount (interfere e (ops w + 2) (runState w)) + 1\<rparr>,
       ops := ops w + 5,
       trace := trace w @ [FetchNamespaces (ID tnnt),
         LogInfo ''starting update of tenant for outdated namespaces'',
         ExecutorUpdate (ID tnnt) (fst (toUpdate_loop typesWithVersion namespaces ([], []))) True,
         TxBegin, LockTable, RepoCall IncrementFailedCountOp True,
         LogError ''unable to automatically update tenant'']\<rparr>"
  using assms
  by (simp add: updateTenant_def emit_def tick_def Let_def Transaction_lock_ok closure0_def
      repo_IncrementFailedCount_def repoCall_def eval_nat_numeral world_order)

lemma skip_env_run:
  "UpdateAllTenants 2 unrestricted skip_env world_failed =
           Some \<lparr>runState = \<lparr>Status = Finished, LastTimeUpdated = 1001, FailedCount = 0,
               CanContinue = True,
               CurrentVersions = [(''user'', ''v2''), (''stage'', ''v2''), (''run'', ''v2'')]\<rparr>,
            now = 1001, ops = 17,
            trace =
              [LogInfo ''triggering tenants update process'', TxBegin, LockTable,
               RepoCall GetTenantsUpdateOp True,
               LogInfo ''last update has status - going to check failed or incomplete updates'',
               LogInfo ''starting update for outdated types'',
               RepoCall PrepareForUpdatingOp True, FetchClusters, FetchTenants ''c1'',
               LogInfo ''starting update for next batch of outdated/failed tenants'',
               TxBegin, RepoCall CanContinueOp False, FetchNamespaces ''t1'',
               LogError ''unable to get current tenant namespaces during cluster-wide update'',
               Sleep 1, TxBegin, LockTable, RepoCall UpdateLastTimeUpdatedOp True,
               FetchTenants ''c1'', TxBegin, LockTable, RepoCall GetTenantsUpdateOp True,
               SetVersion \<lparr>EnvTypes = [''user''], TargetVersion = ''v2''\<rparr>,
               SetVersion \<lparr>EnvTypes = [''stage'', ''run''], TargetVersion = ''v2''\<rparr>,
               LogInfo ''the whole tenants update process has been finished'',
               RepoCall SaveTenantsUpdateOp True]\<rparr>"
  by (simp add: model_defs skip_env_def quiet_env_def world_failed_def world0_def row0_def
      unrestricted_def tenant_def eval_nat_numeral)

text \<open>
  C10. When \<open>GetNamespaces\<close> fails for a tenant, \<open>updateTenant\<close> only logs the fetch and reports
  the error: the executor is not called and the row, hence \<open>FailedCount\<close>, is unchanged. And
  there is a run, the one of \<open>skip_env\<close>, in which the only tenant is skipped in this way, no
  executor call fails, and the finalization still saves the status \<open>Finished\<close> with
  \<open>FailedCount = 0\<close>.
\<close>

theorem failed_namespace_fetch_skips_tenant:
  assumes "GetNamespaces e (ops w) (ID tnnt) = Inl err"
  shows "updateTenant e tnnt typesWithVersion w =
           w\<lparr>ops := Suc (ops w),
             trace := trace w @ [FetchNamespaces (ID tnnt),
               LogError ''unable to get current tenant namespaces during cluster-wide update'']\<rparr> \<and>
         UpdateAllTenants 2 unrestricted skip_env world_failed =
           Some \<lparr>runState = \<lparr>Status = Finished, LastTimeUpdated = 1001, FailedCount = 0,
               CanContinue = True,
               CurrentVersions = [(''user'', ''v2''), (''stage'', ''v2''), (''run'', ''v2'')]\<rparr>,
            now = 1001, ops = 17,
            trace =
              [LogInfo ''triggering tenants update process'', TxBegin, LockTable,
               RepoCall GetTenantsUpdateOp True,
               LogInfo ''last update has status - going to check failed or incomplete updates'',
               LogInfo ''starting update for outdated types'',
               RepoCall PrepareForUpdatingOp True, FetchClusters, FetchTenants ''c1'',
               LogInfo ''starting update for next batch of outdated/failed tenants'',
               TxBegin, RepoCall CanContinueOp False, FetchNamespaces ''t1'',
               LogError ''unable to get current tenant namespaces during cluster-wide update'',
               Sleep 1, TxBegin, LockTable, RepoCall UpdateLastTimeUpdatedOp True,
               FetchTenants ''c1'', TxBegin, LockTable, RepoCall GetTenantsUpdateOp True,
               SetVersion \<lparr>EnvTypes = [''user''], TargetVersion = ''v2''\<rparr>,
               SetVersion \<lparr>EnvTypes = [''stage'', ''run''], TargetVersion = ''v2''\<rparr>,
               LogInfo ''the whole tenants update process has been finished'',
               RepoCall SaveTenantsUpdateOp True]\<rparr>"
proof
  show "updateTenant e tnnt typesWithVersion w =
           w\<lparr>ops := Suc (ops w),
             trace := trace w @ [FetchNamespaces (ID tnnt),
               LogError ''unable to get current tenant namespaces during cluster-wide update'']\<rparr>"
    using assms by (rule updateTenant_fetch_failed)
  show "UpdateAllTenants 2 unrestricted skip_env world_failed =
           Some \<lparr>runState = \<lparr>Status = Finished, LastTimeUpdated = 1001, FailedCount = 0,
               CanContinue = True,
               CurrentVersions = [(''user'', ''v2''), (''stage'', ''v2''), (''run'', ''v2'')]\<rparr>,
            now = 1001, ops = 17,
            trace =
              [LogInfo ''triggering tenants update process'', TxBegin, LockTable,
               RepoCall GetTenantsUpdateOp True,
               LogInfo ''last update has status - going to check failed or incomplete updates'',
               LogInfo ''starting update for outdated types'',
               RepoCall PrepareForUpdatingOp True, FetchClusters, FetchTenants ''c1'',
               LogInfo ''starting update for next batch of outdated/failed tenants'',
               TxBegin, RepoCall CanContinueOp False, FetchNamespaces ''t1'',
               LogError ''unable to get current tenant namespaces during cluster-wide update'',
               Sleep 1, TxBegin, LockTable, RepoCall UpdateLastTimeUpdatedOp True,
               FetchTenants ''c1'', TxBegin, LockTable, RepoCall GetTenantsUpdateOp True,
               SetVersion \<lparr>EnvTypes = [''user''], TargetVersion = ''v2''\<rparr>,
               SetVersion \<lparr>EnvTypes = [''stage'', ''run''], TargetVersion = ''v2''\<rparr>,
               LogInfo ''the whole tenants update process has been finished'',
               RepoCall SaveTenantsUpdateOp True]\<rparr>"
    by (rule skip_env_run)
qed

theorem failed_namespace_fetch_skips_tenant_witness:
  "GetNamespaces skip_env (ops world0) (ID (tenant ''t1'')) = Inl (Error ''connection lost'') \<and>
   updateTenant skip_env (tenant ''t1'') [(''user'', ''v2'')] world0 =
     \<lparr>runState = row0, now = 1000, ops = 1,
      trace = [FetchNamespaces ''t1'',
               LogError ''unable to get current tenant namespaces during cluster-wide update'']\<rparr>"
proof -
  have h: "GetNamespaces skip_env (ops world0) (ID (tenant ''t1'')) = Inl (Error ''connection lost'')"
    by (simp add: skip_env_def quiet_env_def)
  have r: "updateTenant skip_env (tenant ''t1'') [(''user'', ''v2'')] world0 =
     \<lparr>runState = row0, now = 1000, ops = 1,
      trace = [FetchNamespaces ''t1'',
               LogError ''unable to get current tenant namespaces during cluster-wide update'']\<rparr>"
    by (rule trans [OF conjunct1 [OF failed_namespace_fetch_skips_tenant [OF h]]])
       (simp add: world0_def tenant_def)
  show ?thesis using h r by blast
qed

lemma batchEffect_refl: "batchEffect w w []"
  by (simp add: batchEffect_def)

lemma batchEffect_trans:
  assumes "batchEffect w w' ids" and "batchEffect w' w'' ids'"
  shows "batchEffect w w'' (ids @ ids')"
proof -
  from assms(1) obtain evs where 1: "trace w' = trace w @ evs"
    "concat (map fetchedTenant evs) = ids"
    "FailedCount (runState w') = FailedCount (runState w) + int (length (filter isExecutorFailure evs))"
    "length (filter (\<lambda>ev. ev = LogError ''unable to automatically update tenant'') evs)
              = length (filter isExecutorFailure evs)"
    "RepoCall IncrementFailedCountOp False \<notin> set evs"
    "CanContinue (runState w') = CanContinue (runState w)"
    unfolding batchEffect_def by blast
  from assms(2) obtain evs' where 2: "trace w'' = trace w' @ evs'"
    "concat (map fetchedTenant evs') = ids'"
    "FailedCount (runState w'') = FailedCount (runState w') + int (length (filter isExecutorFailure evs'))"
    "length (filter (\<lambda>ev. ev = LogError ''unable to automatically update tenant'') evs')
              = length (filter isExecutorFailure evs')"
    "RepoCall IncrementFailedCountOp False \<notin> set evs'"
    "CanContinue (runState w'') = CanContinue (runState w')"
    unfolding batchEffect_def by blast
  show ?thesis
    unfolding batchEffect_def
    by (rule exI [of _ "evs @ evs'"]) (use 1 2 in simp)
qed

lemma batchEffect_updateTenant:
  assumes nf: "\<forall>k. \<not> dbFails e k" and ni: "\<forall>k tu. interfere e k tu = tu"
  shows "batchEffect w (updateTenant e tnnt typesWithVersion w) [ID tnnt]"
proof (cases "GetNamespaces e (ops w) (ID tnnt)")
  case (Inl err)
  then show ?thesis
    by (simp add: updateTenant_fetch_failed batchEffect_def)
next
  case (Inr namespaces)
  show ?thesis
  proof (cases "Update e (Suc (ops w)) tnnt (fst (toUpdate_loop typesWithVersion namespaces ([], []))) False")
    case None
    with Inr show ?thesis
      by (simp add: updateTenant_executor_ok batchEffect_def)
  next
    case (Some err)
    with Inr nf ni show ?thesis
      by (simp add: updateTenant_executor_failed batchEffect_def)
  qed
qed

lemma batchEffect_updateTenants_loop:
  assumes nf: "\<forall>k. \<not> dbFails e k" and ni: "\<forall>k tu. interfere e k tu = tu"
    and cc: "CanContinue (runState w)"
  shows "\<exists>w'. updateTenants_loop e tenants typesWithVersion True w = (True, w') \<and>
              batchEffect w w' (map ID tenants)"
  using cc
proof (induction tenants arbitrary: w)
  case Nil
  then show ?case by (simp add: batchEffect_refl)
next
  case (Cons tnnt tenants)
  define w1 where "w1 = w\<lparr>runState := interfere e (ops w) (runState w), ops := ops w + 2,
        trace := trace w @ [TxBegin, RepoCall CanContinueOp False]\<rparr>"
  define w3 where "w3 = time_Sleep (GetAutomatedUpdateTimeGap e) (updateTenant e tnnt typesWithVersion w1)"
  have c: "Transaction e (updateTenants_tx e) True w = ((None, True), w1)"
    using nf ni Cons.prems by (simp add: check_ok w1_def)
  have e1: "batchEffect w w1 []"
    using ni by (simp add: batchEffect_def w1_def)
  have e2: "batchEffect w1 (updateTenant e tnnt typesWithVersion w1) [ID tnnt]"
    by (rule batchEffect_updateTenant [OF nf ni])
  have e3: "batchEffect (updateTenant e tnnt typesWithVersion w1) w3 []"
    by (simp add: batchEffect_def w3_def time_Sleep_def emit_def)
  have e13: "batchEffect w w3 [ID tnnt]"
    using batchEffect_trans [OF batchEffect_trans [OF e1 e2] e3] by simp
  then have "CanContinue (runState w3)"
    using Cons.prems by (auto simp add: batchEffect_def)
  from Cons.IH [OF this] obtain w' where
    r: "updateTenants_loop e tenants typesWithVersion True w3 = (True, w')"
    and e4: "batchEffect w3 w' (map ID tenants)" by blast
  have "updateTenants_loop e (tnnt # tenants) typesWithVersion True w = (True, w')"
    using c r by (simp add: w3_def)
  moreover have "batchEffect w w' (map ID (tnnt # tenants))"
    using batchEffect_trans [OF e13 e4] by simp
  ultimately show ?case by blast
qed

text \<open>
  C7. Take any tenant of any batch, reached in any world, whose check passes, whose
  namespaces are fetched and whose executor call fails. When the three calls of the increment
  succeed, \<open>FailedCount\<close> is incremented in a transaction that holds the lock, the error is
  reported, and after the pacing sleep the loop goes on with the rest of the batch, as it does
  after a successful update. Over a whole batch, when no database call fails and no other
  actor writes the row, \<open>updateTenants\<close> returns \<open>true\<close> and no error, the namespaces of every
  tenant of the batch are fetched in order, \<open>FailedCount\<close> grows by the number of failed executor
  calls, and each of them is reported.
\<close>

theorem executor_failure_never_aborts_batch:
  assumes "\<not> dbFails e (ops w)" and "\<not> dbFails e (ops w + 1)"
    and "CanContinue (interfere e (ops w) (runState w))"
    and "GetNamespaces e (ops w + 2) (ID tnnt) = Inr namespaces"
    and "envTypesToUpdate = fst (toUpdate_loop typesWithVersion namespaces ([], []))"
    and "Update e (ops w + 3) tnnt envTypesToUpdate False = Some err"
    and "\<not> dbFails e (ops w + 4)" and "\<not> dbFails e (ops w + 5)" and "\<not> dbFails e (ops w + 6)"
  shows "updateTenants_loop e (tnnt # rest) typesWithVersion canContinue w =
           updateTenants_loop e rest typesWithVersion True
             (w\<lparr>runState := (interfere e (ops w + 4) (interfere e (ops w) (runState w)))
                   \<lparr>FailedCount :=
                      FailedCount (interfere e (ops w + 4) (interfere e (ops w) (runState w))) + 1\<rparr>,
                now := now w + max 0 (GetAutomatedUpdateTimeGap e),
                ops := ops w + 7,
                trace := trace w @
                  [TxBegin, RepoCall CanContinueOp False, FetchNamespaces (ID tnnt),
                   LogInfo ''starting update of tenant for outdated namespaces'',
                   ExecutorUpdate (ID tnnt) envTypesToUpdate True,
                   TxBegin, LockTable, RepoCall IncrementFailedCountOp True,
                   LogError ''unable to automatically update tenant'',
                   Sleep (GetAutomatedUpdateTimeGap e)]\<rparr>) \<and>
         ((\<forall>k. \<not> dbFails e k) \<and> (\<forall>k tu. interfere e k tu = tu) \<longrightarrow>
          (\<forall>batch v. CanContinue (runState v) \<longrightarrow>
             (\<exists>v' evs. updateTenants e batch typesWithVersion v = ((True, None), v') \<and>
                trace v' = trace v @ evs \<and>
                concat (map fetchedTenant evs) = map ID batch \<and>
                FailedCount (runState v') =
                  FailedCount (runState v) + int (length (filter isExecutorFailure evs)) \<and>
                length (filter (\<lambda>ev. ev = LogError ''unable to automatically update tenant'') evs)
                  = length (filter isExecutorFailure evs) \<and>
                RepoCall IncrementFailedCountOp False \<notin> set evs)))"
proof (intro conjI impI allI)
  define w1 where "w1 = w\<lparr>runState := interfere e (ops w) (runState w), ops := ops w + 2,
        trace := trace w @ [TxBegin, RepoCall CanContinueOp False]\<rparr>"
  have c: "Transaction e (updateTenants_tx e) canContinue w = ((None, True), w1)"
    using assms(1,2,3) by (simp add: check_ok w1_def)
  have f: "ops w1 = ops w + 2" "runState w1 = interfere e (ops w) (runState w)"
    "trace w1 = trace w @ [TxBegin, RepoCall CanContinueOp False]" "now w1 = now w"
    by (simp_all add: w1_def)
  have u: "updateTenant e tnnt typesWithVersion w1 =
     w1\<lparr>runState := (interfere e (ops w1 + 2) (runState w1))
            \<lparr>FailedCount := FailedCount (interfere e (ops w1 + 2) (runState w1)) + 1\<rparr>,
       ops := ops w1 + 5,
       trace := trace w1 @ [FetchNamespaces (ID tnnt),
         LogInfo ''starting update of tenant for outdated namespaces'',
         ExecutorUpdate (ID tnnt) (fst (toUpdate_loop typesWithVersion namespaces ([], []))) True,
         TxBegin, LockTable, RepoCall IncrementFailedCountOp True,
         LogError ''unable to automatically update tenant'']\<rparr>"
    apply (rule updateTenant_executor_failed [where err = err])
    using assms by (simp_all add: f eval_nat_numeral)
  show "updateTenants_loop e (tnnt # rest) typesWithVersion canContinue w =
           updateTenants_loop e rest typesWithVersion True
             (w\<lparr>runState := (interfere e (ops w + 4) (interfere e (ops w) (runState w)))
                   \<lparr>FailedCount :=
                      FailedCount (interfere e (ops w + 4) (interfere e (ops w) (runState w))) + 1\<rparr>,
                now := now w + max 0 (GetAutomatedUpdateTimeGap e),
                ops := ops w + 7,
                trace := trace w @
                  [TxBegin, RepoCall CanContinueOp False, FetchNamespaces (ID tnnt),
                   LogInfo ''starting update of tenant for outdated namespaces'',
                   ExecutorUpdate (ID tnnt) envTypesToUpdate True,
                   TxBegin, LockTable, RepoCall IncrementFailedCountOp True,
                   LogError ''unable to automatically update tenant'',
                   Sleep (GetAutomatedUpdateTimeGap e)]\<rparr>)"
    using assms(5)
    by (simp add: c u time_Sleep_def emit_def)
       (simp add: w1_def eval_nat_numeral world_order)
next
  fix batch and v :: world
  assume h: "(\<forall>k. \<not> dbFails e k) \<and> (\<forall>k tu. interfere e k tu = tu)"
    and cc: "CanContinue (runState v)"
  from batchEffect_updateTenants_loop [of e v batch typesWithVersion] h cc
  obtain v' where r: "updateTenants_loop e batch typesWithVersion True v = (True, v')"
    and b: "batchEffect v v' (map ID batch)" by blast
  from r have "updateTenants e batch typesWithVersion v = ((True, None), v')"
    by (simp add: updateTenants_def)
  with b show "\<exists>v' evs. updateTenants e batch typesWithVersion v = ((True, None), v') \<and>
                trace v' = trace v @ evs \<and>
                concat (map fetchedTenant evs) = map ID batch \<and>
                FailedCount (runState v') =
                  FailedCount (runState v) + int (length (filter isExecutorFailure evs)) \<and>
                length (filter (\<lambda>ev. ev = LogError ''unable to automatically update tenant'') evs)
                  = length (filter isExecutorFailure evs) \<and>
                RepoCall IncrementFailedCountOp False \<notin> set evs"
    unfolding batchEffect_def by blast
qed

theorem executor_failure_never_aborts_batch_witness:
  "\<not> dbFails fail3_env (ops world0) \<and>
   \<not> dbFails fail3_env (ops world0 + 1) \<and>
   CanContinue (interfere fail3_env (ops world0) (runState world0)) \<and>
   GetNamespaces fail3_env (ops world0 + 2) (ID (tenant ''t3''))
     = Inr [namespace ''user'' ''v1'', namespace ''stage'' ''v2''] \<and>
   [''user''] = fst (toUpdate_loop [(''user'', ''v2'')]
                         [namespace ''user'' ''v1'', namespace ''stage'' ''v2''] ([], [])) \<and>
   Update fail3_env (ops world0 + 3) (tenant ''t3'') [''user''] False = Some (Error ''quota exceeded'') \<and>
   \<not> dbFails fail3_env (ops world0 + 4) \<and>
   \<not> dbFails fail3_env (ops world0 + 5) \<and>
   \<not> dbFails fail3_env (ops world0 + 6) \<and>
   updateTenants_loop fail3_env [tenant ''t3'', tenant ''t4''] [(''user'', ''v2'')] True world0 =
     (True,
      \<lparr>runState = \<lparr>Status = Updating, LastTimeUpdated = 0, FailedCount = 1, CanContinue = True,
                    CurrentVersions = [(''user'', ''v1''), (''stage'', ''v1''), (''run'', ''v1'')]\<rparr>,
       now = 1002, ops = 11,
       trace =
         [TxBegin, RepoCall CanContinueOp False, FetchNamespaces ''t3'',
          LogInfo ''starting update of tenant for outdated namespaces'',
          ExecutorUpdate ''t3'' [''user''] True, TxBegin, LockTable,
          RepoCall IncrementFailedCountOp True,
          LogError ''unable to automatically update tenant'', Sleep 1,
          TxBegin, RepoCall CanContinueOp False, FetchNamespaces ''t4'',
          LogInfo ''starting update of tenant for outdated namespaces'',
          ExecutorUpdate ''t4'' [''user''] False,
          LogInfo ''update of tenant for outdated namespace finished'', Sleep 1]\<rparr>) \<and>
   (\<forall>k. \<not> dbFails fail3_env k) \<and> (\<forall>k tu. interfere fail3_env k tu = tu) \<and> CanContinue (runState world0) \<and>
   (\<exists>v' evs. updateTenants fail3_env [tenant ''t1'', tenant ''t2'', tenant ''t3'', tenant ''t4'', tenant ''t5'']
                [(''user'', ''v2'')] world0 = ((True, None), v') \<and>
      trace v' = trace world0 @ evs \<and>
      concat (map fetchedTenant evs) = [''t1'', ''t2'', ''t3'', ''t4'', ''t5''] \<and>
      FailedCount (runState v') =
        FailedCount (runState world0) + int (length (filter isExecutorFailure evs)) \<and>
      length (filter (\<lambda>ev. ev = LogError ''unable to automatically update tenant'') evs)
        = length (filter isExecutorFailure evs) \<and>
      RepoCall IncrementFailedCountOp False \<notin> set evs)"
proof -
  have h: "\<not> dbFails fail3_env (ops world0)"
    "\<not> dbFails fail3_env (ops world0 + 1)"
    "CanContinue (interfere fail3_env (ops world0) (runState world0))"
    "GetNamespaces fail3_env (ops world0 + 2) (ID (tenant ''t3''))
     = Inr [namespace ''user'' ''v1'', namespace ''stage'' ''v2'']"
    "[''user''] = fst (toUpdate_loop [(''user'', ''v2'')]
                         [namespace ''user'' ''v1'', namespace ''stage'' ''v2''] ([], []))"
    "Update fail3_env (ops world0 + 3) (tenant ''t3'') [''user''] False = Some (Error ''quota exceeded'')"
    "\<not> dbFails fail3_env (ops world0 + 4)"
    "\<not> dbFails fail3_env (ops world0 + 5)"
    "\<not> dbFails fail3_env (ops world0 + 6)"
    by (simp_all add: fail3_env_def quiet_env_def world0_def row0_def tenant_def namespace_def)
  note T = executor_failure_never_aborts_batch
             [where rest = "[tenant ''t4'']" and canContinue = True, OF h]
  have r: "updateTenants_loop fail3_env [tenant ''t3'', tenant ''t4''] [(''user'', ''v2'')] True world0 =
     (True,
      \<lparr>runState = \<lparr>Status = Updating, LastTimeUpdated = 0, FailedCount = 1, CanContinue = True,
                    CurrentVersions = [(''user'', ''v1''), (''stage'', ''v1''), (''run'', ''v1'')]\<rparr>,
       now = 1002, ops = 11,
       trace =
         [TxBegin, RepoCall CanContinueOp False, FetchNamespaces ''t3'',
          LogInfo ''starting update of tenant for outdated namespaces'',
          ExecutorUpdate ''t3'' [''user''] True, TxBegin, LockTable,
          RepoCall IncrementFailedCountOp True,
          LogError ''unable to automatically update tenant'', Sleep 1,
          TxBegin, RepoCall CanContinueOp False, FetchNamespaces ''t4'',
          LogInfo ''starting update of tenant for outdated namespaces'',
          ExecutorUpdate ''t4'' [''user''] False,
          LogInfo ''update of tenant for outdated namespace finished'', Sleep 1]\<rparr>)"
    by (rule trans [OF conjunct1 [OF T]])
       (simp add: model_defs fail3_env_def quiet_env_def world0_def row0_def tenant_def
          namespace_def)
  have g: "(\<forall>k. \<not> dbFails fail3_env k) \<and> (\<forall>k tu. interfere fail3_env k tu = tu)"
    by (simp add: fail3_env_def quiet_env_def)
  have c: "CanContinue (runState world0)"
    by (simp add: world0_def row0_def)
  from conjunct2 [OF T] g c
  have "\<exists>v' evs. updateTenants fail3_env [tenant ''t1'', tenant ''t2'', tenant ''t3'', tenant ''t4'', tenant ''t5'']
                [(''user'', ''v2'')] world0 = ((True, None), v') \<and>
      trace v' = trace world0 @ evs \<and>
      concat (map fetchedTenant evs) = map ID [tenant ''t1'', tenant ''t2'', tenant ''t3'', tenant ''t4'', tenant ''t5''] \<and>
      FailedCount (runState v') =
        FailedCount (runState world0) + int (length (filter isExecutorFailure evs)) \<and>
      length (filter (\<lambda>ev. ev = LogError ''unable to automatically update tenant'') evs)
        = length (filter isExecutorFailure evs) \<and>
      RepoCall IncrementFailedCountOp False \<notin> set evs"
    by blast
  then have e: "\<exists>v' evs. updateTenants fail3_env [tenant ''t1'', tenant ''t2'', tenant ''t3'', tenant ''t4'', tenant ''t5'']
                [(''user'', ''v2'')] world0 = ((True, None), v') \<and>
      trace v' = trace world0 @ evs \<and>
      concat (map fetchedTenant evs) = [''t1'', ''t2'', ''t3'', ''t4'', ''t5''] \<and>
      FailedCount (runState v') =
        FailedCount (runState world0) + int (length (filter isExecutorFailure evs)) \<and>
      length (filter (\<lambda>ev. ev = LogError ''unable to automatically update tenant'') evs)
        = length (filter isExecutorFailure evs) \<and>
      RepoCall IncrementFailedCountOp False \<notin> set evs"
    by (simp add: tenant_def)
  show ?thesis using h r g c e by blast
qed

subsection \<open>One pass over the clusters\<close>




subsection \<open>The lock\<close>

lemma obeys_refl: "obeys w w"
  by (simp add: obeys_def)

lemma obeys_trans: "obeys w w' \<Longrightarrow> obeys w' w'' \<Longrightarrow> obeys w w''"
  unfolding obeys_def by (metis append.assoc list_all_append)

lemma obeys_emit: "lockDiscipline ev \<Longrightarrow> obeys w (emit ev w)"
  by (simp add: obeys_def emit_def)

lemma obeys_Transaction_lock:
  assumes "\<And>c v. obeys v (snd (body (NewRepository (Tx True)) c v))"
  shows "obeys w (snd (Transaction e (lock e body) c w))"
proof -
  define w0 where "w0 = w\<lparr>runState := interfere e (ops w) (runState w)\<rparr>"
  define w1 where "w1 = emit TxBegin (tick w0)"
  define w2 where "w2 = emit LockTable (tick w1)"
  have a: "obeys w w1" by (simp add: obeys_def w1_def w0_def emit_def tick_def)
  have b: "obeys w1 w2" by (simp add: obeys_def w2_def emit_def tick_def)
  have c: "obeys w2 (snd (body (NewRepository (Tx True)) c w2))" by (rule assms)
  have ab: "obeys w w2" by (rule obeys_trans [OF a b])
  have d: "obeys w (snd (body (NewRepository (Tx True)) c w2))"
    by (rule obeys_trans [OF ab c])
  have "trace (snd (Transaction e (lock e body) c w)) = trace w1
      \<or> trace (snd (Transaction e (lock e body) c w)) = trace w2
      \<or> trace (snd (Transaction e (lock e body) c w)) = trace (snd (body (NewRepository (Tx True)) c w2))"
    by (simp add: Transaction_def lock_def Let_def w0_def [symmetric] w1_def [symmetric]
        w2_def [symmetric] split: prod.splits option.splits)
  then show ?thesis
    using a ab d by (auto simp add: obeys_def)
qed

lemma obeys_repo_locked:
  "obeys w (snd (repo_IncrementFailedCount e (NewRepository (Tx True)) w))"
  "obeys w (snd (repo_UpdateLastTimeUpdated e (NewRepository (Tx True)) w))"
  "obeys w (snd (repo_UpdateStatus e (NewRepository (Tx True)) s w))"
  "obeys w (snd (repo_PrepareForUpdating e (NewRepository (Tx True)) w))"
  "obeys w (snd (repo_GetTenantsUpdate e (NewRepository (Tx True)) w))"
  "obeys w (snd (repo_SaveTenantsUpdate e (NewRepository (Tx True)) tu w))"
  by (simp_all add: obeys_def repo_IncrementFailedCount_def repo_UpdateLastTimeUpdated_def
      repo_UpdateStatus_def repo_PrepareForUpdating_def repo_GetTenantsUpdate_def
      repo_SaveTenantsUpdate_def repoCall_def emit_def tick_def split: bool.splits)

lemma obeys_closure0:
  "obeys w (snd (f repo w)) \<Longrightarrow> obeys w (snd (closure0 f repo c w))"
  by (auto simp add: closure0_def split: prod.splits)

lemma obeys_check: "obeys w (snd (Transaction e (updateTenants_tx e) canContinue w))"
  by (simp add: obeys_def Transaction_def updateTenants_tx_def repo_CanContinue_def repoCall_def
      emit_def tick_def Let_def split: bool.splits)

lemma obeys_updateTenant: "obeys w (updateTenant e tnnt typesWithVersion w)"
proof -
  have i: "\<And>v. obeys v (snd (Transaction e (lock e (closure0 (repo_IncrementFailedCount e))) () v))"
    by (intro obeys_Transaction_lock obeys_closure0 obeys_repo_locked)
  define w1 where "w1 = emit (FetchNamespaces (ID tnnt)) (tick w)"
  have a: "obeys w w1" by (simp add: obeys_def w1_def emit_def tick_def)
  show ?thesis
  proof (cases "GetNamespaces e (ops w) (ID tnnt)")
    case (Inl err)
    then have "updateTenant e tnnt typesWithVersion w =
        emit (LogError ''unable to get current tenant namespaces during cluster-wide update'') w1"
      by (simp add: updateTenant_def w1_def)
    then show ?thesis using a by (auto simp add: obeys_def emit_def)
  next
    case (Inr namespaces)
    define ts where "ts = fst (toUpdate_loop typesWithVersion namespaces ([], []))"
    define w2 where "w2 = emit (LogInfo ''starting update of tenant for outdated namespaces'') w1"
    define w3 where "w3 = (\<lambda>failed. emit (ExecutorUpdate (ID tnnt) ts failed) (tick w2))"
    have b: "obeys w (w3 failed)" for failed
      by (simp add: obeys_def w3_def w2_def w1_def emit_def tick_def)
    show ?thesis
    proof (cases "Update e (ops w2) tnnt ts False")
      case None
      then have "updateTenant e tnnt typesWithVersion w =
          emit (LogInfo ''update of tenant for outdated namespace finished'') (w3 False)"
        using Inr
        by (simp add: updateTenant_def Let_def w1_def [symmetric] ts_def [symmetric]
            w2_def [symmetric] w3_def)
      then show ?thesis using b [of False] by (auto simp add: obeys_def emit_def)
    next
      case (Some er)
      define r where "r = Transaction e (lock e (closure0 (repo_IncrementFailedCount e))) () (w3 True)"
      have c: "obeys w (snd r)" unfolding r_def by (rule obeys_trans [OF b i])
      have "updateTenant e tnnt typesWithVersion w =
          emit (LogError ''unable to automatically update tenant'')
            (if fst (fst r) \<noteq> None
             then emit (LogError ''unable to increment failed_count'') (snd r) else snd r)"
        using Inr Some
        by (simp add: updateTenant_def Let_def w1_def [symmetric] ts_def [symmetric]
            w2_def [symmetric] r_def w3_def split: prod.splits)
      then show ?thesis using c by (auto simp add: obeys_def emit_def)
    qed
  qed
qed

lemma obeys_sleep: "obeys w (time_Sleep d w)"
  by (simp add: obeys_def time_Sleep_def emit_def)

lemma obeys_updateTenants_loop:
  "obeys w (snd (updateTenants_loop e tenants typesWithVersion canContinue w))"
proof (induction tenants arbitrary: w canContinue)
  case Nil
  then show ?case by (simp add: obeys_refl)
next
  case (Cons tnnt tenants)
  obtain err canContinue' w1 where
    r: "Transaction e (updateTenants_tx e) canContinue w = ((err, canContinue'), w1)"
    by (metis surj_pair)
  have a: "obeys w w1" using obeys_check [of w e canContinue] by (simp add: r)
  show ?case
  proof (cases "\<not> canContinue' \<or> err \<noteq> None")
    case True
    then have "snd (updateTenants_loop e (tnnt # tenants) typesWithVersion canContinue w)
        = emit (LogInfo ''stopping tenants update process'') w1"
      by (simp add: r)
    then show ?thesis using a by (auto simp add: obeys_def emit_def)
  next
    case False
    define w3 where "w3 = time_Sleep (GetAutomatedUpdateTimeGap e)
                            (updateTenant e tnnt typesWithVersion w1)"
    have b: "obeys w w3"
      unfolding w3_def
      by (rule obeys_trans [OF obeys_trans [OF a obeys_updateTenant] obeys_sleep])
    from False have "snd (updateTenants_loop e (tnnt # tenants) typesWithVersion canContinue w)
        = snd (updateTenants_loop e tenants typesWithVersion canContinue' w3)"
      by (simp add: r w3_def)
    then show ?thesis using obeys_trans [OF b Cons.IH] by simp
  qed
qed

lemma obeys_updateTenants:
  "obeys w (snd (updateTenants e tenants typesWithVersion w))"
  using obeys_updateTenants_loop [of w e tenants typesWithVersion True]
  by (auto simp add: updateTenants_def split: prod.splits)

lemma obeys_updateForCluster:
  "updateForCluster fuel e clusterURL typesWithVersion w = Some (r, w') \<Longrightarrow> obeys w w'"
proof (induction fuel arbitrary: w)
  case 0
  then show ?case by simp
next
  case (Suc fuel)
  define w1 where "w1 = emit (FetchTenants clusterURL) (tick w)"
  have a: "obeys w w1" by (simp add: obeys_def w1_def emit_def tick_def)
  show ?case
  proof (cases "GetTenantsToUpdate e (ops w) typesWithVersion 100 (Commit e) clusterURL")
    case (Inl err)
    with Suc.prems have "w' = w1" by (simp add: w1_def)
    then show ?thesis using a by simp
  next
    case (Inr toUpdate)
    show ?thesis
    proof (cases "length toUpdate = 0")
      case True
      with Suc.prems Inr have "w' = w1" by (simp add: w1_def)
      then show ?thesis using a by simp
    next
      case False
      obtain canContinue err w2 where
        b: "updateTenants e toUpdate typesWithVersion
              (emit (LogInfo ''starting update for next batch of outdated/failed tenants'') w1)
            = ((canContinue, err), w2)"
        by (metis surj_pair)
      have ob: "obeys w w2"
        using obeys_trans [OF obeys_trans [OF a obeys_emit] obeys_updateTenants,
            of "LogInfo ''starting update for next batch of outdated/failed tenants''"
               e toUpdate typesWithVersion]
        by (simp add: b)
      obtain err' c w3 where
        t: "Transaction e (lock e (closure0 (repo_UpdateLastTimeUpdated e))) () w2 = ((err', c), w3)"
        by (metis surj_pair)
      have "obeys w2 (snd (Transaction e (lock e (closure0 (repo_UpdateLastTimeUpdated e))) () w2))"
        by (intro obeys_Transaction_lock obeys_closure0 obeys_repo_locked)
      then have ot: "obeys w w3"
        using obeys_trans [OF ob] by (simp add: t)
      from Suc.prems Inr False
      have "w' = w2 \<or> w' = w3
            \<or> updateForCluster fuel e clusterURL typesWithVersion w3 = Some (r, w')"
        by (auto simp add: w1_def [symmetric] b t Let_def split: if_splits)
      then show ?thesis
        using ob ot Suc.IH obeys_trans by blast
    qed
  qed
qed

lemma obeys_runClusters:
  "runClusters fuel e clusters typesAndVersion w = Some (errs, w') \<Longrightarrow> obeys w w'"
proof (induction clusters arbitrary: w errs)
  case Nil
  then show ?case by (simp add: obeys_refl)
next
  case (Cons clusterURL clusters)
  from Cons.prems obtain r w1 where
    u: "updateForCluster fuel e clusterURL typesAndVersion w = Some (r, w1)"
    by (auto split: option.splits)
  have a: "obeys w w1" by (rule obeys_updateForCluster [OF u])
  show ?case
  proof (cases r)
    case None
    with Cons.prems u have "runClusters fuel e clusters typesAndVersion w1 = Some (errs, w')"
      by simp
    then show ?thesis using a Cons.IH obeys_trans by blast
  next
    case (Some err)
    with Cons.prems u obtain errs' where
      "runClusters fuel e clusters typesAndVersion
         (emit (LogError ''the tenants updated failed for the cluster'') w1) = Some (errs', w')"
      by (auto split: option.splits)
    from Cons.IH [OF this] have "obeys (emit (LogError ''the tenants updated failed for the cluster'') w1) w'" .
    moreover have "obeys w (emit (LogError ''the tenants updated failed for the cluster'') w1)"
      by (rule obeys_trans [OF a obeys_emit]) simp
    ultimately show ?thesis using obeys_trans by blast
  qed
qed

lemma obeys_setStatusAndVersionsAfterUpdate:
  "obeys w (snd (setStatusAndVersionsAfterUpdate u e (NewRepository (Tx True)) w))"
  by (simp add: obeys_def setStatusAndVersionsAfterUpdate_def repo_GetTenantsUpdate_def
      repo_SaveTenantsUpdate_def repoCall_def versionManagers_loop_eq emit_def tick_def
      list_all_iff split: bool.splits)

lemma obeys_prepareAndAssignStart:
  "obeys w (snd (prepareAndAssignStart e (NewRepository (Tx True)) envTypes followUp w))"
  by (simp add: obeys_def prepareAndAssignStart_eq)

lemma obeys_UpdateAllTenants_tx:
  "obeys w (snd (UpdateAllTenants_tx e (NewRepository (Tx True)) followUp w))"
proof -
  define w1 where "w1 = emit (RepoCall GetTenantsUpdateOp True) (tick w)"
  have a: "obeys w w1" by (simp add: obeys_def w1_def emit_def tick_def)
  have p: "obeys w (snd (prepareAndAssignStart e (NewRepository (Tx True)) envTypes followUp
                           (emit (LogInfo m) w1)))" for envTypes m
    by (rule obeys_trans [OF obeys_trans [OF a obeys_emit] obeys_prepareAndAssignStart]) simp
  have p': "obeys w (snd (prepareAndAssignStart e (NewRepository (Tx True)) envTypes followUp w1))"
    for envTypes
    by (rule obeys_trans [OF a obeys_prepareAndAssignStart])
  have q: "obeys w (emit (LogInfo m') (emit (LogInfo m) w1))" for m m'
    using a by (auto simp add: obeys_def emit_def)
  have q': "obeys w (emit (LogInfo m) w1)" for m
    using a by (auto simp add: obeys_def emit_def)
  show ?thesis
    using a p p' q q'
    by (simp add: UpdateAllTenants_tx_def repo_GetTenantsUpdate_def repoCall_def
        w1_def [symmetric] checkVersions_def Let_def split: bool.splits)
qed

lemma obeys_waitAndRecheck_tx:
  "obeys w (snd (waitAndRecheck_tx e (NewRepository (Tx True)) followUp w))"
  by (simp add: obeys_def waitAndRecheck_tx_def repo_GetTenantsUpdate_def
      repo_PrepareForUpdating_def repoCall_def emit_def tick_def split: bool.splits)

lemma obeys_HandleTenantUpdateError: "obeys w (HandleTenantUpdateError e err w)"
proof -
  define w0 where "w0 = emit (LogError ''automatic tenant update failed'') w"
  obtain err' c w1 where
    t: "Transaction e (lock e (closure0 (\<lambda>repo. repo_UpdateStatus e repo Failed))) () w0
          = ((err', c), w1)"
    by (metis surj_pair)
  have "obeys w0 (snd (Transaction e (lock e (closure0 (\<lambda>repo. repo_UpdateStatus e repo Failed))) () w0))"
    by (intro obeys_Transaction_lock obeys_closure0 obeys_repo_locked)
  then have "obeys w0 w1" by (simp add: t)
  moreover have "obeys w w0" by (simp add: w0_def obeys_emit)
  ultimately have "obeys w w1" using obeys_trans by blast
  moreover have "HandleTenantUpdateError e err w =
      (if err' \<noteq> None
       then emit (LogError ''unable to set state to failed in tenants_update table'') w1 else w1)"
    by (simp add: HandleTenantUpdateError_def w0_def [symmetric] t)
  ultimately show ?thesis
    by (auto simp add: obeys_def emit_def)
qed

lemma obeys_updateTenantsForTypes:
  assumes "updateTenantsForTypes fuel u e envTypes w = Some (r, w')"
  shows "obeys w w'"
proof -
  define tv where "tv = typesWithVersion_loop u e envTypes []"
  define c where "c = (if limitToCluster u \<noteq> [] then (Inr [limitToCluster u], w)
               else (GetClustersToUpdate e (ops w) tv (Commit e), emit FetchClusters (tick w)))"
  have a: "obeys w (snd c)" by (simp add: c_def obeys_def emit_def tick_def)
  show ?thesis
  proof (cases "fst c")
    case (Inl err)
    with assms have "w' = snd c"
      by (simp add: updateTenantsForTypes_def Let_def tv_def [symmetric] c_def [symmetric]
          split: prod.splits)
    then show ?thesis using a by simp
  next
    case (Inr clustersToUpdate)
    with assms obtain errs w2 where
      rc: "runClusters fuel e clustersToUpdate tv (snd c) = Some (errs, w2)"
      by (auto simp add: updateTenantsForTypes_def Let_def tv_def [symmetric] c_def [symmetric]
          split: prod.splits option.splits)
    have b: "obeys w w2" by (rule obeys_trans [OF a obeys_runClusters [OF rc]])
    obtain err' cc w3 where
      t: "Transaction e (lock e (closure0 (setStatusAndVersionsAfterUpdate u e))) () w2
            = ((err', cc), w3)"
      by (metis surj_pair)
    have "obeys w2 (snd (Transaction e (lock e (closure0 (setStatusAndVersionsAfterUpdate u e))) () w2))"
      by (intro obeys_Transaction_lock obeys_closure0 obeys_setStatusAndVersionsAfterUpdate)
    then have d: "obeys w w3" using obeys_trans [OF b] by (simp add: t)
    from assms Inr rc have "w' = w2 \<or> w' = w3"
      by (auto simp add: updateTenantsForTypes_def Let_def tv_def [symmetric] c_def [symmetric] t
          split: prod.splits if_splits)
    then show ?thesis using b d by blast
  qed
qed

lemma obeys_waitAndRecheck:
  assumes "waitAndRecheck fuel u e w = Some (r, w')"
  shows "obeys w w'"
proof -
  define w0 where "w0 = time_Sleep (int64 (GetAutomatedUpdateRetrySleep e
                                 + go_quot (GetAutomatedUpdateRetrySleep e) 10)) w"
  obtain err f w1 where
    t: "Transaction e (lock e (waitAndRecheck_tx e)) returnNil w0 = ((err, f), w1)"
    by (metis surj_pair)
  have "obeys w0 (snd (Transaction e (lock e (waitAndRecheck_tx e)) returnNil w0))"
    by (intro obeys_Transaction_lock obeys_waitAndRecheck_tx)
  then have "obeys w0 w1" by (simp add: t)
  moreover have "obeys w w0" by (simp add: w0_def obeys_sleep)
  ultimately have a: "obeys w w1" using obeys_trans by blast
  from assms have "w' = w1 \<or> (\<exists>envTypes. updateTenantsForTypes fuel u e envTypes w1 = Some (r, w'))"
    by (auto simp add: waitAndRecheck_def w0_def [symmetric] t
        split: option.splits followUpFunc.splits)
  then show ?thesis
    using a obeys_updateTenantsForTypes obeys_trans by blast
qed

lemma obeys_call_followUp:
  assumes "call_followUp fuel u e followUp w = Some (r, w')"
  shows "obeys w w'"
  using assms obeys_updateTenantsForTypes obeys_waitAndRecheck
  by (auto simp add: call_followUp_def obeys_refl split: followUpFunc.splits)

lemma obeys_UpdateAllTenants:
  assumes "UpdateAllTenants fuel u e w = Some w'"
  shows "obeys w w'"
proof -
  define w0 where "w0 = emit (LogInfo ''triggering tenants update process'') w"
  obtain err f w1 where
    t: "Transaction e (lock e (UpdateAllTenants_tx e)) returnNil w0 = ((err, f), w1)"
    by (metis surj_pair)
  have "obeys w0 (snd (Transaction e (lock e (UpdateAllTenants_tx e)) returnNil w0))"
    by (intro obeys_Transaction_lock obeys_UpdateAllTenants_tx)
  then have "obeys w0 w1" by (simp add: t)
  moreover have "obeys w w0" by (simp add: w0_def obeys_emit)
  ultimately have a: "obeys w w1" using obeys_trans by blast
  show ?thesis
  proof (cases err)
    case (Some er)
    with assms have "w' = HandleTenantUpdateError e er w1"
      by (simp add: UpdateAllTenants_def w0_def [symmetric] t)
    then show ?thesis using obeys_trans [OF a obeys_HandleTenantUpdateError] by simp
  next
    case None
    with assms obtain r w2 where
      c: "call_followUp fuel u e f w1 = Some (r, w2)"
      and w': "w' = (case r of Some er \<Rightarrow> HandleTenantUpdateError e er w2 | None \<Rightarrow> w2)"
      by (auto simp add: UpdateAllTenants_def w0_def [symmetric] t split: option.splits)
    have b: "obeys w w2" by (rule obeys_trans [OF a obeys_call_followUp [OF c]])
    show ?thesis
      using b obeys_trans [OF b obeys_HandleTenantUpdateError] w'
      by (auto split: option.splits)
  qed
qed

text \<open>
  C9 (as amended). Every repository call a trigger makes, in any environment, is made through
  a transaction that took the exclusive lock, except \<open>CanContinue\<close>: the per-tenant check of
  \<open>updateTenants\<close> runs in a transaction of its own that does not take the lock.
\<close>

theorem repository_calls_lock_discipline:
  assumes "UpdateAllTenants fuel u e w = Some w'"
  shows "\<exists>evs. trace w' = trace w @ evs \<and>
           (\<forall>op l. RepoCall op l \<in> set evs \<longrightarrow> (l \<longleftrightarrow> op \<noteq> CanContinueOp))"
proof -
  from obeys_UpdateAllTenants [OF assms] obtain evs where
    t: "trace w' = trace w @ evs" and d: "list_all lockDiscipline evs"
    unfolding obeys_def by blast
  have "l \<longleftrightarrow> op \<noteq> CanContinueOp" if "RepoCall op l \<in> set evs" for op l
  proof -
    from d that have "lockDiscipline (RepoCall op l)" by (auto simp add: list_all_iff)
    then show ?thesis by simp
  qed
  with t show ?thesis by blast
qed

theorem repository_calls_lock_discipline_witness:
  "UpdateAllTenants 2 unrestricted skip_env world_failed =
     Some \<lparr>runState = \<lparr>Status = Finished, LastTimeUpdated = 1001, FailedCount = 0,
               CanContinue = True,
               CurrentVersions = [(''user'', ''v2''), (''stage'', ''v2''), (''run'', ''v2'')]\<rparr>,
            now = 1001, ops = 17,
            trace =
              [LogInfo ''triggering tenants update process'', TxBegin, LockTable,
               RepoCall GetTenantsUpdateOp True,
               LogInfo ''last update has status - going to check failed or incomplete updates'',
               LogInfo ''starting update for outdated types'',
               RepoCall PrepareForUpdatingOp True, FetchClusters, FetchTenants ''c1'',
               LogInfo ''starting update for next batch of outdated/failed tenants'',
               TxBegin, RepoCall CanContinueOp False, FetchNamespaces ''t1'',
               LogError ''unable to get current tenant namespaces during cluster-wide update'',
               Sleep 1, TxBegin, LockTable, RepoCall UpdateLastTimeUpdatedOp True,
               FetchTenants ''c1'', TxBegin, LockTable, RepoCall GetTenantsUpdateOp True,
               SetVersion \<lparr>EnvTypes = [''user''], TargetVersion = ''v2''\<rparr>,
               SetVersion \<lparr>EnvTypes = [''stage'', ''run''], TargetVersion = ''v2''\<rparr>,
               LogInfo ''the whole tenants update process has been finished'',
               RepoCall SaveTenantsUpdateOp True]\<rparr> \<and>
   (\<exists>evs. trace \<lparr>runState = \<lparr>Status = Finished, LastTimeUpdated = 1001, FailedCount = 0,
               CanContinue = True,
               CurrentVersions = [(''user'', ''v2''), (''stage'', ''v2''), (''run'', ''v2'')]\<rparr>,
            now = 1001, ops = 17,
            trace =
              [LogInfo ''triggering tenants update process'', TxBegin, LockTable,
               RepoCall GetTenantsUpdateOp True,
               LogInfo ''last update has status - going to check failed or incomplete updates'',
               LogInfo ''starting update for outdated types'',
               RepoCall PrepareForUpdatingOp True, FetchClusters, FetchTenants ''c1'',
               LogInfo ''starting update for next batch of outdated/failed tenants'',
               TxBegin, RepoCall CanContinueOp False, FetchNamespaces ''t1'',
               LogError ''unable to get current tenant namespaces during cluster-wide update'',
               Sleep 1, TxBegin, LockTable, RepoCall UpdateLastTimeUpdatedOp True,
               FetchTenants ''c1'', TxBegin, LockTable, RepoCall GetTenantsUpdateOp True,
               SetVersion \<lparr>EnvTypes = [''user''], TargetVersion = ''v2''\<rparr>,
               SetVersion \<lparr>EnvTypes = [''stage'', ''run''], TargetVersion = ''v2''\<rparr>,
               LogInfo ''the whole tenants update process has been finished'',
               RepoCall SaveTenantsUpdateOp True]\<rparr> = trace world_failed @ evs \<and>
      (\<forall>op l. RepoCall op l \<in> set evs \<longrightarrow> (l \<longleftrightarrow> op \<noteq> CanContinueOp)) \<and>
      RepoCall CanContinueOp False \<in> set evs \<and>
      RepoCall UpdateLastTimeUpdatedOp True \<in> set evs)"
proof -
  from repository_calls_lock_discipline [OF skip_env_run] obtain evs where
    t: "trace \<lparr>runState = \<lparr>Status = Finished, LastTimeUpdated = 1001, FailedCount = 0,
               CanContinue = True,
               CurrentVersions = [(''user'', ''v2''), (''stage'', ''v2''), (''run'', ''v2'')]\<rparr>,
            now = 1001, ops = 17,
            trace =
              [LogInfo ''triggering tenants update process'', TxBegin, LockTable,
               RepoCall GetTenantsUpdateOp True,
               LogInfo ''last update has status - going to check failed or incomplete updates'',
               LogInfo ''starting update for outdated types'',
               RepoCall PrepareForUpdatingOp True, FetchClusters, FetchTenants ''c1'',
               LogInfo ''starting update for next batch of outdated/failed tenants'',
               TxBegin, RepoCall CanContinueOp False, FetchNamespaces ''t1'',
               LogError ''unable to get current tenant namespaces during cluster-wide update'',
               Sleep 1, TxBegin, LockTable, RepoCall UpdateLastTimeUpdatedOp True,
               FetchTenants ''c1'', TxBegin, LockTable, RepoCall GetTenantsUpdateOp True,
               SetVersion \<lparr>EnvTypes = [''user''], TargetVersion = ''v2''\<rparr>,
               SetVersion \<lparr>EnvTypes = [''stage'', ''run''], TargetVersion = ''v2''\<rparr>,
               LogInfo ''the whole tenants update process has been finished'',
               RepoCall SaveTenantsUpdateOp True]\<rparr> = trace world_failed @ evs"
    and d: "\<forall>op l. RepoCall op l \<in> set evs \<longrightarrow> (l \<longleftrightarrow> op \<noteq> CanContinueOp)"
    by blast
  from t have "evs = trace \<lparr>runState = \<lparr>Status = Finished, LastTimeUpdated = 1001, FailedCount = 0,
               CanContinue = True,
               CurrentVersions = [(''user'', ''v2''), (''stage'', ''v2''), (''run'', ''v2'')]\<rparr>,
            now = 1001, ops = 17,
            trace =
              [LogInfo ''triggering tenants update process'', TxBegin, LockTable,
               RepoCall GetTenantsUpdateOp True,
               LogInfo ''last update has status - going to check failed or incomplete updates'',
               LogInfo ''starting update for outdated types'',
               RepoCall PrepareForUpdatingOp True, FetchClusters, FetchTenants ''c1'',
               LogInfo ''starting update for next batch of outdated/failed tenants'',
               TxBegin, RepoCall CanContinueOp False, FetchNamespaces ''t1'',
               LogError ''unable to get current tenant namespaces during cluster-wide update'',
               Sleep 1, TxBegin, LockTable, RepoCall UpdateLastTimeUpdatedOp True,
               FetchTenants ''c1'', TxBegin, LockTable, RepoCall GetTenantsUpdateOp True,
               SetVersion \<lparr>EnvTypes = [''user''], TargetVersion = ''v2''\<rparr>,
               SetVersion \<lparr>EnvTypes = [''stage'', ''run''], TargetVersion = ''v2''\<rparr>,
               LogInfo ''the whole tenants update process has been finished'',
               RepoCall SaveTenantsUpdateOp True]\<rparr>"
    by (simp add: world_failed_def world0_def)
  then have "RepoCall CanContinueOp False \<in> set evs"
    "RepoCall UpdateLastTimeUpdatedOp True \<in> set evs"
    by simp_all
  with t d skip_env_run show ?thesis by blast
qed

text \<open>
  The claim C9 as it is written fails on a batch of one tenant: its \<open>CanContinue\<close> is logged
  right after the begin of a transaction in which no lock is taken.
\<close>

theorem can_continue_read_without_lock_counterexample:
  "updateTenants quiet_env [tenant ''t1''] [(''user'', ''v2'')] world0 =
     ((True, None),
      \<lparr>runState = row0, now = 1001, ops = 4,
       trace = [TxBegin, RepoCall CanContinueOp False, FetchNamespaces ''t1'',
                LogInfo ''starting update of tenant for outdated namespaces'',
                ExecutorUpdate ''t1'' [] False,
                LogInfo ''update of tenant for outdated namespace finished'', Sleep 1]\<rparr>)"
  by (simp add: model_defs quiet_env_def world0_def row0_def tenant_def)

subsection \<open>The kill switch\<close>

lemma keepsStop_refl: "keepsStop w w"
  by (simp add: keepsStop_def)

lemma keepsStop_trans:
  assumes "keepsStop w w'" and "keepsStop w' w''"
  shows "keepsStop w w''"
proof -
  from assms(1) obtain evs where 1: "trace w' = trace w @ evs"
    "\<not> CanContinue (runState w) \<longrightarrow> \<not> CanContinue (runState w')"
    "LogInfo ''stopping tenants update process'' \<in> set evs \<longrightarrow> \<not> CanContinue (runState w')"
    unfolding keepsStop_def by blast
  from assms(2) obtain evs' where 2: "trace w'' = trace w' @ evs'"
    "\<not> CanContinue (runState w') \<longrightarrow> \<not> CanContinue (runState w'')"
    "LogInfo ''stopping tenants update process'' \<in> set evs' \<longrightarrow> \<not> CanContinue (runState w'')"
    unfolding keepsStop_def by blast
  show ?thesis
    unfolding keepsStop_def
    by (rule exI [of _ "evs @ evs'"]) (use 1 2 in auto)
qed

lemma keepsStop_updateTenant:
  assumes nf: "\<forall>k. \<not> dbFails e k"
    and st: "\<forall>k tu. \<not> CanContinue tu \<longrightarrow> \<not> CanContinue (interfere e k tu)"
  shows "keepsStop w (updateTenant e tnnt typesWithVersion w)"
proof (cases "GetNamespaces e (ops w) (ID tnnt)")
  case (Inl err)
  then show ?thesis
    by (simp add: updateTenant_fetch_failed keepsStop_def)
next
  case (Inr namespaces)
  show ?thesis
  proof (cases "Update e (Suc (ops w)) tnnt (fst (toUpdate_loop typesWithVersion namespaces ([], []))) False")
    case None
    with Inr show ?thesis
      by (simp add: updateTenant_executor_ok keepsStop_def)
  next
    case (Some err)
    with Inr nf st show ?thesis
      by (simp add: updateTenant_executor_failed keepsStop_def)
  qed
qed

lemma keepsStop_updateTenants_loop:
  assumes nf: "\<forall>k. \<not> dbFails e k"
    and st: "\<forall>k tu. \<not> CanContinue tu \<longrightarrow> \<not> CanContinue (interfere e k tu)"
  shows "keepsStop w (snd (updateTenants_loop e tenants typesWithVersion canContinue w))"
proof (induction tenants arbitrary: w canContinue)
  case Nil
  then show ?case by (simp add: keepsStop_refl)
next
  case (Cons tnnt tenants)
  define tu where "tu = interfere e (ops w) (runState w)"
  define w1 where "w1 = w\<lparr>runState := tu, ops := ops w + 2,
        trace := trace w @ [TxBegin, RepoCall CanContinueOp False]\<rparr>"
  have c: "Transaction e (updateTenants_tx e) canContinue w = ((None, CanContinue tu), w1)"
    using nf by (simp add: check_ok w1_def tu_def)
  have a: "keepsStop w w1"
    using st by (simp add: keepsStop_def w1_def tu_def)
  show ?case
  proof (cases "CanContinue tu")
    case False
    then have "snd (updateTenants_loop e (tnnt # tenants) typesWithVersion canContinue w)
        = emit (LogInfo ''stopping tenants update process'') w1"
      by (simp add: c)
    moreover have "keepsStop w (emit (LogInfo ''stopping tenants update process'') w1)"
      using False by (simp add: keepsStop_def w1_def emit_def)
    ultimately show ?thesis by simp
  next
    case True
    define w2 where "w2 = updateTenant e tnnt typesWithVersion w1"
    define w3 where "w3 = time_Sleep (GetAutomatedUpdateTimeGap e) w2"
    have b: "keepsStop w1 w2" unfolding w2_def by (rule keepsStop_updateTenant [OF nf st])
    have d: "keepsStop w2 w3" by (simp add: keepsStop_def w3_def time_Sleep_def emit_def)
    have "keepsStop w w3" by (rule keepsStop_trans [OF keepsStop_trans [OF a b] d])
    moreover from True have "snd (updateTenants_loop e (tnnt # tenants) typesWithVersion canContinue w)
        = snd (updateTenants_loop e tenants typesWithVersion True w3)"
      by (simp add: c w3_def w2_def)
    ultimately show ?thesis using keepsStop_trans [OF _ Cons.IH] by simp
  qed
qed

lemma keepsStop_updateForCluster:
  assumes nf: "\<forall>k. \<not> dbFails e k"
    and st: "\<forall>k tu. \<not> CanContinue tu \<longrightarrow> \<not> CanContinue (interfere e k tu)"
  shows "updateForCluster fuel e clusterURL typesWithVersion w = Some (r, w') \<Longrightarrow> keepsStop w w'"
proof (induction fuel arbitrary: w)
  case 0
  then show ?case by simp
next
  case (Suc fuel)
  define w1 where "w1 = emit (FetchTenants clusterURL) (tick w)"
  have a: "keepsStop w w1" by (simp add: keepsStop_def w1_def emit_def tick_def)
  show ?case
  proof (cases "GetTenantsToUpdate e (ops w) typesWithVersion 100 (Commit e) clusterURL")
    case (Inl err)
    with Suc.prems have "w' = w1" by (simp add: w1_def)
    then show ?thesis using a by simp
  next
    case (Inr toUpdate)
    show ?thesis
    proof (cases "length toUpdate = 0")
      case True
      with Suc.prems Inr have "w' = w1" by (simp add: w1_def)
      then show ?thesis using a by simp
    next
      case False
      define w1' where "w1' = emit (LogInfo ''starting update for next batch of outdated/failed tenants'') w1"
      have a': "keepsStop w w1'"
        by (simp add: keepsStop_def w1'_def w1_def emit_def tick_def)
      obtain canContinue err w2 where
        b: "updateTenants e toUpdate typesWithVersion w1' = ((canContinue, err), w2)"
        by (metis surj_pair)
      then have "w2 = snd (updateTenants_loop e toUpdate typesWithVersion True w1')"
        by (auto simp add: updateTenants_def split: prod.splits)
      then have ob: "keepsStop w w2"
        using keepsStop_trans [OF a' keepsStop_updateTenants_loop [OF nf st]] by simp
      define w3 where "w3 = w2\<lparr>runState := (interfere e (ops w2) (runState w2))
                                       \<lparr>LastTimeUpdated := now w2\<rparr>,
                              ops := ops w2 + 3,
                              trace := trace w2 @ [TxBegin, LockTable,
                                                   RepoCall UpdateLastTimeUpdatedOp True]\<rparr>"
      have t: "Transaction e (lock e (closure0 (repo_UpdateLastTimeUpdated e))) () w2 = ((None, ()), w3)"
        using nf
        by (simp add: Transaction_lock_ok closure0_def repo_UpdateLastTimeUpdated_def repoCall_def
            emit_def tick_def w3_def eval_nat_numeral world_order)
      have "keepsStop w2 w3" using st by (simp add: keepsStop_def w3_def)
      then have ot: "keepsStop w w3" using keepsStop_trans [OF ob] by blast
      from Suc.prems Inr False
      have "w' = w2 \<or> updateForCluster fuel e clusterURL typesWithVersion w3 = Some (r, w')"
        by (auto simp add: w1_def [symmetric] w1'_def [symmetric] b t Let_def split: if_splits)
      then show ?thesis
        using ob ot Suc.IH keepsStop_trans by blast
    qed
  qed
qed

lemma keepsStop_runClusters:
  assumes nf: "\<forall>k. \<not> dbFails e k"
    and st: "\<forall>k tu. \<not> CanContinue tu \<longrightarrow> \<not> CanContinue (interfere e k tu)"
  shows "runClusters fuel e clusters typesAndVersion w = Some (errs, w') \<Longrightarrow> keepsStop w w'"
proof (induction clusters arbitrary: w errs)
  case Nil
  then show ?case by (simp add: keepsStop_refl)
next
  case (Cons clusterURL clusters)
  from Cons.prems obtain r w1 where
    u: "updateForCluster fuel e clusterURL typesAndVersion w = Some (r, w1)"
    by (auto split: option.splits)
  have a: "keepsStop w w1" by (rule keepsStop_updateForCluster [OF nf st u])
  show ?case
  proof (cases r)
    case None
    with Cons.prems u have "runClusters fuel e clusters typesAndVersion w1 = Some (errs, w')"
      by simp
    from Cons.IH [OF this] show ?thesis using a keepsStop_trans by blast
  next
    case (Some err)
    define w1' where "w1' = emit (LogError ''the tenants updated failed for the cluster'') w1"
    have b: "keepsStop w1 w1'" by (simp add: keepsStop_def w1'_def emit_def)
    from Cons.prems u Some obtain errs' where
      "runClusters fuel e clusters typesAndVersion w1' = Some (errs', w')"
      by (auto simp add: w1'_def split: option.splits)
    from Cons.IH [OF this] show ?thesis using a b keepsStop_trans by blast
  qed
qed

lemma updateTenants_loop_stopped:
  assumes nf: "\<forall>k. \<not> dbFails e k"
  shows "updateTenants_loop e tenants typesWithVersion True w = (False, w2)
           \<Longrightarrow> \<not> CanContinue (runState w2)"
proof (induction tenants arbitrary: w)
  case Nil
  then show ?case by simp
next
  case (Cons tnnt tenants)
  define tu where "tu = interfere e (ops w) (runState w)"
  define w1 where "w1 = w\<lparr>runState := tu, ops := ops w + 2,
        trace := trace w @ [TxBegin, RepoCall CanContinueOp False]\<rparr>"
  have c: "Transaction e (updateTenants_tx e) True w = ((None, CanContinue tu), w1)"
    using nf by (simp add: check_ok w1_def tu_def)
  show ?case
  proof (cases "CanContinue tu")
    case False
    with Cons.prems have "w2 = emit (LogInfo ''stopping tenants update process'') w1"
      by (simp add: c)
    with False show ?thesis by (simp add: emit_def w1_def)
  next
    case True
    with Cons.prems have "updateTenants_loop e tenants typesWithVersion True
        (time_Sleep (GetAutomatedUpdateTimeGap e) (updateTenant e tnnt typesWithVersion w1))
        = (False, w2)"
      by (simp add: c)
    then show ?thesis by (rule Cons.IH)
  qed
qed

lemma pass_ends_Killed:
  assumes nf: "\<forall>k. \<not> dbFails e k"
    and st: "\<forall>k tu. \<not> CanContinue tu \<longrightarrow> \<not> CanContinue (interfere e k tu)"
    and cl: "(limitToCluster u \<noteq> [] \<and> clustersToUpdate = [limitToCluster u] \<and> w1 = w) \<or>
             (limitToCluster u = [] \<and>
              GetClustersToUpdate e (ops w) (typesWithVersion_loop u e envTypes []) (Commit e)
                = Inr clustersToUpdate \<and>
              w1 = emit FetchClusters (tick w))"
    and rc: "runClusters fuel e clustersToUpdate (typesWithVersion_loop u e envTypes []) w1
               = Some ([], w2)"
    and off: "\<not> CanContinue (runState w2)"
  shows "\<exists>w'. updateTenantsForTypes fuel u e envTypes w = Some (None, w') \<and>
              Status (runState w') = Killed"
proof -
  define tu where "tu = interfere e (ops w2) (runState w2)"
  define vms where "vms = filter (\<lambda>vm. list_all (IsOk (filterEnvType u)) (EnvTypes vm))
                            (RetrieveVersionManagers e)"
  define w3 where "w3 = w2\<lparr>runState := fold SetCurrentVersion vms (tu\<lparr>Status := statusAfterUpdate u tu\<rparr>),
       ops := ops w2 + 4,
       trace := trace w2 @ [TxBegin, LockTable, RepoCall GetTenantsUpdateOp True]
                 @ map SetVersion vms
                 @ [LogInfo ''the whole tenants update process has been finished'',
                    RepoCall SaveTenantsUpdateOp True]\<rparr>"
  have t: "Transaction e (lock e (closure0 (setStatusAndVersionsAfterUpdate u e))) () w2
             = ((None, ()), w3)"
    using nf
    by (simp add: Transaction_lock_ok closure0_def setStatusAndVersionsAfterUpdate_ok
        w3_def tu_def vms_def eval_nat_numeral world_order)
  from cl rc have res: "updateTenantsForTypes fuel u e envTypes w = Some (None, w3)"
    by (auto simp add: updateTenantsForTypes_eq t)
  from off st have "\<not> CanContinue tu" by (simp add: tu_def)
  then have "Status (runState w3) = Killed"
    by (simp add: w3_def fold_SetCurrentVersion_frame statusAfterUpdate_def)
  with res show ?thesis by blast
qed

text \<open>
  C8 (as amended). (1) The loop of \<open>updateTenants\<close> reads \<open>CanContinue\<close> before every tenant, in
  whatever world the tenant is reached: when the begin and the read succeed and the value
  read is \<open>true\<close>, it updates this tenant, sleeps and goes on with the next one; when the value
  read is \<open>false\<close>, it returns \<open>false\<close> at once, and neither this tenant nor any later one is
  touched. (2) A cluster runner whose batch returned \<open>false\<close> returns without error and without
  fetching another batch. (3) Suppose that no database call fails and that no other actor
  switches \<open>CanContinue\<close> back on. Then every pass in which a stop was logged and all cluster
  runners have returned, none of them with an error, returns no error and leaves the status
  \<open>Killed\<close>; (4) and so does, in particular, every pass over a single cluster whose first
  batch is stopped by the switch.
\<close>

theorem kill_switch_stops_runner_and_quiet_run_ends_killed:
  "(\<forall>w tnnt rest canContinue.
            \<not> dbFails e (ops w) \<and> \<not> dbFails e (Suc (ops w)) \<longrightarrow>
            updateTenants_loop e (tnnt # rest) typesWithVersion canContinue w =
              (if CanContinue (interfere e (ops w) (runState w))
               then updateTenants_loop e rest typesWithVersion True
                      (time_Sleep (GetAutomatedUpdateTimeGap e)
                         (updateTenant e tnnt typesWithVersion
                            (w\<lparr>runState := interfere e (ops w) (runState w), ops := ops w + 2,
                               trace := trace w @ [TxBegin, RepoCall CanContinueOp False]\<rparr>)))
               else (False, w\<lparr>runState := interfere e (ops w) (runState w), ops := ops w + 2,
                              trace := trace w @ [TxBegin, RepoCall CanContinueOp False,
                                                  LogInfo ''stopping tenants update process'']\<rparr>))) \<and>
         (\<forall>w toUpdate err w2.
            GetTenantsToUpdate e (ops w) typesWithVersion 100 (Commit e) clusterURL = Inr toUpdate \<and>
            toUpdate \<noteq> [] \<and>
            updateTenants e toUpdate typesWithVersion
              (emit (LogInfo ''starting update for next batch of outdated/failed tenants'')
                 (emit (FetchTenants clusterURL) (tick w))) = ((False, err), w2) \<longrightarrow>
            updateForCluster (Suc fuel) e clusterURL typesWithVersion w = Some (None, w2)) \<and>
         (\<forall>w u envTypes clustersToUpdate w1 w2.
            (\<forall>k. \<not> dbFails e k) \<and>
            (\<forall>k tu. \<not> CanContinue tu \<longrightarrow> \<not> CanContinue (interfere e k tu)) \<and>
            ((limitToCluster u \<noteq> [] \<and> clustersToUpdate = [limitToCluster u] \<and> w1 = w) \<or>
             (limitToCluster u = [] \<and>
              GetClustersToUpdate e (ops w) (typesWithVersion_loop u e envTypes []) (Commit e)
                = Inr clustersToUpdate \<and>
              w1 = emit FetchClusters (tick w))) \<and>
            runClusters fuel e clustersToUpdate (typesWithVersion_loop u e envTypes []) w1
              = Some ([], w2) \<and>
            LogInfo ''stopping tenants update process'' \<in> set (drop (length (trace w)) (trace w2))
            \<longrightarrow> (\<exists>w'. updateTenantsForTypes fuel u e envTypes w = Some (None, w') \<and>
                      Status (runState w') = Killed)) \<and>
         (\<forall>w u envTypes c w1 toUpdate err w2.
            (\<forall>k. \<not> dbFails e k) \<and>
            (\<forall>k tu. \<not> CanContinue tu \<longrightarrow> \<not> CanContinue (interfere e k tu)) \<and>
            ((limitToCluster u \<noteq> [] \<and> c = limitToCluster u \<and> w1 = w) \<or>
             (limitToCluster u = [] \<and>
              GetClustersToUpdate e (ops w) (typesWithVersion_loop u e envTypes []) (Commit e)
                = Inr [c] \<and>
              w1 = emit FetchClusters (tick w))) \<and>
            GetTenantsToUpdate e (ops w1) (typesWithVersion_loop u e envTypes []) 100 (Commit e) c
              = Inr toUpdate \<and>
            toUpdate \<noteq> [] \<and>
            updateTenants e toUpdate (typesWithVersion_loop u e envTypes [])
              (emit (LogInfo ''starting update for next batch of outdated/failed tenants'')
                 (emit (FetchTenants c) (tick w1))) = ((False, err), w2)
            \<longrightarrow> (\<exists>w'. updateTenantsForTypes (Suc fuel) u e envTypes w = Some (None, w') \<and>
                      Status (runState w') = Killed))"
  (is "?P1 \<and> ?P2 \<and> ?P3 \<and> ?P4")
proof -
  have 1: ?P1
    by (simp add: check_ok emit_def)
  have 2: ?P2
  proof (intro allI impI)
    fix w :: world and toUpdate err w2
    assume "GetTenantsToUpdate e (ops w) typesWithVersion 100 (Commit e) clusterURL = Inr toUpdate \<and>
            toUpdate \<noteq> [] \<and>
            updateTenants e toUpdate typesWithVersion
              (emit (LogInfo ''starting update for next batch of outdated/failed tenants'')
                 (emit (FetchTenants clusterURL) (tick w))) = ((False, err), w2)"
    moreover from this have "err = None"
      by (auto simp add: updateTenants_def split: prod.splits)
    ultimately show "updateForCluster (Suc fuel) e clusterURL typesWithVersion w = Some (None, w2)"
      by simp
  qed
  have 3: ?P3
  proof (intro allI impI)
    fix w :: world and u envTypes clustersToUpdate w1 w2
    assume h: "(\<forall>k. \<not> dbFails e k) \<and>
            (\<forall>k tu. \<not> CanContinue tu \<longrightarrow> \<not> CanContinue (interfere e k tu)) \<and>
            ((limitToCluster u \<noteq> [] \<and> clustersToUpdate = [limitToCluster u] \<and> w1 = w) \<or>
             (limitToCluster u = [] \<and>
              GetClustersToUpdate e (ops w) (typesWithVersion_loop u e envTypes []) (Commit e)
                = Inr clustersToUpdate \<and>
              w1 = emit FetchClusters (tick w))) \<and>
            runClusters fuel e clustersToUpdate (typesWithVersion_loop u e envTypes []) w1
              = Some ([], w2) \<and>
            LogInfo ''stopping tenants update process'' \<in> set (drop (length (trace w)) (trace w2))"
    then have nf: "\<forall>k. \<not> dbFails e k"
      and st: "\<forall>k tu. \<not> CanContinue tu \<longrightarrow> \<not> CanContinue (interfere e k tu)"
      and rc: "runClusters fuel e clustersToUpdate (typesWithVersion_loop u e envTypes []) w1
                 = Some ([], w2)"
      by blast+
    from h have a: "keepsStop w w1" by (auto simp add: keepsStop_def emit_def tick_def)
    have kw: "keepsStop w w2"
      by (rule keepsStop_trans [OF a keepsStop_runClusters [OF nf st rc]])
    from kw obtain evs where e: "trace w2 = trace w @ evs"
      and s: "LogInfo ''stopping tenants update process'' \<in> set evs \<longrightarrow> \<not> CanContinue (runState w2)"
      unfolding keepsStop_def by blast
    from h e have "LogInfo ''stopping tenants update process'' \<in> set evs"
      by auto
    with s have off: "\<not> CanContinue (runState w2)" by simp
    from h have cl: "(limitToCluster u \<noteq> [] \<and> clustersToUpdate = [limitToCluster u] \<and> w1 = w) \<or>
             (limitToCluster u = [] \<and>
              GetClustersToUpdate e (ops w) (typesWithVersion_loop u e envTypes []) (Commit e)
                = Inr clustersToUpdate \<and>
              w1 = emit FetchClusters (tick w))"
      by blast
    show "(\<exists>w'. updateTenantsForTypes fuel u e envTypes w = Some (None, w') \<and>
                      Status (runState w') = Killed)"
      by (rule pass_ends_Killed [OF nf st cl rc off])
  qed
  have 4: ?P4
  proof (intro allI impI)
    fix w :: world and u envTypes c w1 toUpdate err w2
    assume h: "(\<forall>k. \<not> dbFails e k) \<and>
            (\<forall>k tu. \<not> CanContinue tu \<longrightarrow> \<not> CanContinue (interfere e k tu)) \<and>
            ((limitToCluster u \<noteq> [] \<and> c = limitToCluster u \<and> w1 = w) \<or>
             (limitToCluster u = [] \<and>
              GetClustersToUpdate e (ops w) (typesWithVersion_loop u e envTypes []) (Commit e)
                = Inr [c] \<and>
              w1 = emit FetchClusters (tick w))) \<and>
            GetTenantsToUpdate e (ops w1) (typesWithVersion_loop u e envTypes []) 100 (Commit e) c
              = Inr toUpdate \<and>
            toUpdate \<noteq> [] \<and>
            updateTenants e toUpdate (typesWithVersion_loop u e envTypes [])
              (emit (LogInfo ''starting update for next batch of outdated/failed tenants'')
                 (emit (FetchTenants c) (tick w1))) = ((False, err), w2)"
    define tv where "tv = typesWithVersion_loop u e envTypes []"
    from h have nf: "\<forall>k. \<not> dbFails e k"
      and st: "\<forall>k tu. \<not> CanContinue tu \<longrightarrow> \<not> CanContinue (interfere e k tu)"
      and g: "GetTenantsToUpdate e (ops w1) tv 100 (Commit e) c = Inr toUpdate"
      and ne: "toUpdate \<noteq> []"
      and b: "updateTenants e toUpdate tv
                (emit (LogInfo ''starting update for next batch of outdated/failed tenants'')
                   (emit (FetchTenants c) (tick w1))) = ((False, err), w2)"
      by (simp_all add: tv_def)
    from b have err: "err = None"
      and l: "updateTenants_loop e toUpdate tv True
                (emit (LogInfo ''starting update for next batch of outdated/failed tenants'')
                   (emit (FetchTenants c) (tick w1))) = (False, w2)"
      by (auto simp add: updateTenants_def split: prod.splits)
    have off: "\<not> CanContinue (runState w2)"
      by (rule updateTenants_loop_stopped [OF nf l])
    from g ne b err have "updateForCluster (Suc fuel) e c tv w1 = Some (None, w2)"
      by simp
    then have rc: "runClusters (Suc fuel) e [c] (typesWithVersion_loop u e envTypes []) w1
                     = Some ([], w2)"
      by (simp add: tv_def)
    from h have cl: "(limitToCluster u \<noteq> [] \<and> [c] = [limitToCluster u] \<and> w1 = w) \<or>
             (limitToCluster u = [] \<and>
              GetClustersToUpdate e (ops w) (typesWithVersion_loop u e envTypes []) (Commit e)
                = Inr [c] \<and>
              w1 = emit FetchClusters (tick w))"
      by blast
    show "(\<exists>w'. updateTenantsForTypes (Suc fuel) u e envTypes w = Some (None, w') \<and>
                      Status (runState w') = Killed)"
      by (rule pass_ends_Killed [OF nf st cl rc off])
  qed
  from 1 2 3 4 show ?thesis by (intro conjI)
qed

theorem kill_switch_stops_runner_and_quiet_run_ends_killed_witness:
  "(\<not> dbFails kill_env (ops (world0\<lparr>ops := 10\<rparr>)) \<and>
   \<not> dbFails kill_env (Suc (ops (world0\<lparr>ops := 10\<rparr>)))) \<and>
   (updateTenants_loop kill_env [tenant ''t3'', tenant ''t4'', tenant ''t5''] [(''user'', ''v2'')] True
     (world0\<lparr>ops := 10\<rparr>) =
     (False,
      \<lparr>runState = row0\<lparr>CanContinue := False\<rparr>, now = 1000, ops = 12,
       trace = [TxBegin, RepoCall CanContinueOp False,
                LogInfo ''stopping tenants update process'']\<rparr>)) \<and>
   \<not> dbFails kill_env (ops world0) \<and> \<not> dbFails kill_env (Suc (ops world0)) \<and>
   (updateTenants_loop kill_env [tenant ''t5''] [(''user'', ''v2'')] True world0 =
     (True,
      \<lparr>runState = row0, now = 1001, ops = 4,
       trace = [TxBegin, RepoCall CanContinueOp False, FetchNamespaces ''t5'',
                LogInfo ''starting update of tenant for outdated namespaces'',
                ExecutorUpdate ''t5'' [''user''] False,
                LogInfo ''update of tenant for outdated namespace finished'', Sleep 1]\<rparr>)) \<and>
   (GetTenantsToUpdate kill_env (ops (world0\<lparr>ops := 1\<rparr>)) [(''user'', ''v2'')] 100 (Commit kill_env) ''c1''
     = Inr [tenant ''t1'', tenant ''t2'', tenant ''t3'', tenant ''t4'', tenant ''t5'']) \<and>
   ([tenant ''t1'', tenant ''t2'', tenant ''t3'', tenant ''t4'', tenant ''t5''] \<noteq> []) \<and>
   (updateTenants kill_env [tenant ''t1'', tenant ''t2'', tenant ''t3'', tenant ''t4'', tenant ''t5''] [(''user'', ''v2'')]
     (emit (LogInfo ''starting update for next batch of outdated/failed tenants'')
        (emit (FetchTenants ''c1'') (tick (world0\<lparr>ops := 1\<rparr>)))) =
     ((False, None),
      \<lparr>runState = row0\<lparr>CanContinue := False\<rparr>, now = 1002, ops = 12,
       trace =
         [FetchTenants ''c1'',
          LogInfo ''starting update for next batch of outdated/failed tenants'',
          TxBegin, RepoCall CanContinueOp False, FetchNamespaces ''t1'',
          LogInfo ''starting update of tenant for outdated namespaces'',
          ExecutorUpdate ''t1'' [''user''] False,
          LogInfo ''update of tenant for outdated namespace finished'', Sleep 1,
          TxBegin, RepoCall CanContinueOp False, FetchNamespaces ''t2'',
          LogInfo ''starting update of tenant for outdated namespaces'',
          ExecutorUpdate ''t2'' [''user''] False,
          LogInfo ''update of tenant for outdated namespace finished'', Sleep 1,
          TxBegin, RepoCall CanContinueOp False,
          LogInfo ''stopping tenants update process'']\<rparr>)) \<and>
   (updateForCluster (Suc 1) kill_env ''c1'' [(''user'', ''v2'')] (world0\<lparr>ops := 1\<rparr>) =
     Some (None,
      \<lparr>runState = row0\<lparr>CanContinue := False\<rparr>, now = 1002, ops = 12,
       trace =
         [FetchTenants ''c1'',
          LogInfo ''starting update for next batch of outdated/failed tenants'',
          TxBegin, RepoCall CanContinueOp False, FetchNamespaces ''t1'',
          LogInfo ''starting update of tenant for outdated namespaces'',
          ExecutorUpdate ''t1'' [''user''] False,
          LogInfo ''update of tenant for outdated namespace finished'', Sleep 1,
          TxBegin, RepoCall CanContinueOp False, FetchNamespaces ''t2'',
          LogInfo ''starting update of tenant for outdated namespaces'',
          ExecutorUpdate ''t2'' [''user''] False,
          LogInfo ''update of tenant for outdated namespace finished'', Sleep 1,
          TxBegin, RepoCall CanContinueOp False,
          LogInfo ''stopping tenants update process'']\<rparr>)) \<and>
   (\<forall>k. \<not> dbFails kill_env k) \<and>
   ((limitToCluster unrestricted \<noteq> [] \<and> [''c1''] = [limitToCluster unrestricted]
      \<and> emit FetchClusters (tick world0) = world0) \<or>
    (limitToCluster unrestricted = [] \<and>
     GetClustersToUpdate kill_env (ops world0)
       (typesWithVersion_loop unrestricted kill_env [''user''] []) (Commit kill_env) = Inr [''c1''] \<and>
     emit FetchClusters (tick world0) = emit FetchClusters (tick world0))) \<and>
   (runClusters 1 kill_env [''c1''] (typesWithVersion_loop unrestricted kill_env [''user''] [])
     (emit FetchClusters (tick world0)) =
     Some ([],
      \<lparr>runState = row0\<lparr>CanContinue := False\<rparr>, now = 1002, ops = 12,
       trace =
         FetchClusters #
         [FetchTenants ''c1'',
          LogInfo ''starting update for next batch of outdated/failed tenants'',
          TxBegin, RepoCall CanContinueOp False, FetchNamespaces ''t1'',
          LogInfo ''starting update of tenant for outdated namespaces'',
          ExecutorUpdate ''t1'' [''user''] False,
          LogInfo ''update of tenant for outdated namespace finished'', Sleep 1,
          TxBegin, RepoCall CanContinueOp False, FetchNamespaces ''t2'',
          LogInfo ''starting update of tenant for outdated namespaces'',
          ExecutorUpdate ''t2'' [''user''] False,
          LogInfo ''update of tenant for outdated namespace finished'', Sleep 1,
          TxBegin, RepoCall CanContinueOp False,
          LogInfo ''stopping tenants update process'']\<rparr>)) \<and>
   (LogInfo ''stopping tenants update process''
     \<in> set (drop (length (trace world0)) (trace
      (\<lparr>runState = row0\<lparr>CanContinue := False\<rparr>, now = 1002, ops = 12,
       trace =
         FetchClusters #
         [FetchTenants ''c1'',
          LogInfo ''starting update for next batch of outdated/failed tenants'',
          TxBegin, RepoCall CanContinueOp False, FetchNamespaces ''t1'',
          LogInfo ''starting update of tenant for outdated namespaces'',
          ExecutorUpdate ''t1'' [''user''] False,
          LogInfo ''update of tenant for outdated namespace finished'', Sleep 1,
          TxBegin, RepoCall CanContinueOp False, FetchNamespaces ''t2'',
          LogInfo ''starting update of tenant for outdated namespaces'',
          ExecutorUpdate ''t2'' [''user''] False,
          LogInfo ''update of tenant for outdated namespace finished'', Sleep 1,
          TxBegin, RepoCall CanContinueOp False,
          LogInfo ''stopping tenants update process'']\<rparr>)))) \<and>
   (updateTenantsForTypes 1 unrestricted kill_env [''user''] world0 =
     Some (None,
      \<lparr>runState = \<lparr>Status = Killed, LastTimeUpdated = 0, FailedCount = 0, CanContinue = False,
              CurrentVersions = [(''user'', ''v2''), (''stage'', ''v2''), (''run'', ''v2'')]\<rparr>,
       now = 1002, ops = 16,
       trace =
         [FetchClusters, FetchTenants ''c1'',
          LogInfo ''starting update for next batch of outdated/failed tenants'',
          TxBegin, RepoCall CanContinueOp False, FetchNamespaces ''t1'',
          LogInfo ''starting update of tenant for outdated namespaces'',
          ExecutorUpdate ''t1'' [''user''] False,
          LogInfo ''update of tenant for outdated namespace finished'', Sleep 1,
          TxBegin, RepoCall CanContinueOp False, FetchNamespaces ''t2'',
          LogInfo ''starting update of tenant for outdated namespaces'',
          ExecutorUpdate ''t2'' [''user''] False,
          LogInfo ''update of tenant for outdated namespace finished'', Sleep 1,
          TxBegin, RepoCall CanContinueOp False,
          LogInfo ''stopping tenants update process'',
          TxBegin, LockTable, RepoCall GetTenantsUpdateOp True,
          SetVersion \<lparr>EnvTypes = [''user''], TargetVersion = ''v2''\<rparr>,
          SetVersion \<lparr>EnvTypes = [''stage'', ''run''], TargetVersion = ''v2''\<rparr>,
          LogInfo ''the whole tenants update process has been finished'',
          RepoCall SaveTenantsUpdateOp True]\<rparr>)) \<and>
   (Status (runState
      (\<lparr>runState = \<lparr>Status = Killed, LastTimeUpdated = 0, FailedCount = 0, CanContinue = False,
              CurrentVersions = [(''user'', ''v2''), (''stage'', ''v2''), (''run'', ''v2'')]\<rparr>,
       now = 1002, ops = 16,
       trace =
         [FetchClusters, FetchTenants ''c1'',
          LogInfo ''starting update for next batch of outdated/failed tenants'',
          TxBegin, RepoCall CanContinueOp False, FetchNamespaces ''t1'',
          LogInfo ''starting update of tenant for outdated namespaces'',
          ExecutorUpdate ''t1'' [''user''] False,
          LogInfo ''update of tenant for outdated namespace finished'', Sleep 1,
          TxBegin, RepoCall CanContinueOp False, FetchNamespaces ''t2'',
          LogInfo ''starting update of tenant for outdated namespaces'',
          ExecutorUpdate ''t2'' [''user''] False,
          LogInfo ''update of tenant for outdated namespace finished'', Sleep 1,
          TxBegin, RepoCall CanContinueOp False,
          LogInfo ''stopping tenants update process'',
          TxBegin, LockTable, RepoCall GetTenantsUpdateOp True,
          SetVersion \<lparr>EnvTypes = [''user''], TargetVersion = ''v2''\<rparr>,
          SetVersion \<lparr>EnvTypes = [''stage'', ''run''], TargetVersion = ''v2''\<rparr>,
          LogInfo ''the whole tenants update process has been finished'',
          RepoCall SaveTenantsUpdateOp True]\<rparr>)) = Killed) \<and>
   ((limitToCluster unrestricted \<noteq> [] \<and> ''c1'' = limitToCluster unrestricted
      \<and> emit FetchClusters (tick world0) = world0) \<or>
    (limitToCluster unrestricted = [] \<and>
     GetClustersToUpdate kill_env (ops world0)
       (typesWithVersion_loop unrestricted kill_env [''user''] []) (Commit kill_env) = Inr [''c1''] \<and>
     emit FetchClusters (tick world0) = emit FetchClusters (tick world0))) \<and>
   (GetTenantsToUpdate kill_env (ops (emit FetchClusters (tick world0)))
     (typesWithVersion_loop unrestricted kill_env [''user''] []) 100 (Commit kill_env) ''c1''
     = Inr [tenant ''t1'', tenant ''t2'', tenant ''t3'', tenant ''t4'', tenant ''t5'']) \<and>
   (updateTenants kill_env [tenant ''t1'', tenant ''t2'', tenant ''t3'', tenant ''t4'', tenant ''t5'']
     (typesWithVersion_loop unrestricted kill_env [''user''] [])
     (emit (LogInfo ''starting update for next batch of outdated/failed tenants'')
        (emit (FetchTenants ''c1'') (tick (emit FetchClusters (tick world0))))) =
     ((False, None),
      \<lparr>runState = row0\<lparr>CanContinue := False\<rparr>, now = 1002, ops = 12,
       trace =
         FetchClusters #
         [FetchTenants ''c1'',
          LogInfo ''starting update for next batch of outdated/failed tenants'',
          TxBegin, RepoCall CanContinueOp False, FetchNamespaces ''t1'',
          LogInfo ''starting update of tenant for outdated namespaces'',
          ExecutorUpdate ''t1'' [''user''] False,
          LogInfo ''update of tenant for outdated namespace finished'', Sleep 1,
          TxBegin, RepoCall CanContinueOp False, FetchNamespaces ''t2'',
          LogInfo ''starting update of tenant for outdated namespaces'',
          ExecutorUpdate ''t2'' [''user''] False,
          LogInfo ''update of tenant for outdated namespace finished'', Sleep 1,
          TxBegin, RepoCall CanContinueOp False,
          LogInfo ''stopping tenants update process'']\<rparr>)) \<and>
   (updateTenantsForTypes (Suc 1) unrestricted kill_env [''user''] world0 =
     Some (None,
      \<lparr>runState = \<lparr>Status = Killed, LastTimeUpdated = 0, FailedCount = 0, CanContinue = False,
              CurrentVersions = [(''user'', ''v2''), (''stage'', ''v2''), (''run'', ''v2'')]\<rparr>,
       now = 1002, ops = 16,
       trace =
         [FetchClusters, FetchTenants ''c1'',
          LogInfo ''starting update for next batch of outdated/failed tenants'',
          TxBegin, RepoCall CanContinueOp False, FetchNamespaces ''t1'',
          LogInfo ''starting update of tenant for outdated namespaces'',
          ExecutorUpdate ''t1'' [''user''] False,
          LogInfo ''update of tenant for outdated namespace finished'', Sleep 1,
          TxBegin, RepoCall CanContinueOp False, FetchNamespaces ''t2'',
          LogInfo ''starting update of tenant for outdated namespaces'',
          ExecutorUpdate ''t2'' [''user''] False,
          LogInfo ''update of tenant for outdated namespace finished'', Sleep 1,
          TxBegin, RepoCall CanContinueOp False,
          LogInfo ''stopping tenants update process'',
          TxBegin, LockTable, RepoCall GetTenantsUpdateOp True,
          SetVersion \<lparr>EnvTypes = [''user''], TargetVersion = ''v2''\<rparr>,
          SetVersion \<lparr>EnvTypes = [''stage'', ''run''], TargetVersion = ''v2''\<rparr>,
          LogInfo ''the whole tenants update process has been finished'',
          RepoCall SaveTenantsUpdateOp True]\<rparr>))"
proof -
  note T = kill_switch_stops_runner_and_quiet_run_ends_killed
             [where e = kill_env and typesWithVersion = "[(''user'', ''v2'')]"
                and clusterURL = "''c1''" and fuel = 1]
  note T1 = conjunct1 [OF T] and T2 = conjunct1 [OF conjunct2 [OF T]]
    and T3 = conjunct1 [OF conjunct2 [OF conjunct2 [OF T]]]
    and T4 = conjunct2 [OF conjunct2 [OF conjunct2 [OF T]]]
  have nf: "\<forall>k. \<not> dbFails kill_env k"
    and st: "\<forall>k tu. \<not> CanContinue tu \<longrightarrow> \<not> CanContinue (interfere kill_env k tu)"
    by (simp_all add: kill_env_def quiet_env_def)
  have p1h: "\<not> dbFails kill_env (ops (world0\<lparr>ops := 10\<rparr>)) \<and>
   \<not> dbFails kill_env (Suc (ops (world0\<lparr>ops := 10\<rparr>)))"
    and p1h0: "\<not> dbFails kill_env (ops world0) \<and> \<not> dbFails kill_env (Suc (ops world0))"
    by (simp_all add: kill_env_def quiet_env_def)
  have p1: "updateTenants_loop kill_env [tenant ''t3'', tenant ''t4'', tenant ''t5''] [(''user'', ''v2'')] True
     (world0\<lparr>ops := 10\<rparr>) =
     (False,
      \<lparr>runState = row0\<lparr>CanContinue := False\<rparr>, now = 1000, ops = 12,
       trace = [TxBegin, RepoCall CanContinueOp False,
                LogInfo ''stopping tenants update process'']\<rparr>)"
    by (rule trans [OF T1 [rule_format, OF p1h]])
       (simp add: kill_env_def quiet_env_def world0_def)
  have p1b: "updateTenants_loop kill_env [tenant ''t5''] [(''user'', ''v2'')] True world0 =
     (True,
      \<lparr>runState = row0, now = 1001, ops = 4,
       trace = [TxBegin, RepoCall CanContinueOp False, FetchNamespaces ''t5'',
                LogInfo ''starting update of tenant for outdated namespaces'',
                ExecutorUpdate ''t5'' [''user''] False,
                LogInfo ''update of tenant for outdated namespace finished'', Sleep 1]\<rparr>)"
    by (rule trans [OF T1 [rule_format, OF p1h0]])
       (simp add: model_defs kill_env_def quiet_env_def world0_def row0_def tenant_def
          namespace_def)
  have p2h1: "GetTenantsToUpdate kill_env (ops (world0\<lparr>ops := 1\<rparr>)) [(''user'', ''v2'')] 100 (Commit kill_env) ''c1''
     = Inr [tenant ''t1'', tenant ''t2'', tenant ''t3'', tenant ''t4'', tenant ''t5'']"
    and p2h2: "[tenant ''t1'', tenant ''t2'', tenant ''t3'', tenant ''t4'', tenant ''t5''] \<noteq> []"
    by (simp_all add: kill_env_def quiet_env_def world0_def)
  have p2h3: "updateTenants kill_env [tenant ''t1'', tenant ''t2'', tenant ''t3'', tenant ''t4'', tenant ''t5''] [(''user'', ''v2'')]
     (emit (LogInfo ''starting update for next batch of outdated/failed tenants'')
        (emit (FetchTenants ''c1'') (tick (world0\<lparr>ops := 1\<rparr>)))) =
     ((False, None),
      \<lparr>runState = row0\<lparr>CanContinue := False\<rparr>, now = 1002, ops = 12,
       trace =
         [FetchTenants ''c1'',
          LogInfo ''starting update for next batch of outdated/failed tenants'',
          TxBegin, RepoCall CanContinueOp False, FetchNamespaces ''t1'',
          LogInfo ''starting update of tenant for outdated namespaces'',
          ExecutorUpdate ''t1'' [''user''] False,
          LogInfo ''update of tenant for outdated namespace finished'', Sleep 1,
          TxBegin, RepoCall CanContinueOp False, FetchNamespaces ''t2'',
          LogInfo ''starting update of tenant for outdated namespaces'',
          ExecutorUpdate ''t2'' [''user''] False,
          LogInfo ''update of tenant for outdated namespace finished'', Sleep 1,
          TxBegin, RepoCall CanContinueOp False,
          LogInfo ''stopping tenants update process'']\<rparr>)"
    by (simp add: model_defs kill_env_def quiet_env_def world0_def row0_def tenant_def
        namespace_def)
  from T2 [rule_format, OF conjI [OF p2h1 conjI [OF p2h2 p2h3]]]
  have p2: "updateForCluster (Suc 1) kill_env ''c1'' [(''user'', ''v2'')] (world0\<lparr>ops := 1\<rparr>) =
     Some (None,
      \<lparr>runState = row0\<lparr>CanContinue := False\<rparr>, now = 1002, ops = 12,
       trace =
         [FetchTenants ''c1'',
          LogInfo ''starting update for next batch of outdated/failed tenants'',
          TxBegin, RepoCall CanContinueOp False, FetchNamespaces ''t1'',
          LogInfo ''starting update of tenant for outdated namespaces'',
          ExecutorUpdate ''t1'' [''user''] False,
          LogInfo ''update of tenant for outdated namespace finished'', Sleep 1,
          TxBegin, RepoCall CanContinueOp False, FetchNamespaces ''t2'',
          LogInfo ''starting update of tenant for outdated namespaces'',
          ExecutorUpdate ''t2'' [''user''] False,
          LogInfo ''update of tenant for outdated namespace finished'', Sleep 1,
          TxBegin, RepoCall CanContinueOp False,
          LogInfo ''stopping tenants update process'']\<rparr>)" .
  have p3cl: "(limitToCluster unrestricted \<noteq> [] \<and> [''c1''] = [limitToCluster unrestricted]
      \<and> emit FetchClusters (tick world0) = world0) \<or>
    (limitToCluster unrestricted = [] \<and>
     GetClustersToUpdate kill_env (ops world0)
       (typesWithVersion_loop unrestricted kill_env [''user''] []) (Commit kill_env) = Inr [''c1''] \<and>
     emit FetchClusters (tick world0) = emit FetchClusters (tick world0))"
    by (simp add: kill_env_def quiet_env_def unrestricted_def)
  have p3rc: "runClusters 1 kill_env [''c1''] (typesWithVersion_loop unrestricted kill_env [''user''] [])
     (emit FetchClusters (tick world0)) =
     Some ([],
      \<lparr>runState = row0\<lparr>CanContinue := False\<rparr>, now = 1002, ops = 12,
       trace =
         FetchClusters #
         [FetchTenants ''c1'',
          LogInfo ''starting update for next batch of outdated/failed tenants'',
          TxBegin, RepoCall CanContinueOp False, FetchNamespaces ''t1'',
          LogInfo ''starting update of tenant for outdated namespaces'',
          ExecutorUpdate ''t1'' [''user''] False,
          LogInfo ''update of tenant for outdated namespace finished'', Sleep 1,
          TxBegin, RepoCall CanContinueOp False, FetchNamespaces ''t2'',
          LogInfo ''starting update of tenant for outdated namespaces'',
          ExecutorUpdate ''t2'' [''user''] False,
          LogInfo ''update of tenant for outdated namespace finished'', Sleep 1,
          TxBegin, RepoCall CanContinueOp False,
          LogInfo ''stopping tenants update process'']\<rparr>)"
    by (simp add: model_defs kill_env_def quiet_env_def world0_def row0_def unrestricted_def
        tenant_def namespace_def)
  have p3stop: "LogInfo ''stopping tenants update process''
     \<in> set (drop (length (trace world0)) (trace
      (\<lparr>runState = row0\<lparr>CanContinue := False\<rparr>, now = 1002, ops = 12,
       trace =
         FetchClusters #
         [FetchTenants ''c1'',
          LogInfo ''starting update for next batch of outdated/failed tenants'',
          TxBegin, RepoCall CanContinueOp False, FetchNamespaces ''t1'',
          LogInfo ''starting update of tenant for outdated namespaces'',
          ExecutorUpdate ''t1'' [''user''] False,
          LogInfo ''update of tenant for outdated namespace finished'', Sleep 1,
          TxBegin, RepoCall CanContinueOp False, FetchNamespaces ''t2'',
          LogInfo ''starting update of tenant for outdated namespaces'',
          ExecutorUpdate ''t2'' [''user''] False,
          LogInfo ''update of tenant for outdated namespace finished'', Sleep 1,
          TxBegin, RepoCall CanContinueOp False,
          LogInfo ''stopping tenants update process'']\<rparr>)))"
    by (simp add: world0_def)
  have run: "updateTenantsForTypes 1 unrestricted kill_env [''user''] world0 =
     Some (None,
      \<lparr>runState = \<lparr>Status = Killed, LastTimeUpdated = 0, FailedCount = 0, CanContinue = False,
              CurrentVersions = [(''user'', ''v2''), (''stage'', ''v2''), (''run'', ''v2'')]\<rparr>,
       now = 1002, ops = 16,
       trace =
         [FetchClusters, FetchTenants ''c1'',
          LogInfo ''starting update for next batch of outdated/failed tenants'',
          TxBegin, RepoCall CanContinueOp False, FetchNamespaces ''t1'',
          LogInfo ''starting update of tenant for outdated namespaces'',
          ExecutorUpdate ''t1'' [''user''] False,
          LogInfo ''update of tenant for outdated namespace finished'', Sleep 1,
          TxBegin, RepoCall CanContinueOp False, FetchNamespaces ''t2'',
          LogInfo ''starting update of tenant for outdated namespaces'',
          ExecutorUpdate ''t2'' [''user''] False,
          LogInfo ''update of tenant for outdated namespace finished'', Sleep 1,
          TxBegin, RepoCall CanContinueOp False,
          LogInfo ''stopping tenants update process'',
          TxBegin, LockTable, RepoCall GetTenantsUpdateOp True,
          SetVersion \<lparr>EnvTypes = [''user''], TargetVersion = ''v2''\<rparr>,
          SetVersion \<lparr>EnvTypes = [''stage'', ''run''], TargetVersion = ''v2''\<rparr>,
          LogInfo ''the whole tenants update process has been finished'',
          RepoCall SaveTenantsUpdateOp True]\<rparr>)"
    by (simp add: model_defs kill_env_def quiet_env_def world0_def row0_def unrestricted_def
        tenant_def namespace_def)
  from T3 [rule_format, OF conjI [OF nf conjI [OF st conjI [OF p3cl conjI [OF p3rc p3stop]]]]]
  obtain w' where "updateTenantsForTypes 1 unrestricted kill_env [''user''] world0 = Some (None, w')"
    and "Status (runState w') = Killed"
    by blast
  with run have killed: "Status (runState
      (\<lparr>runState = \<lparr>Status = Killed, LastTimeUpdated = 0, FailedCount = 0, CanContinue = False,
              CurrentVersions = [(''user'', ''v2''), (''stage'', ''v2''), (''run'', ''v2'')]\<rparr>,
       now = 1002, ops = 16,
       trace =
         [FetchClusters, FetchTenants ''c1'',
          LogInfo ''starting update for next batch of outdated/failed tenants'',
          TxBegin, RepoCall CanContinueOp False, FetchNamespaces ''t1'',
          LogInfo ''starting update of tenant for outdated namespaces'',
          ExecutorUpdate ''t1'' [''user''] False,
          LogInfo ''update of tenant for outdated namespace finished'', Sleep 1,
          TxBegin, RepoCall CanContinueOp False, FetchNamespaces ''t2'',
          LogInfo ''starting update of tenant for outdated namespaces'',
          ExecutorUpdate ''t2'' [''user''] False,
          LogInfo ''update of tenant for outdated namespace finished'', Sleep 1,
          TxBegin, RepoCall CanContinueOp False,
          LogInfo ''stopping tenants update process'',
          TxBegin, LockTable, RepoCall GetTenantsUpdateOp True,
          SetVersion \<lparr>EnvTypes = [''user''], TargetVersion = ''v2''\<rparr>,
          SetVersion \<lparr>EnvTypes = [''stage'', ''run''], TargetVersion = ''v2''\<rparr>,
          LogInfo ''the whole tenants update process has been finished'',
          RepoCall SaveTenantsUpdateOp True]\<rparr>)) = Killed"
    by simp
  have p4cl: "(limitToCluster unrestricted \<noteq> [] \<and> ''c1'' = limitToCluster unrestricted
      \<and> emit FetchClusters (tick world0) = world0) \<or>
    (limitToCluster unrestricted = [] \<and>
     GetClustersToUpdate kill_env (ops world0)
       (typesWithVersion_loop unrestricted kill_env [''user''] []) (Commit kill_env) = Inr [''c1''] \<and>
     emit FetchClusters (tick world0) = emit FetchClusters (tick world0))"
    by (simp add: kill_env_def quiet_env_def unrestricted_def)
  have p4g: "GetTenantsToUpdate kill_env (ops (emit FetchClusters (tick world0)))
     (typesWithVersion_loop unrestricted kill_env [''user''] []) 100 (Commit kill_env) ''c1''
     = Inr [tenant ''t1'', tenant ''t2'', tenant ''t3'', tenant ''t4'', tenant ''t5'']"
    by (simp add: kill_env_def quiet_env_def world0_def emit_def tick_def)
  have p4b: "updateTenants kill_env [tenant ''t1'', tenant ''t2'', tenant ''t3'', tenant ''t4'', tenant ''t5'']
     (typesWithVersion_loop unrestricted kill_env [''user''] [])
     (emit (LogInfo ''starting update for next batch of outdated/failed tenants'')
        (emit (FetchTenants ''c1'') (tick (emit FetchClusters (tick world0))))) =
     ((False, None),
      \<lparr>runState = row0\<lparr>CanContinue := False\<rparr>, now = 1002, ops = 12,
       trace =
         FetchClusters #
         [FetchTenants ''c1'',
          LogInfo ''starting update for next batch of outdated/failed tenants'',
          TxBegin, RepoCall CanContinueOp False, FetchNamespaces ''t1'',
          LogInfo ''starting update of tenant for outdated namespaces'',
          ExecutorUpdate ''t1'' [''user''] False,
          LogInfo ''update of tenant for outdated namespace finished'', Sleep 1,
          TxBegin, RepoCall CanContinueOp False, FetchNamespaces ''t2'',
          LogInfo ''starting update of tenant for outdated namespaces'',
          ExecutorUpdate ''t2'' [''user''] False,
          LogInfo ''update of tenant for outdated namespace finished'', Sleep 1,
          TxBegin, RepoCall CanContinueOp False,
          LogInfo ''stopping tenants update process'']\<rparr>)"
    by (simp add: model_defs kill_env_def quiet_env_def world0_def row0_def unrestricted_def
        tenant_def namespace_def)
  have run2: "updateTenantsForTypes (Suc 1) unrestricted kill_env [''user''] world0 =
     Some (None,
      \<lparr>runState = \<lparr>Status = Killed, LastTimeUpdated = 0, FailedCount = 0, CanContinue = False,
              CurrentVersions = [(''user'', ''v2''), (''stage'', ''v2''), (''run'', ''v2'')]\<rparr>,
       now = 1002, ops = 16,
       trace =
         [FetchClusters, FetchTenants ''c1'',
          LogInfo ''starting update for next batch of outdated/failed tenants'',
          TxBegin, RepoCall CanContinueOp False, FetchNamespaces ''t1'',
          LogInfo ''starting update of tenant for outdated namespaces'',
          ExecutorUpdate ''t1'' [''user''] False,
          LogInfo ''update of tenant for outdated namespace finished'', Sleep 1,
          TxBegin, RepoCall CanContinueOp False, FetchNamespaces ''t2'',
          LogInfo ''starting update of tenant for outdated namespaces'',
          ExecutorUpdate ''t2'' [''user''] False,
          LogInfo ''update of tenant for outdated namespace finished'', Sleep 1,
          TxBegin, RepoCall CanContinueOp False,
          LogInfo ''stopping tenants update process'',
          TxBegin, LockTable, RepoCall GetTenantsUpdateOp True,
          SetVersion \<lparr>EnvTypes = [''user''], TargetVersion = ''v2''\<rparr>,
          SetVersion \<lparr>EnvTypes = [''stage'', ''run''], TargetVersion = ''v2''\<rparr>,
          LogInfo ''the whole tenants update process has been finished'',
          RepoCall SaveTenantsUpdateOp True]\<rparr>)"
    by (simp add: model_defs kill_env_def quiet_env_def world0_def row0_def unrestricted_def
        tenant_def namespace_def)
  from T4 [rule_format,
           OF conjI [OF nf conjI [OF st conjI [OF p4cl conjI [OF p4g conjI [OF p2h2 p4b]]]]]]
  obtain w4 where "updateTenantsForTypes (Suc 1) unrestricted kill_env [''user''] world0
                     = Some (None, w4)"
    and "Status (runState w4) = Killed"
    by blast
  with run2 have killed4: "Status (runState
      (\<lparr>runState = \<lparr>Status = Killed, LastTimeUpdated = 0, FailedCount = 0, CanContinue = False,
              CurrentVersions = [(''user'', ''v2''), (''stage'', ''v2''), (''run'', ''v2'')]\<rparr>,
       now = 1002, ops = 16,
       trace =
         [FetchClusters, FetchTenants ''c1'',
          LogInfo ''starting update for next batch of outdated/failed tenants'',
          TxBegin, RepoCall CanContinueOp False, FetchNamespaces ''t1'',
          LogInfo ''starting update of tenant for outdated namespaces'',
          ExecutorUpdate ''t1'' [''user''] False,
          LogInfo ''update of tenant for outdated namespace finished'', Sleep 1,
          TxBegin, RepoCall CanContinueOp False, FetchNamespaces ''t2'',
          LogInfo ''starting update of tenant for outdated namespaces'',
          ExecutorUpdate ''t2'' [''user''] False,
          LogInfo ''update of tenant for outdated namespace finished'', Sleep 1,
          TxBegin, RepoCall CanContinueOp False,
          LogInfo ''stopping tenants update process'',
          TxBegin, LockTable, RepoCall GetTenantsUpdateOp True,
          SetVersion \<lparr>EnvTypes = [''user''], TargetVersion = ''v2''\<rparr>,
          SetVersion \<lparr>EnvTypes = [''stage'', ''run''], TargetVersion = ''v2''\<rparr>,
          LogInfo ''the whole tenants update process has been finished'',
          RepoCall SaveTenantsUpdateOp True]\<rparr>)) = Killed"
    by simp
  show ?thesis
    using conjunct1 [OF p1h] conjunct2 [OF p1h] p1 conjunct1 [OF p1h0] conjunct2 [OF p1h0]
      p1b p2h1 p2h2 p2h3 p2 nf p3cl p3rc p3stop run
      killed killed4 p4cl p4g p4b run2
    by (intro conjI)
qed

text \<open>
  The claim C8 as it is written fails on two runs that start from a failed one. In both, the
  runner of the cluster \<open>c1\<close> reads \<open>CanContinue\<close> as \<open>false\<close> before the third tenant and stops.
  In the first run the switch is on again when the finalization reads the row: the run ends
  \<open>Finished\<close> and commits all versions. In the second run the tenant query of the cluster \<open>c2\<close>
  fails: the pass returns an error, the finalization is not called, and the error handler of
  the trigger sets the status \<open>Failed\<close>.
\<close>

theorem kill_switch_run_not_killed_counterexample:
  "UpdateAllTenants 1 unrestricted switch_back_env world_failed =
     Some \<lparr>runState = \<lparr>Status = Finished, LastTimeUpdated = 0, FailedCount = 0, CanContinue = True,
              CurrentVersions = [(''user'', ''v2''), (''stage'', ''v2''), (''run'', ''v2'')]\<rparr>,
           now = 1002, ops = 20,
           trace =
             [LogInfo ''triggering tenants update process'', TxBegin, LockTable,
              RepoCall GetTenantsUpdateOp True,
              LogInfo ''last update has status - going to check failed or incomplete updates'',
              LogInfo ''starting update for outdated types'',
              RepoCall PrepareForUpdatingOp True, FetchClusters, FetchTenants ''c1'',
              LogInfo ''starting update for next batch of outdated/failed tenants'',
              TxBegin, RepoCall CanContinueOp False, FetchNamespaces ''t1'',
              LogInfo ''starting update of tenant for outdated namespaces'',
              ExecutorUpdate ''t1'' [''user''] False,
              LogInfo ''update of tenant for outdated namespace finished'', Sleep 1,
              TxBegin, RepoCall CanContinueOp False, FetchNamespaces ''t2'',
              LogInfo ''starting update of tenant for outdated namespaces'',
              ExecutorUpdate ''t2'' [''user''] False,
              LogInfo ''update of tenant for outdated namespace finished'', Sleep 1,
              TxBegin, RepoCall CanContinueOp False,
              LogInfo ''stopping tenants update process'',
              TxBegin, LockTable, RepoCall GetTenantsUpdateOp True,
              SetVersion \<lparr>EnvTypes = [''user''], TargetVersion = ''v2''\<rparr>,
              SetVersion \<lparr>EnvTypes = [''stage'', ''run''], TargetVersion = ''v2''\<rparr>,
              LogInfo ''the whole tenants update process has been finished'',
              RepoCall SaveTenantsUpdateOp True]\<rparr> \<and>
   UpdateAllTenants 1 unrestricted sibling_error_env world_failed =
     Some \<lparr>runState = \<lparr>Status = Failed, LastTimeUpdated = 0, FailedCount = 0, CanContinue = False,
              CurrentVersions = [(''user'', ''v1''), (''stage'', ''v1''), (''run'', ''v1'')]\<rparr>,
           now = 1002, ops = 20,
           trace =
             [LogInfo ''triggering tenants update process'', TxBegin, LockTable,
              RepoCall GetTenantsUpdateOp True,
              LogInfo ''last update has status - going to check failed or incomplete updates'',
              LogInfo ''starting update for outdated types'',
              RepoCall PrepareForUpdatingOp True, FetchClusters, FetchTenants ''c1'',
              LogInfo ''starting update for next batch of outdated/failed tenants'',
              TxBegin, RepoCall CanContinueOp False, FetchNamespaces ''t1'',
              LogInfo ''starting update of tenant for outdated namespaces'',
              ExecutorUpdate ''t1'' [''user''] False,
              LogInfo ''update of tenant for outdated namespace finished'', Sleep 1,
              TxBegin, RepoCall CanContinueOp False, FetchNamespaces ''t2'',
              LogInfo ''starting update of tenant for outdated namespaces'',
              ExecutorUpdate ''t2'' [''user''] False,
              LogInfo ''update of tenant for outdated namespace finished'', Sleep 1,
              TxBegin, RepoCall CanContinueOp False,
              LogInfo ''stopping tenants update process'',
              FetchTenants ''c2'', LogError ''the tenants updated failed for the cluster'',
              LogError ''automatic tenant update failed'', TxBegin, LockTable,
              RepoCall UpdateStatusOp True]\<rparr>"
  by (simp add: model_defs switch_back_env_def sibling_error_env_def quiet_env_def
      world_failed_def world0_def row0_def unrestricted_def tenant_def namespace_def)

end
